theory Spec2Isabelle
  imports Complex_Main
begin

text \<open>
  A model of the charities-uk client library: the transport with its retry loop, the
  error classes, the base client with its cache, the normalisation of the three
  regulators' records and the three clients, followed by the properties proved of
  them. The network is an oracle: a function from the number of earlier calls of
  \<open>fetch\<close> and the call to the outcome of the call. A method of a client is a function
  from the state of the client (the calls made, the clock, the cache, the warnings
  logged) to its outcome and the new state; a thrown error is a left value.
\<close>

section \<open>JavaScript values used by the library\<close>

text \<open>
  Strings are lists of characters with code points below 256. Counts and durations
  (retry attempts, delays in milliseconds, cache sizes) are natural numbers; the other
  numbers of the library are integers. A JavaScript number that may be \<open>NaN\<close> or
  infinite is a \<open>jsnum\<close>.
\<close>

datatype jsnum = Fin int | NaN | PosInf | NegInf

definition isNaN :: "jsnum \<Rightarrow> bool" where
  "isNaN x = (x = NaN)"

text \<open>Truthiness of \<open>number | undefined\<close>: \<open>undefined\<close>, \<open>0\<close> and \<open>NaN\<close> are falsy.\<close>

fun truthy_num :: "jsnum option \<Rightarrow> bool" where
  "truthy_num None = False"
| "truthy_num (Some (Fin n)) = (n \<noteq> 0)"
| "truthy_num (Some NaN) = False"
| "truthy_num (Some PosInf) = True"
| "truthy_num (Some NegInf) = True"

definition is_digit :: "char \<Rightarrow> bool" where
  "is_digit c = (48 \<le> (of_char c :: nat) \<and> (of_char c :: nat) \<le> 57)"

definition digit_val :: "char \<Rightarrow> int" where
  "digit_val c = (of_char c :: int) - 48"

text \<open>The value of a string of decimal digits, most significant digit first.\<close>

definition int_of_digits :: "string \<Rightarrow> int" where
  "int_of_digits ds = foldl (\<lambda>acc c. 10 * acc + digit_val c) 0 ds"

text \<open>\<open>String(n)\<close> for an integer \<open>n\<close>: the decimal digits, with a minus sign below zero.\<close>

function string_of_pos :: "int \<Rightarrow> string" where
  "string_of_pos n =
     (if n < 10 then [char_of (48 + n)]
      else string_of_pos (n div 10) @ [char_of (48 + n mod 10)])"
  by pat_completeness auto
termination
  by (relation "measure nat") auto

declare string_of_pos.simps [simp del]

definition string_of_int :: "int \<Rightarrow> string" where
  "string_of_int i = (if i < 0 then CHR ''-'' # string_of_pos (- i) else string_of_pos i)"

text \<open>
  \<open>toUpperCase\<close> and \<open>toLowerCase\<close> on the ASCII letters; every other character is
  left as it is.
\<close>

definition upper_char :: "char \<Rightarrow> char" where
  "upper_char c =
     (let n = (of_char c :: nat) in if 97 \<le> n \<and> n \<le> 122 then char_of (n - 32) else c)"

definition lower_char :: "char \<Rightarrow> char" where
  "lower_char c =
     (let n = (of_char c :: nat) in if 65 \<le> n \<and> n \<le> 90 then char_of (n + 32) else c)"

definition toUpperCase :: "string \<Rightarrow> string" where
  "toUpperCase s = map upper_char s"

definition toLowerCase :: "string \<Rightarrow> string" where
  "toLowerCase s = map lower_char s"

definition startsWith :: "string \<Rightarrow> string \<Rightarrow> bool" where
  "startsWith s p = (take (length p) s = p)"

text \<open>\<open>s.includes(p)\<close>: \<open>p\<close> occurs in \<open>s\<close> as a contiguous substring.\<close>

fun includes_str :: "string \<Rightarrow> string \<Rightarrow> bool" where
  "includes_str [] p = (p = [])"
| "includes_str (c # s) p = (take (length p) (c # s) = p \<or> includes_str s p)"

text \<open>\<open>parts.join(sep)\<close>.\<close>

fun join :: "string \<Rightarrow> string list \<Rightarrow> string" where
  "join sep [] = []"
| "join sep [x] = x"
| "join sep (x # y # ys) = x @ sep @ join sep (y # ys)"

section \<open>Query strings (BaseClient.buildQueryString)\<close>

text \<open>
  A parameter value is \<open>string | number | boolean | undefined\<close>; the tests also pass
  \<open>null\<close>. A parameter object is the list of its properties in insertion order.
\<close>

datatype param = PUndefined | PNull | PStr string | PNum int | PBool bool

text \<open>\<open>String(value)\<close>.\<close>

fun String_of :: "param \<Rightarrow> string" where
  "String_of PUndefined = ''undefined''"
| "String_of PNull = ''null''"
| "String_of (PStr s) = s"
| "String_of (PNum n) = string_of_int n"
| "String_of (PBool b) = (if b then ''true'' else ''false'')"

text \<open>
  \<open>Object.entries\<close> enumerates the keys that are array indices (canonical decimal
  strings up to \<open>2^32 - 2\<close>) first, in ascending numeric order, and then the other
  keys in insertion order.
\<close>

definition is_array_index :: "string \<Rightarrow> bool" where
  "is_array_index k =
     (k \<noteq> [] \<and> list_all is_digit k \<and> (k = ''0'' \<or> hd k \<noteq> CHR ''0'')
      \<and> int_of_digits k < 4294967295)"

definition object_entries :: "(string \<times> 'v) list \<Rightarrow> (string \<times> 'v) list" where
  "object_entries ps =
     sort_key (\<lambda>(k, v). int_of_digits k) (filter (\<lambda>(k, v). is_array_index k) ps)
     @ filter (\<lambda>(k, v). \<not> is_array_index k) ps"

text \<open>
  \<open>URLSearchParams.toString()\<close>: names and values are UTF-8 encoded and serialised as
  \<open>application/x-www-form-urlencoded\<close>; a space becomes \<open>+\<close>, the characters
  \<open>* - . _\<close>, digits and ASCII letters stay, every other byte is percent-encoded.
\<close>

definition utf8_bytes :: "char \<Rightarrow> nat list" where
  "utf8_bytes c =
     (let n = (of_char c :: nat) in if n < 128 then [n] else [192 + n div 64, 128 + n mod 64])"

definition hex_digit :: "nat \<Rightarrow> char" where
  "hex_digit k = (if k < 10 then char_of (48 + k) else char_of (55 + k))"

definition form_byte :: "nat \<Rightarrow> string" where
  "form_byte b =
     (if b = 32 then ''+''
      else if b = 42 \<or> b = 45 \<or> b = 46 \<or> b = 95 \<or> (48 \<le> b \<and> b \<le> 57)
              \<or> (65 \<le> b \<and> b \<le> 90) \<or> (97 \<le> b \<and> b \<le> 122)
      then [char_of b]
      else [CHR ''%'', hex_digit (b div 16), hex_digit (b mod 16)])"

definition form_encode :: "string \<Rightarrow> string" where
  "form_encode s = concat (map form_byte (concat (map utf8_bytes s)))"

definition searchParams_toString :: "(string \<times> string) list \<Rightarrow> string" where
  "searchParams_toString ps = join ''&'' (map (\<lambda>(k, v). form_encode k @ ''='' @ form_encode v) ps)"

text \<open>The test of the loop body: the value is neither \<open>undefined\<close>, \<open>null\<close> nor \<open>''\<close>.\<close>

definition param_kept :: "param \<Rightarrow> bool" where
  "param_kept v = (v \<noteq> PUndefined \<and> v \<noteq> PNull \<and> v \<noteq> PStr [])"

definition appended :: "(string \<times> param) list \<Rightarrow> (string \<times> string) list" where
  "appended entries = map (\<lambda>(k, v). (k, String_of v)) (filter (\<lambda>(k, v). param_kept v) entries)"

definition buildQueryString :: "(string \<times> param) list \<Rightarrow> string" where
  "buildQueryString params =
     (let queryString = searchParams_toString (appended (object_entries params))
      in if queryString \<noteq> [] then ''?'' @ queryString else [])"

section \<open>Errors (core/errors.ts)\<close>

text \<open>
  \<open>Headers\<close>: a list of name-value pairs; \<open>get\<close> compares names without regard to
  case and joins the values of a repeated name with a comma and a space.
\<close>

type_synonym headers = "(string \<times> string) list"

definition headers_get :: "headers \<Rightarrow> string \<Rightarrow> string option" where
  "headers_get hs name =
     (case map snd (filter (\<lambda>(k, v). toLowerCase k = toLowerCase name) hs) of
        [] \<Rightarrow> None
      | vs \<Rightarrow> Some (join '', '' vs))"

text \<open>
  \<open>parseInt(s, 10)\<close>: leading white space is skipped, then an optional sign, then the
  longest run of decimal digits; with no digit the result is \<open>NaN\<close>.
\<close>

definition is_space :: "char \<Rightarrow> bool" where
  "is_space c = ((of_char c :: nat) \<in> {9, 10, 11, 12, 13, 32, 160})"

definition parseInt :: "string \<Rightarrow> jsnum" where
  "parseInt s =
     (let t = dropWhile is_space s;
          neg = (t \<noteq> [] \<and> hd t = CHR ''-'');
          u = (if t \<noteq> [] \<and> (hd t = CHR ''-'' \<or> hd t = CHR ''+'') then tl t else t);
          ds = takeWhile is_digit u
      in if ds = [] then NaN
         else if neg then Fin (- int_of_digits ds) else Fin (int_of_digits ds))"

text \<open>
  The thrown value of a failed fetch is its \<open>name\<close> and \<open>message\<close>. The five error
  classes of the library: \<open>RateLimitError\<close> carries \<open>retryAfter\<close> (\<open>None\<close> is unset),
  \<open>AuthenticationError\<close> the status, \<open>NetworkError\<close> its cause, \<open>ApiError\<close> the
  status, the status text and the body.
\<close>

datatype api_error =
    CharityNotFoundError
  | RateLimitError "jsnum option"
  | AuthenticationError int
  | NetworkError string string
  | ApiError int string string

text \<open>
  The constructor of \<open>RateLimitError\<close>, given the headers of the response when there
  is one. The second statement resets the field only when it is truthy and \<open>NaN\<close>.
\<close>

definition new_RateLimitError :: "headers option \<Rightarrow> jsnum option" where
  "new_RateLimitError response =
     (case response of
        None \<Rightarrow> None
      | Some hs \<Rightarrow>
          (let retryAfterHeader = headers_get hs ''Retry-After'';
               retryAfter = (case retryAfterHeader of
                               None \<Rightarrow> None
                             | Some h \<Rightarrow> if h \<noteq> [] then Some (parseInt h) else None)
           in if truthy_num retryAfter \<and> isNaN (the retryAfter) then None else retryAfter))"

text \<open>
  \<open>handleErrorResponse\<close> of the base client: the error thrown for a response that is
  not ok, from its status, status text, headers and raw body.
\<close>

definition handleErrorResponse :: "int \<Rightarrow> string \<Rightarrow> headers \<Rightarrow> string \<Rightarrow> api_error" where
  "handleErrorResponse st stText hs rawBody =
     (if st = 401 \<or> st = 403 then AuthenticationError st
      else if st = 404 then CharityNotFoundError
      else if st = 429 then RateLimitError (new_RateLimitError (Some hs))
      else ApiError st stText rawBody)"

section \<open>Transport (utils/http.ts)\<close>

record retry_config =
  maxRetries :: nat
  delayMs :: nat
  exponentialBackoff :: bool
  maxDelayMs :: "nat option"

definition DEFAULT_RETRY_CONFIG :: retry_config where
  "DEFAULT_RETRY_CONFIG =
     \<lparr>maxRetries = 3, delayMs = 1000, exponentialBackoff = True, maxDelayMs = Some 10000\<rparr>"

definition isRetryable :: "int \<Rightarrow> bool" where
  "isRetryable st = (st \<ge> 500 \<or> st = 408 \<or> st = 429 \<or> st = 0)"

definition calculateDelay :: "nat \<Rightarrow> retry_config \<Rightarrow> nat" where
  "calculateDelay attempt config =
     (let baseDelay = delayMs config
      in if exponentialBackoff config
         then min (baseDelay * 2 ^ attempt) (case maxDelayMs config of Some m \<Rightarrow> m | None \<Rightarrow> 10000)
         else baseDelay)"

text \<open>
  One call of \<open>fetch\<close>: the address, the method, the headers and the serialised body.
  The upstream answers a call either with a response or by throwing a value with a
  \<open>name\<close> and a \<open>message\<close> (an aborted request throws \<open>AbortError\<close>). The response
  carries its text and, when the text is JSON, the value \<open>JSON.parse\<close> gives for it:
  a value of the type \<open>'d\<close> that the caller declares for the endpoint, or the empty
  object. \<open>Response.ok\<close> holds for the statuses 200 to 299.
\<close>

record fetch_call =
  call_url :: string
  call_method :: string
  call_headers :: headers
  call_body :: "string option"

datatype 'd json = Json 'd | EmptyObject

record 'd wire_response =
  w_status :: int
  w_statusText :: string
  w_headers :: headers
  w_text :: string
  w_json :: "'d json option"

definition response_ok :: "'d wire_response \<Rightarrow> bool" where
  "response_ok w = (200 \<le> w_status w \<and> w_status w \<le> 299)"

datatype 'd fetch_outcome = Responds "'d wire_response" | Throws string string

text \<open>
  The upstream is a function of the number of earlier calls of \<open>fetch\<close> and of the
  call. The network state records the calls made so far and the time in milliseconds;
  only the waits between attempts and between calls advance the time.
\<close>

type_synonym 'd upstream = "nat \<Rightarrow> fetch_call \<Rightarrow> 'd fetch_outcome"

record net =
  fetched :: "fetch_call list"
  clock :: nat

definition sleep :: "nat \<Rightarrow> 'z net_scheme \<Rightarrow> 'z net_scheme" where
  "sleep ms s = s\<lparr>clock := clock s + ms\<rparr>"

datatype 'd body_data = Parsed "'d json" | Text string

record 'd http_response =
  ok :: bool
  status :: int
  statusText :: string
  headers :: headers
  data :: "'d body_data"
  raw :: string

text \<open>The response object built from the last exchange: JSON is parsed when the
  content type announces it, and the text is kept when parsing fails.\<close>

definition parse_response :: "'d wire_response \<Rightarrow> 'd http_response" where
  "parse_response w =
     (let contentType = (case headers_get (w_headers w) ''content-type'' of Some c \<Rightarrow> c | None \<Rightarrow> [])
      in \<lparr>ok = response_ok w, status = w_status w, statusText = w_statusText w,
          headers = w_headers w,
          data = (if includes_str contentType ''application/json''
                  then (case w_json w of Some d \<Rightarrow> Parsed d | None \<Rightarrow> Text (w_text w))
                  else Text (w_text w)),
          raw = w_text w\<rparr>)"

text \<open>
  The retry loop of \<open>httpRequest\<close>, from attempt \<open>attempt\<close> on. A response that is not
  ok and retryable, or a thrown network error, is retried while attempts are left;
  any other outcome ends the loop.
\<close>

function httpRequest_loop ::
  "'d upstream \<Rightarrow> fetch_call \<Rightarrow> retry_config \<Rightarrow> nat \<Rightarrow> (string \<times> string) option
     \<Rightarrow> 'z net_scheme \<Rightarrow> (api_error + 'd http_response) \<times> 'z net_scheme" where
  "httpRequest_loop up call retryConfig attempt lastError s =
     (if attempt \<le> maxRetries retryConfig then
        (case up (length (fetched s)) call of
           Responds response \<Rightarrow>
             if \<not> response_ok response \<and> isRetryable (w_status response)
                \<and> attempt < maxRetries retryConfig
             then httpRequest_loop up call retryConfig (attempt + 1) lastError
                    (sleep (calculateDelay attempt retryConfig) (s\<lparr>fetched := fetched s @ [call]\<rparr>))
             else (Inr (parse_response response), s\<lparr>fetched := fetched s @ [call]\<rparr>)
         | Throws name message \<Rightarrow>
             if (name = ''AbortError'' \<or> name = ''TypeError'' \<or> includes_str message ''fetch'')
                \<and> attempt < maxRetries retryConfig
             then httpRequest_loop up call retryConfig (attempt + 1) (Some (name, message))
                    (sleep (calculateDelay attempt retryConfig) (s\<lparr>fetched := fetched s @ [call]\<rparr>))
             else (Inl (NetworkError name message), s\<lparr>fetched := fetched s @ [call]\<rparr>))
      else (Inl (case lastError of
                   Some (name, message) \<Rightarrow> NetworkError name message
                 | None \<Rightarrow> NetworkError ''Error'' ''HTTP request failed''), s))"
  by pat_completeness auto
termination
  by (relation "measure (\<lambda>(up, call, retryConfig, attempt, lastError, s). Suc (maxRetries retryConfig) - attempt)") auto

declare httpRequest_loop.simps [simp del]

text \<open>The options of \<open>httpRequest\<close>; a body that is not a string is given by its JSON text.\<close>

datatype request_body = StringBody string | ObjectBody string

record http_options =
  opt_method :: "string option"
  opt_headers :: "headers option"
  opt_body :: "request_body option"
  opt_timeout :: "nat option"
  opt_retry_maxRetries :: "nat option"
  opt_retry_delayMs :: "nat option"

definition httpRequest ::
  "'d upstream \<Rightarrow> string \<Rightarrow> http_options \<Rightarrow> 'z net_scheme
     \<Rightarrow> (api_error + 'd http_response) \<times> 'z net_scheme" where
  "httpRequest up url options s =
     (let method = (case opt_method options of Some m \<Rightarrow> m | None \<Rightarrow> ''GET'');
          hs = (case opt_headers options of Some h \<Rightarrow> h | None \<Rightarrow> []);
          retryConfig = DEFAULT_RETRY_CONFIG
            \<lparr>maxRetries := (case opt_retry_maxRetries options of Some n \<Rightarrow> n
                             | None \<Rightarrow> maxRetries DEFAULT_RETRY_CONFIG),
             delayMs := (case opt_retry_delayMs options of Some n \<Rightarrow> n
                          | None \<Rightarrow> delayMs DEFAULT_RETRY_CONFIG)\<rparr>;
          requestBody = (case opt_body options of
                           None \<Rightarrow> None
                         | Some (StringBody b) \<Rightarrow> Some b
                         | Some (ObjectBody json) \<Rightarrow> Some json)
      in httpRequest_loop up
           \<lparr>call_url = url, call_method = method, call_headers = hs, call_body = requestBody\<rparr>
           retryConfig 0 None s)"

section \<open>Bounded cache\<close>

text \<open>
  Modelled from the spec: the cache of the base client is an \<open>LRUCache\<close> of the
  lru-cache package, which is not among the sources. It is bounded in capacity with
  least-recently-used eviction, and an entry expires once its age exceeds the fixed
  time-to-live, whatever its accesses. The entries are kept most recently used first,
  each with the time at which it was stored. The result \<open>None\<close> of \<open>lru_get\<close> is
  \<open>undefined\<close>.
\<close>

record 'v lru =
  lru_max :: nat
  lru_ttl :: nat
  lru_entries :: "(string \<times> 'v \<times> nat) list"

definition lru_get :: "string \<Rightarrow> nat \<Rightarrow> 'v lru \<Rightarrow> 'v option \<times> 'v lru" where
  "lru_get k now c =
     (case find (\<lambda>e. fst e = k) (lru_entries c) of
        None \<Rightarrow> (None, c)
      | Some (k', v, stored) \<Rightarrow>
          if now - stored > lru_ttl c
          then (None, c\<lparr>lru_entries := filter (\<lambda>e. fst e \<noteq> k) (lru_entries c)\<rparr>)
          else (Some v, c\<lparr>lru_entries := (k, v, stored) # filter (\<lambda>e. fst e \<noteq> k) (lru_entries c)\<rparr>))"

definition lru_set :: "string \<Rightarrow> 'v \<Rightarrow> nat \<Rightarrow> 'v lru \<Rightarrow> 'v lru" where
  "lru_set k v now c =
     c\<lparr>lru_entries := take (lru_max c) ((k, v, now) # filter (\<lambda>e. fst e \<noteq> k) (lru_entries c))\<rparr>"

definition lru_clear :: "'v lru \<Rightarrow> 'v lru" where
  "lru_clear c = c\<lparr>lru_entries := []\<rparr>"

section \<open>The base client (core/base-client.ts)\<close>

datatype regulator = CCEW | OSCR | CCNI

fun regulator_name :: "regulator \<Rightarrow> string" where
  "regulator_name CCEW = ''CCEW''"
| "regulator_name OSCR = ''OSCR''"
| "regulator_name CCNI = ''CCNI''"

text \<open>The fields of a client that never change after construction.\<close>

record client =
  regulator :: regulator
  baseUrl :: string
  apiKey :: "string option"
  timeout :: nat
  retryAttempts :: nat
  retryDelay :: nat

text \<open>
  What changes: the network state, the cache of the client (\<open>None\<close> when caching is
  disabled) and the lines written with \<open>console.warn\<close>.
\<close>

record 'v client_state = net +
  cache :: "'v lru option"
  warnings :: "string list"

record cache_config =
  cache_enabled :: "bool option"
  cache_ttl :: "nat option"
  cache_maxSize :: "nat option"

record client_config =
  cfg_apiKey :: "string option"
  cfg_baseUrl :: "string option"
  cfg_timeout :: "nat option"
  cfg_retryAttempts :: "nat option"
  cfg_retryDelay :: "nat option"
  cfg_cache :: "cache_config option"

fun getDefaultBaseUrl :: "regulator \<Rightarrow> string" where
  "getDefaultBaseUrl CCEW = ''https://api.charitycommission.gov.uk/register/api''"
| "getDefaultBaseUrl OSCR = ''https://oscrapi.azurewebsites.net/api''"
| "getDefaultBaseUrl CCNI = ''https://www.charitycommissionni.org.uk/umbraco/api/charityApi''"

text \<open>
  The constructors. The base constructor fills in the defaults and creates the cache
  unless \<open>cache.enabled\<close> is \<open>false\<close>; the constructors of the CCEW and OSCR clients
  then throw when there is no API key.
\<close>

definition new_cache :: "client_config \<Rightarrow> 'v lru option" where
  "new_cache config =
     (let cacheConfig = (case cfg_cache config of Some c \<Rightarrow> c
                         | None \<Rightarrow> \<lparr>cache_enabled = None, cache_ttl = None, cache_maxSize = None\<rparr>)
      in if cache_enabled cacheConfig \<noteq> Some False
         then Some \<lparr>lru_max = (case cache_maxSize cacheConfig of Some m \<Rightarrow> m | None \<Rightarrow> 100),
                    lru_ttl = (case cache_ttl cacheConfig of Some t \<Rightarrow> t | None \<Rightarrow> 5 * 60 * 1000),
                    lru_entries = []\<rparr>
         else None)"

definition new_BaseClient :: "regulator \<Rightarrow> client_config \<Rightarrow> client" where
  "new_BaseClient reg config =
     \<lparr>regulator = reg,
      baseUrl = (case cfg_baseUrl config of Some u \<Rightarrow> u | None \<Rightarrow> getDefaultBaseUrl reg),
      apiKey = cfg_apiKey config,
      timeout = (case cfg_timeout config of Some t \<Rightarrow> t | None \<Rightarrow> 30000),
      retryAttempts = (case cfg_retryAttempts config of Some n \<Rightarrow> n | None \<Rightarrow> 3),
      retryDelay = (case cfg_retryDelay config of Some n \<Rightarrow> n | None \<Rightarrow> 1000)\<rparr>"

definition has_apiKey :: "client \<Rightarrow> bool" where
  "has_apiKey this = (case apiKey this of Some k \<Rightarrow> k \<noteq> [] | None \<Rightarrow> False)"

definition new_client :: "regulator \<Rightarrow> client_config \<Rightarrow> string + client" where
  "new_client reg config =
     (let this = new_BaseClient reg config
      in if reg = CCEW \<and> \<not> has_apiKey this
         then Inl ''CCEW API requires an API key. Provide it via the apiKey config option.''
         else if reg = OSCR \<and> \<not> has_apiKey this
         then Inl ''OSCR API requires an API key. Provide it via the apiKey config option.''
         else Inr this)"

text \<open>Writing a property of an object: an existing name keeps its place.\<close>

fun obj_set :: "string \<Rightarrow> 'a \<Rightarrow> (string \<times> 'a) list \<Rightarrow> (string \<times> 'a) list" where
  "obj_set k v [] = [(k, v)]"
| "obj_set k v (p # ps) = (if fst p = k then (k, v) # ps else p # obj_set k v ps)"

definition obj_spread :: "(string \<times> 'a) list \<Rightarrow> (string \<times> 'a) list \<Rightarrow> (string \<times> 'a) list" where
  "obj_spread target source = foldl (\<lambda>acc (k, v). obj_set k v acc) target source"

definition getAuthHeaders :: "client \<Rightarrow> headers" where
  "getAuthHeaders this =
     (case regulator this of
        CCEW \<Rightarrow> if \<not> has_apiKey this then [] else [(''Ocp-Apim-Subscription-Key'', the (apiKey this))]
      | OSCR \<Rightarrow> if \<not> has_apiKey this then [] else [(''x-functions-key'', the (apiKey this))]
      | CCNI \<Rightarrow> [])"

definition logNotImplemented :: "client \<Rightarrow> string \<Rightarrow> 'v client_state \<Rightarrow> 'v client_state" where
  "logNotImplemented this method s =
     s\<lparr>warnings := warnings s @
        [''['' @ regulator_name (regulator this) @ ''] '' @ method
         @ '' is not supported by this regulator's API'']\<rparr>"

text \<open>
  \<open>request\<close>: the transport call with the merged headers, the time-out and the retry
  settings of the client; a response that is not ok is thrown as its error.
\<close>

definition request ::
  "'d upstream \<Rightarrow> client \<Rightarrow> string \<Rightarrow> http_options \<Rightarrow> 'z net_scheme
     \<Rightarrow> (api_error + 'd http_response) \<times> 'z net_scheme" where
  "request up this endpoint options s =
     (let url = baseUrl this @ endpoint;
          (r, s') = httpRequest up url
             (options\<lparr>opt_headers := Some (obj_spread
                          (obj_spread [(''Accept'', ''application/json'')] (getAuthHeaders this))
                          (case opt_headers options of Some h \<Rightarrow> h | None \<Rightarrow> [])),
                      opt_timeout := Some (timeout this),
                      opt_retry_maxRetries := Some (retryAttempts this),
                      opt_retry_delayMs := Some (retryDelay this)\<rparr>) s
      in case r of
           Inl e \<Rightarrow> (Inl e, s')
         | Inr response \<Rightarrow>
             if \<not> ok response
             then (Inl (handleErrorResponse (status response) (statusText response)
                          (headers response) (raw response)), s')
             else (Inr response, s'))"

definition no_options :: http_options where
  "no_options = \<lparr>opt_method = None, opt_headers = None, opt_body = None, opt_timeout = None,
                  opt_retry_maxRetries = None, opt_retry_delayMs = None\<rparr>"

definition get ::
  "'d upstream \<Rightarrow> client \<Rightarrow> string \<Rightarrow> 'z net_scheme
     \<Rightarrow> (api_error + 'd http_response) \<times> 'z net_scheme" where
  "get up this endpoint s = request up this endpoint (no_options\<lparr>opt_method := Some ''GET''\<rparr>) s"

definition post ::
  "'d upstream \<Rightarrow> client \<Rightarrow> string \<Rightarrow> request_body \<Rightarrow> 'z net_scheme
     \<Rightarrow> (api_error + 'd http_response) \<times> 'z net_scheme" where
  "post up this endpoint body s =
     request up this endpoint (no_options\<lparr>opt_method := Some ''POST'', opt_body := Some body\<rparr>) s"

text \<open>The cache key of a method call with a string parameter, and the cache methods.\<close>

definition getCacheKey :: "client \<Rightarrow> string \<Rightarrow> string \<Rightarrow> string" where
  "getCacheKey this method paramsStr = regulator_name (regulator this) @ '':'' @ method @ '':'' @ paramsStr"

definition getCached :: "string \<Rightarrow> 'v client_state \<Rightarrow> 'v option \<times> 'v client_state" where
  "getCached key s =
     (case cache s of
        None \<Rightarrow> (None, s)
      | Some c \<Rightarrow> (let (v, c') = lru_get key (clock s) c in (v, s\<lparr>cache := Some c'\<rparr>)))"

definition setCache :: "string \<Rightarrow> 'v \<Rightarrow> 'v client_state \<Rightarrow> 'v client_state" where
  "setCache key v s =
     (case cache s of
        None \<Rightarrow> s
      | Some c \<Rightarrow> s\<lparr>cache := Some (lru_set key v (clock s) c)\<rparr>)"

definition clearCache :: "'v client_state \<Rightarrow> 'v client_state" where
  "clearCache s = (case cache s of None \<Rightarrow> s | Some c \<Rightarrow> s\<lparr>cache := Some (lru_clear c)\<rparr>)"

text \<open>
  The call of \<open>fetch\<close> that \<open>request\<close> makes for an endpoint and options, and the one
  that \<open>get\<close> makes.
\<close>

definition request_call :: "client \<Rightarrow> string \<Rightarrow> http_options \<Rightarrow> fetch_call" where
  "request_call this endpoint options =
     \<lparr>call_url = baseUrl this @ endpoint,
      call_method = (case opt_method options of Some m \<Rightarrow> m | None \<Rightarrow> ''GET''),
      call_headers = obj_spread (obj_spread [(''Accept'', ''application/json'')] (getAuthHeaders this))
                       (case opt_headers options of Some h \<Rightarrow> h | None \<Rightarrow> []),
      call_body = (case opt_body options of
                     None \<Rightarrow> None
                   | Some (StringBody b) \<Rightarrow> Some b
                   | Some (ObjectBody json) \<Rightarrow> Some json)\<rparr>"

definition get_call :: "client \<Rightarrow> string \<Rightarrow> fetch_call" where
  "get_call this endpoint =
     \<lparr>call_url = baseUrl this @ endpoint, call_method = ''GET'',
      call_headers = obj_spread (obj_spread [(''Accept'', ''application/json'')] (getAuthHeaders this)) [],
      call_body = None\<rparr>"

section \<open>The normalised data model (types/charity.ts, types/search.ts)\<close>

text \<open>
  A \<open>Date\<close> object is its time value or the invalid date. Parsing a date string is
  left to the platform: \<open>new Date(string)\<close> is a parameter \<open>newDate\<close> of the functions
  that build dates. An optional or nullable field is an \<open>option\<close>; for the fields of
  the raw records \<open>None\<close> is the JSON \<open>null\<close> or a missing key.
\<close>

datatype jsdate = Date int | InvalidDate

datatype CharityStatus = ACTIVE | REMOVED | IN_DEFAULT | LATE | RECENTLY_REGISTERED

text \<open>
  The normalised charity. The field \<open>_raw\<close> holds the payload the record was built
  from; its type \<open>'raw\<close> is the sum of the raw records of the library, defined below.
\<close>

record 'raw Charity =
  charity_id :: string
  charity_regulator :: regulator
  registrationNumber :: string
  subsidiaryNumber :: "string option"
  companyNumber :: "string option"
  name :: string
  otherNames :: "string list"
  charity_status :: CharityStatus
  registeredDate :: "jsdate option"
  removedDate :: "jsdate option"
  website :: "string option"
  email :: "string option"
  phone :: "string option"
  address :: "string option"
  latestIncome :: "int option"
  latestExpenditure :: "int option"
  financialYearEnd :: "jsdate option"
  employeeCount :: "int option"
  volunteerCount :: "int option"
  trusteeCount :: "int option"
  purposes :: "string list"
  beneficiaries :: "string list"
  activities :: "string list"
  areasOfOperation :: "string list"
  organisationType :: "string option"
  governingDocumentType :: "string option"
  charitableObjects :: "string option"
  publicBenefit :: "string option"
  activityDescription :: "string option"
  charity_raw :: 'raw

record Trustee =
  trustee_name :: string
  isChair :: bool
  otherTrusteeships :: "string list option"

record FinancialYear =
  yearEnd :: jsdate
  income :: "int option"
  expenditure :: "int option"

record OtherRegulatorInfo =
  other_regulator :: regulator
  other_registrationNumber :: string

record AggregationBucket =
  bucket_value :: string
  bucket_label :: string
  bucket_count :: int

type_synonym SearchAggregations = "(string \<times> AggregationBucket list) list"

record SearchQuery =
  query_text :: "string option"
  query_page :: "int option"
  query_pageSize :: "int option"
  query_filters :: "(string \<times> string) list option"

record 'raw SearchResult =
  items :: "'raw Charity list"
  total :: int
  page :: int
  pageSize :: int
  totalPages :: jsnum
  aggregations :: "SearchAggregations option"

text \<open>
  \<open>parseDate\<close>, the same in the three transform modules: \<open>null\<close> for a missing or
  empty string and for a string that does not parse.
\<close>

definition parseDate :: "(string \<Rightarrow> jsdate) \<Rightarrow> string option \<Rightarrow> jsdate option" where
  "parseDate newDate dateString =
     (case dateString of
        None \<Rightarrow> None
      | Some str \<Rightarrow>
          if str = [] then None
          else (case newDate str of InvalidDate \<Rightarrow> None | Date t \<Rightarrow> Some (Date t)))"

text \<open>\<open>value || null\<close> on a string that may be missing: the empty string is falsy.\<close>

definition or_null :: "string option \<Rightarrow> string option" where
  "or_null v = (case v of None \<Rightarrow> None | Some str \<Rightarrow> if str = [] then None else Some str)"

text \<open>\<open>value ?? []\<close>.\<close>

definition or_empty :: "'a list option \<Rightarrow> 'a list" where
  "or_empty v = (case v of None \<Rightarrow> [] | Some xs \<Rightarrow> xs)"

section \<open>Raw records of the three regulators (types/raw)\<close>

text \<open>
  Each raw record has the fields that the library reads. A field that the code guards
  with \<open>??\<close>, \<open>||\<close>, \<open>?.\<close> or a truthiness test is an \<open>option\<close>.
\<close>

record CCNIGoverningDocument =
  gd_url :: "string option"
  gd_name :: string

record CCNITrustee =
  ccnit_id :: int
  ccnit_name :: string
  ccnit_isChair :: bool
  charityNumbersOfOtherTrusteeships :: "int list option"

record CCNICharityDetails =
  regCharityNumber :: int
  subCharityNumber :: string
  ccni_companyNumber :: "string option"
  ccni_charityName :: string
  ccni_otherNames :: "string list option"
  ccni_status :: string
  dateRegistered :: "string option"
  dateRemoved :: "string option"
  contactWebsite :: "string option"
  contactEmail :: "string option"
  contactTel :: "string option"
  csvContactAddress :: "string option"
  contactAddress :: "string option"
  ccni_income :: "int option"
  totalExpenditure :: "int option"
  dateFinancialYearEnd :: "string option"
  numberEmployees :: "int option"
  numberVolunteers :: "int option"
  peopleTrustees :: "int option"
  classWhat :: "string list option"
  classWho :: "string list option"
  classHow :: "string list option"
  ccni_areasOfOperation :: "string list option"
  ccni_organisationType :: "string option"
  ccni_governingDocument :: "CCNIGoverningDocument option"
  ccni_charitableObjects :: "string option"
  publicBenefits :: "string option"
  ccni_activities :: "string option"
  trusteesList :: "CCNITrustee list option"

record CCNICharitySummary =
  regNo :: string
  subNo :: string
  ccnis_name :: string
  orgType :: string

record CCNIAggregationBucket =
  bucket_key :: string
  bucket_displayName :: string
  ccni_bucket_count :: int

record CCNIAggregationGroup =
  group_name :: string
  buckets :: "CCNIAggregationBucket list"

record CCNISearchResponse =
  ccni_pageNumber :: int
  ccni_pageSize :: int
  ccni_totalPages :: int
  totalItems :: int
  pageItems :: "CCNICharitySummary list"
  aggregationGroups :: "CCNIAggregationGroup list"
  onlyShow :: "CCNIAggregationGroup option"

record CCEWWhoWhat =
  whatTheCharityDoes :: "string list option"
  howTheCharityWorks :: "string list option"
  whoTheCharityHelps :: "string list option"

record CCEWAreasOfOperation =
  localAuthorities :: "string list option"
  countries :: "string list option"
  regions :: "string list option"

record CCEWOtherName =
  charityOtherName :: string
  charityOtherNameType :: string

record CCEWCharityDetails =
  registeredCharityNumber :: int
  linkedCharityNumber :: int
  ccew_charityName :: string
  charityRegistrationStatus :: string
  ccew_dateOfRegistration :: "string option"
  ccew_dateOfRemoval :: "string option"
  charityContactWeb :: "string option"
  charityContactEmail :: "string option"
  charityContactPhone :: "string option"
  charityContactAddress1 :: "string option"
  charityContactAddress2 :: "string option"
  charityContactAddress3 :: "string option"
  charityContactAddress4 :: "string option"
  charityContactAddress5 :: "string option"
  charityContactPostcode :: "string option"
  ccew_organisationType :: "string option"
  charityCompanyRegistrationNumber :: "string option"
  ccew_latestIncome :: "int option"
  ccew_latestExpenditure :: "int option"
  latestFinancialYearEnd :: "string option"
  numberOfEmployees :: "int option"
  numberOfVolunteers :: "int option"
  numberOfTrustees :: "int option"
  charityWhoWhat :: "CCEWWhoWhat option"
  charityAreasOfOperation :: "CCEWAreasOfOperation option"
  ccew_otherNames :: "CCEWOtherName list option"
  ccew_charitableObjects :: "string option"
  governingDocument :: "string option"

record CCEWCharitySummary =
  ccews_registeredCharityNumber :: int
  ccews_linkedCharityNumber :: int
  ccews_charityName :: string
  ccews_charityType :: "string option"
  registrationStatus :: string
  ccews_dateOfRegistration :: "string option"
  ccews_dateOfRemoval :: "string option"

record CCEWSearchResponse =
  charities :: "CCEWCharitySummary list"
  totalResults :: int
  ccew_pageNumber :: int
  ccew_pageSize :: int

record CCEWTrustee =
  trusteeName :: string
  trusteeIsChair :: bool

record CCEWFinancialYear =
  ccew_financialYearEnd :: string
  ccew_income :: int
  ccew_expenditure :: int

record CCEWOtherRegulator =
  regulatorName :: string
  ccew_registrationNumber :: string

record OSCRCharity =
  oscr_id :: string
  oscr_charityName :: string
  charityNumber :: string
  oscr_registeredDate :: "string option"
  knownAs :: "string option"
  oscr_website :: "string option"
  charityStatus :: string
  currentConstitutionalForm :: "string option"
  oscr_notes :: "string option"
  geographicalSpread :: "string option"
  mainOperatingLocation :: "string option"
  oscr_purposes :: "string list option"
  oscr_beneficiaries :: "string list option"
  typesOfActivities :: "string list option"
  objectives :: "string option"
  principalOfficeOrTrusteeAddress :: "string option"
  principalContactAddress :: "string option"
  mostRecentYearIncome :: "int option"
  mostRecentYearExpenditure :: "int option"
  oscr_yearEnd :: "string option"

record OSCRAllCharitiesResponse =
  currentPage :: int
  oscr_totalPages :: int
  oscr_data :: "OSCRCharity list option"

record OSCRAnnualReturn =
  AccountingReferenceDate :: string
  GrossIncome :: "int option"
  GrossExpenditure :: "int option"
  TotalNumberofCharityTrustees :: "int option"
  PaidStaff :: "int option"

text \<open>The payload kept in \<open>_raw\<close>.\<close>

datatype raw_payload =
    RawCCNIDetails CCNICharityDetails
  | RawCCNISummary CCNICharitySummary
  | RawCCEWDetails CCEWCharityDetails
  | RawCCEWSummary CCEWCharitySummary
  | RawOSCRCharity OSCRCharity

type_synonym charity = "raw_payload Charity"

type_synonym search_result = "raw_payload SearchResult"

section \<open>Normalisation (clients/*/transform.ts)\<close>

text \<open>
  The status maps. A status string without an entry gives \<open>ACTIVE\<close>; the names
  inherited from \<open>Object.prototype\<close> are not considered.
\<close>

definition mapStatus_oscr :: "string \<Rightarrow> CharityStatus" where
  "mapStatus_oscr st =
     (case map_of [(''Active'', ACTIVE), (''Removed'', REMOVED)] st of
        Some v \<Rightarrow> v | None \<Rightarrow> ACTIVE)"

definition mapStatus_ccni :: "string \<Rightarrow> CharityStatus" where
  "mapStatus_ccni st =
     (case map_of [(''Up-to-date'', ACTIVE), (''Due documents received late'', LATE),
                   (''In default'', IN_DEFAULT), (''Removed'', REMOVED),
                   (''Recently registered'', RECENTLY_REGISTERED)] st of
        Some v \<Rightarrow> v | None \<Rightarrow> ACTIVE)"

definition mapStatus_ccew :: "string \<Rightarrow> CharityStatus" where
  "mapStatus_ccew st =
     (case map_of [(''Registered'', ACTIVE), (''Removed'', REMOVED)] st of
        Some v \<Rightarrow> v | None \<Rightarrow> ACTIVE)"

text \<open>\<open>[a, b, ...].filter(Boolean)\<close> on strings that may be missing.\<close>

definition filter_Boolean :: "string option list \<Rightarrow> string list" where
  "filter_Boolean parts = concat (map (\<lambda>p. case or_null p of None \<Rightarrow> [] | Some str \<Rightarrow> [str]) parts)"

text \<open>\<open>a || b\<close> on strings that may be missing.\<close>

definition str_or :: "string option \<Rightarrow> string option \<Rightarrow> string option" where
  "str_or a b = (case or_null a of Some str \<Rightarrow> Some str | None \<Rightarrow> b)"

subsection \<open>OSCR\<close>

definition transformCharity :: "(string \<Rightarrow> jsdate) \<Rightarrow> OSCRCharity \<Rightarrow> charity" where
  "transformCharity newDate r =
     \<lparr>charity_id = charityNumber r,
      charity_regulator = OSCR,
      registrationNumber = charityNumber r,
      subsidiaryNumber = None,
      companyNumber = None,
      name = oscr_charityName r,
      otherNames = (case or_null (knownAs r) of Some k \<Rightarrow> [k] | None \<Rightarrow> []),
      charity_status = mapStatus_oscr (charityStatus r),
      registeredDate = parseDate newDate (oscr_registeredDate r),
      removedDate = None,
      website = or_null (oscr_website r),
      email = None,
      phone = None,
      address = or_null (str_or (principalContactAddress r) (principalOfficeOrTrusteeAddress r)),
      latestIncome = mostRecentYearIncome r,
      latestExpenditure = mostRecentYearExpenditure r,
      financialYearEnd = parseDate newDate (oscr_yearEnd r),
      employeeCount = None,
      volunteerCount = None,
      trusteeCount = None,
      purposes = or_empty (oscr_purposes r),
      beneficiaries = or_empty (oscr_beneficiaries r),
      activities = or_empty (typesOfActivities r),
      areasOfOperation = filter_Boolean [geographicalSpread r, mainOperatingLocation r],
      organisationType = or_null (currentConstitutionalForm r),
      governingDocumentType = None,
      charitableObjects = or_null (objectives r),
      publicBenefit = None,
      activityDescription = or_null (oscr_notes r),
      charity_raw = RawOSCRCharity r\<rparr>"

text \<open>
  \<open>transformAllCharitiesResponse\<close>. The response has no count of items: the page size
  is the length of the page, or 100 for an empty page, and the total is estimated.
  Reading the length of a missing \<open>data\<close> throws.
\<close>

datatype thrown = ApiFailure api_error | TypeError string

definition transformAllCharitiesResponse ::
  "(string \<Rightarrow> jsdate) \<Rightarrow> OSCRAllCharitiesResponse \<Rightarrow> thrown + search_result" where
  "transformAllCharitiesResponse newDate r =
     (case oscr_data r of
        None \<Rightarrow> Inl (TypeError ''Cannot read properties of undefined (reading 'length')'')
      | Some ds \<Rightarrow>
          (let size = (if int (length ds) \<noteq> 0 then int (length ds) else 100);
               estimate = oscr_totalPages r * size
           in Inr \<lparr>items = map (transformCharity newDate) ds,
                   total = estimate,
                   page = currentPage r,
                   pageSize = size,
                   totalPages = Fin (oscr_totalPages r),
                   aggregations = None\<rparr>))"

text \<open>The annual returns of OSCR as financial years, and the enrichment of a charity.\<close>

definition transformAnnualReturn :: "(string \<Rightarrow> jsdate) \<Rightarrow> OSCRAnnualReturn \<Rightarrow> FinancialYear" where
  "transformAnnualReturn newDate r =
     \<lparr>yearEnd = newDate (AccountingReferenceDate r),
      income = GrossIncome r,
      expenditure = GrossExpenditure r\<rparr>"

definition transformAnnualReturns :: "(string \<Rightarrow> jsdate) \<Rightarrow> OSCRAnnualReturn list \<Rightarrow> FinancialYear list" where
  "transformAnnualReturns newDate rs = map (transformAnnualReturn newDate) rs"

text \<open>\<open>a ?? b\<close>.\<close>

definition nullish :: "'a option \<Rightarrow> 'a option \<Rightarrow> 'a option" where
  "nullish a b = (case a of Some v \<Rightarrow> Some v | None \<Rightarrow> b)"

definition enrichCharityWithAnnualReturn ::
  "(string \<Rightarrow> jsdate) \<Rightarrow> 'raw Charity \<Rightarrow> OSCRAnnualReturn \<Rightarrow> 'raw Charity" where
  "enrichCharityWithAnnualReturn newDate c annualReturn =
     c\<lparr>employeeCount := nullish (PaidStaff annualReturn) (employeeCount c),
       trusteeCount := nullish (TotalNumberofCharityTrustees annualReturn) (trusteeCount c),
       latestIncome := nullish (GrossIncome annualReturn) (latestIncome c),
       latestExpenditure := nullish (GrossExpenditure annualReturn) (latestExpenditure c),
       financialYearEnd := nullish (parseDate newDate (Some (AccountingReferenceDate annualReturn)))
                             (financialYearEnd c)\<rparr>"

subsection \<open>CCNI\<close>

definition transformDetails_ccni :: "(string \<Rightarrow> jsdate) \<Rightarrow> CCNICharityDetails \<Rightarrow> charity" where
  "transformDetails_ccni newDate r =
     \<lparr>charity_id = ''NIC'' @ string_of_int (regCharityNumber r),
      charity_regulator = CCNI,
      registrationNumber = string_of_int (regCharityNumber r),
      subsidiaryNumber = (if subCharityNumber r \<noteq> ''0'' then Some (subCharityNumber r) else None),
      companyNumber = (case or_null (ccni_companyNumber r) of
                         Some n \<Rightarrow> if n \<noteq> ''0'' then Some n else None
                       | None \<Rightarrow> None),
      name = ccni_charityName r,
      otherNames = or_empty (ccni_otherNames r),
      charity_status = mapStatus_ccni (ccni_status r),
      registeredDate = parseDate newDate (dateRegistered r),
      removedDate = parseDate newDate (dateRemoved r),
      website = or_null (contactWebsite r),
      email = or_null (contactEmail r),
      phone = or_null (contactTel r),
      address = or_null (str_or (csvContactAddress r) (contactAddress r)),
      latestIncome = ccni_income r,
      latestExpenditure = totalExpenditure r,
      financialYearEnd = parseDate newDate (dateFinancialYearEnd r),
      employeeCount = numberEmployees r,
      volunteerCount = numberVolunteers r,
      trusteeCount = peopleTrustees r,
      purposes = or_empty (classWhat r),
      beneficiaries = or_empty (classWho r),
      activities = or_empty (classHow r),
      areasOfOperation = or_empty (ccni_areasOfOperation r),
      organisationType = or_null (ccni_organisationType r),
      governingDocumentType = or_null (map_option gd_name (ccni_governingDocument r)),
      charitableObjects = or_null (ccni_charitableObjects r),
      publicBenefit = or_null (publicBenefits r),
      activityDescription = or_null (ccni_activities r),
      charity_raw = RawCCNIDetails r\<rparr>"

definition transformSummary_ccni :: "CCNICharitySummary \<Rightarrow> charity" where
  "transformSummary_ccni r =
     \<lparr>charity_id = ''NIC'' @ regNo r,
      charity_regulator = CCNI,
      registrationNumber = regNo r,
      subsidiaryNumber = (if subNo r \<noteq> ''0'' then Some (subNo r) else None),
      companyNumber = None,
      name = ccnis_name r,
      otherNames = [],
      charity_status = mapStatus_ccni (orgType r),
      registeredDate = None,
      removedDate = None,
      website = None,
      email = None,
      phone = None,
      address = None,
      latestIncome = None,
      latestExpenditure = None,
      financialYearEnd = None,
      employeeCount = None,
      volunteerCount = None,
      trusteeCount = None,
      purposes = [],
      beneficiaries = [],
      activities = [],
      areasOfOperation = [],
      organisationType = None,
      governingDocumentType = None,
      charitableObjects = None,
      publicBenefit = None,
      activityDescription = None,
      charity_raw = RawCCNISummary r\<rparr>"

definition transformBucket :: "CCNIAggregationBucket \<Rightarrow> AggregationBucket" where
  "transformBucket b =
     \<lparr>bucket_value = bucket_key b, bucket_label = bucket_displayName b, bucket_count = ccni_bucket_count b\<rparr>"

definition transformSearchResponse_ccni :: "CCNISearchResponse \<Rightarrow> search_result" where
  "transformSearchResponse_ccni r =
     (let groups = foldl (\<lambda>acc g. obj_set (group_name g) (map transformBucket (buckets g)) acc)
                     [] (aggregationGroups r);
          aggs = (case onlyShow r of
                    Some g \<Rightarrow> obj_set (group_name g) (map transformBucket (buckets g)) groups
                  | None \<Rightarrow> groups)
      in \<lparr>items = map transformSummary_ccni (pageItems r),
          total = totalItems r,
          page = ccni_pageNumber r,
          pageSize = ccni_pageSize r,
          totalPages = Fin (ccni_totalPages r),
          aggregations = (if length aggs > 0 then Some aggs else None)\<rparr>)"

definition transformTrustee_ccni :: "CCNITrustee \<Rightarrow> Trustee" where
  "transformTrustee_ccni r =
     \<lparr>trustee_name = ccnit_name r,
      isChair = ccnit_isChair r,
      otherTrusteeships =
        map_option (map (\<lambda>num. ''NIC'' @ string_of_int num)) (charityNumbersOfOtherTrusteeships r)\<rparr>"

definition transformTrustees_ccni :: "CCNITrustee list \<Rightarrow> Trustee list" where
  "transformTrustees_ccni rs = map transformTrustee_ccni rs"

subsection \<open>CCEW\<close>

definition formatAddress :: "CCEWCharityDetails \<Rightarrow> string option" where
  "formatAddress details =
     (let parts = filter_Boolean
                    [charityContactAddress1 details, charityContactAddress2 details,
                     charityContactAddress3 details, charityContactAddress4 details,
                     charityContactAddress5 details, charityContactPostcode details]
      in if length parts > 0 then Some (join '', '' parts) else None)"

definition transformDetails_ccew :: "(string \<Rightarrow> jsdate) \<Rightarrow> CCEWCharityDetails \<Rightarrow> charity" where
  "transformDetails_ccew newDate r =
     \<lparr>charity_id = string_of_int (registeredCharityNumber r),
      charity_regulator = CCEW,
      registrationNumber = string_of_int (registeredCharityNumber r),
      subsidiaryNumber = (if linkedCharityNumber r \<noteq> 0
                          then Some (string_of_int (linkedCharityNumber r)) else None),
      companyNumber = or_null (charityCompanyRegistrationNumber r),
      name = ccew_charityName r,
      otherNames = or_empty (map_option (map charityOtherName) (ccew_otherNames r)),
      charity_status = mapStatus_ccew (charityRegistrationStatus r),
      registeredDate = parseDate newDate (ccew_dateOfRegistration r),
      removedDate = parseDate newDate (ccew_dateOfRemoval r),
      website = or_null (charityContactWeb r),
      email = or_null (charityContactEmail r),
      phone = or_null (charityContactPhone r),
      address = formatAddress r,
      latestIncome = ccew_latestIncome r,
      latestExpenditure = ccew_latestExpenditure r,
      financialYearEnd = parseDate newDate (latestFinancialYearEnd r),
      employeeCount = numberOfEmployees r,
      volunteerCount = numberOfVolunteers r,
      trusteeCount = numberOfTrustees r,
      purposes = or_empty (Option.bind (charityWhoWhat r) whatTheCharityDoes),
      beneficiaries = or_empty (Option.bind (charityWhoWhat r) whoTheCharityHelps),
      activities = or_empty (Option.bind (charityWhoWhat r) howTheCharityWorks),
      areasOfOperation =
        or_empty (Option.bind (charityAreasOfOperation r) regions)
        @ or_empty (Option.bind (charityAreasOfOperation r) countries)
        @ or_empty (Option.bind (charityAreasOfOperation r) localAuthorities),
      organisationType = or_null (ccew_organisationType r),
      governingDocumentType = or_null (governingDocument r),
      charitableObjects = or_null (ccew_charitableObjects r),
      publicBenefit = None,
      activityDescription = None,
      charity_raw = RawCCEWDetails r\<rparr>"

definition transformSummary_ccew :: "(string \<Rightarrow> jsdate) \<Rightarrow> CCEWCharitySummary \<Rightarrow> charity" where
  "transformSummary_ccew newDate r =
     \<lparr>charity_id = string_of_int (ccews_registeredCharityNumber r),
      charity_regulator = CCEW,
      registrationNumber = string_of_int (ccews_registeredCharityNumber r),
      subsidiaryNumber = (if ccews_linkedCharityNumber r \<noteq> 0
                          then Some (string_of_int (ccews_linkedCharityNumber r)) else None),
      companyNumber = None,
      name = ccews_charityName r,
      otherNames = [],
      charity_status = mapStatus_ccew (registrationStatus r),
      registeredDate = parseDate newDate (ccews_dateOfRegistration r),
      removedDate = parseDate newDate (ccews_dateOfRemoval r),
      website = None,
      email = None,
      phone = None,
      address = None,
      latestIncome = None,
      latestExpenditure = None,
      financialYearEnd = None,
      employeeCount = None,
      volunteerCount = None,
      trusteeCount = None,
      purposes = [],
      beneficiaries = [],
      activities = [],
      areasOfOperation = [],
      organisationType = or_null (ccews_charityType r),
      governingDocumentType = None,
      charitableObjects = None,
      publicBenefit = None,
      activityDescription = None,
      charity_raw = RawCCEWSummary r\<rparr>"

text \<open>
  \<open>Math.ceil(a / b)\<close> on integers: the division by zero gives an infinity, or \<open>NaN\<close>
  for \<open>0 / 0\<close>.
\<close>

definition Math_ceil_div :: "int \<Rightarrow> int \<Rightarrow> jsnum" where
  "Math_ceil_div a b =
     (if b = 0 then (if a = 0 then NaN else if a > 0 then PosInf else NegInf)
      else Fin (- ((- a) div b)))"

definition transformSearchResponse_ccew :: "(string \<Rightarrow> jsdate) \<Rightarrow> CCEWSearchResponse \<Rightarrow> search_result" where
  "transformSearchResponse_ccew newDate r =
     \<lparr>items = map (transformSummary_ccew newDate) (charities r),
      total = totalResults r,
      page = ccew_pageNumber r,
      pageSize = ccew_pageSize r,
      totalPages = Math_ceil_div (totalResults r) (ccew_pageSize r),
      aggregations = None\<rparr>"

definition transformTrustee_ccew :: "CCEWTrustee \<Rightarrow> Trustee" where
  "transformTrustee_ccew r =
     \<lparr>trustee_name = trusteeName r, isChair = trusteeIsChair r, otherTrusteeships = None\<rparr>"

definition transformTrustees_ccew :: "CCEWTrustee list \<Rightarrow> Trustee list" where
  "transformTrustees_ccew rs = map transformTrustee_ccew rs"

definition transformFinancialYear :: "(string \<Rightarrow> jsdate) \<Rightarrow> CCEWFinancialYear \<Rightarrow> FinancialYear" where
  "transformFinancialYear newDate r =
     \<lparr>yearEnd = newDate (ccew_financialYearEnd r),
      income = Some (ccew_income r),
      expenditure = Some (ccew_expenditure r)\<rparr>"

definition transformFinancialHistory :: "(string \<Rightarrow> jsdate) \<Rightarrow> CCEWFinancialYear list \<Rightarrow> FinancialYear list" where
  "transformFinancialHistory newDate rs = map (transformFinancialYear newDate) rs"

section \<open>The regulator clients (clients/*/client.ts)\<close>

text \<open>
  A client method takes the upstream of each endpoint it calls and the date parser,
  and passes the state of the client along. It returns the value it resolves to, or
  the value it throws. The cache holds \<open>Charity | null\<close>.
\<close>

type_synonym state = "charity option client_state"

definition throw_api :: "api_error + 'a \<Rightarrow> thrown + 'a" where
  "throw_api r = (case r of Inl e \<Rightarrow> Inl (ApiFailure e) | Inr v \<Rightarrow> Inr v)"

subsection \<open>CCNI\<close>

record ccni_env =
  ccni_details_api :: "CCNICharityDetails upstream"
  ccni_search_api :: "CCNISearchResponse upstream"
  ccni_newDate :: "string \<Rightarrow> jsdate"

definition CCNI_CONTEXT_ID :: int where
  "CCNI_CONTEXT_ID = 2153"

text \<open>\<open>id.replace(/^NIC/i, '')\<close>.\<close>

definition strip_NIC :: "string \<Rightarrow> string" where
  "strip_NIC ident = (if toUpperCase (take 3 ident) = ''NIC'' then drop 3 ident else ident)"

text \<open>A filter that is present and not empty is added to the parameters.\<close>

definition add_filter :: "(string \<times> string) list \<Rightarrow> string \<Rightarrow> (string \<times> param) list \<Rightarrow> (string \<times> param) list" where
  "add_filter filters k params =
     (case or_null (map_of filters k) of Some v \<Rightarrow> obj_set k (PStr v) params | None \<Rightarrow> params)"

definition search_ccni :: "ccni_env \<Rightarrow> client \<Rightarrow> SearchQuery \<Rightarrow> state \<Rightarrow> (thrown + search_result) \<times> state" where
  "search_ccni env this query s =
     (let searchText = (case query_text query of Some t \<Rightarrow> t | None \<Rightarrow> []);
          pageNumber = (case query_page query of Some p \<Rightarrow> p | None \<Rightarrow> 1);
          filters = (case query_filters query of Some f \<Rightarrow> f | None \<Rightarrow> []);
          params = foldl (\<lambda>ps k. add_filter filters k ps)
                     [(''searchText'', PStr searchText), (''pageNumber'', PNum pageNumber),
                      (''contextId'', PNum CCNI_CONTEXT_ID)]
                     [''onlyShow'', ''income'', ''classification1'', ''classification2'',
                      ''classification3'', ''aooa'', ''aood''];
          queryString = buildQueryString params;
          (r, s') = get (ccni_search_api env) this (''/getSearchResults'' @ queryString) s
      in case r of
           Inl e \<Rightarrow> (Inl (ApiFailure e), s')
         | Inr response \<Rightarrow>
             (case data response of
                Parsed (Json payload) \<Rightarrow> (Inr (transformSearchResponse_ccni payload), s')
              | _ \<Rightarrow> (Inl (TypeError ''raw.aggregationGroups is not iterable''), s')))"

definition getCharity_ccni :: "ccni_env \<Rightarrow> client \<Rightarrow> string \<Rightarrow> state \<Rightarrow> (thrown + charity option) \<times> state" where
  "getCharity_ccni env this ident s =
     (let regId = strip_NIC ident;
          cacheKey = getCacheKey this ''getCharity'' regId;
          (cached, s1) = getCached cacheKey s
      in case cached of
           Some v \<Rightarrow> (Inr v, s1)
         | None \<Rightarrow>
             (let queryString = buildQueryString [(''regId'', PStr regId), (''subId'', PNum 0)];
                  (r, s2) = get (ccni_details_api env) this (''/getCharityDetails'' @ queryString) s1
              in case r of
                   Inl e \<Rightarrow>
                     if e = CharityNotFoundError then (Inr None, setCache cacheKey None s2)
                     else (Inl (ApiFailure e), s2)
                 | Inr response \<Rightarrow>
                     (case data response of
                        Parsed (Json payload) \<Rightarrow>
                          if regCharityNumber payload = 0 then (Inr None, setCache cacheKey None s2)
                          else (let result = transformDetails_ccni (ccni_newDate env) payload
                                in (Inr (Some result), setCache cacheKey (Some result) s2))
                      | _ \<Rightarrow> (Inr None, setCache cacheKey None s2))))"

definition searchByName_ccni :: "ccni_env \<Rightarrow> client \<Rightarrow> string \<Rightarrow> int option \<Rightarrow> state \<Rightarrow> (thrown + search_result) \<times> state" where
  "searchByName_ccni env this nm pageArg s =
     search_ccni env this
       \<lparr>query_text = Some nm,
        query_page = Some (case pageArg of Some p \<Rightarrow> p | None \<Rightarrow> 1),
        query_pageSize = None, query_filters = None\<rparr> s"

definition getTrustees_ccni :: "ccni_env \<Rightarrow> client \<Rightarrow> string \<Rightarrow> state \<Rightarrow> (thrown + Trustee list) \<times> state" where
  "getTrustees_ccni env this ident s =
     (let (r, s') = getCharity_ccni env this ident s
      in case r of
           Inl e \<Rightarrow> (Inl e, s')
         | Inr None \<Rightarrow> (Inr [], s')
         | Inr (Some c) \<Rightarrow>
             (case charity_raw c of
                RawCCNIDetails payload \<Rightarrow> (Inr (transformTrustees_ccni (or_empty (trusteesList payload))), s')
              | _ \<Rightarrow> (Inr [], s')))"

definition getFinancialHistory_ccni :: "ccni_env \<Rightarrow> client \<Rightarrow> string \<Rightarrow> state \<Rightarrow> (thrown + FinancialYear list) \<times> state" where
  "getFinancialHistory_ccni env this ident s =
     (let (r, s') = getCharity_ccni env this ident s
      in case r of
           Inl e \<Rightarrow> (Inl e, s')
         | Inr None \<Rightarrow> (Inr [], s')
         | Inr (Some c) \<Rightarrow>
             (case charity_raw c of
                RawCCNIDetails payload \<Rightarrow>
                  (case or_null (dateFinancialYearEnd payload) of
                     None \<Rightarrow> (Inr [], s')
                   | Some d \<Rightarrow>
                       (Inr [\<lparr>yearEnd = ccni_newDate env d,
                              income = Some (case ccni_income payload of Some i \<Rightarrow> i | None \<Rightarrow> 0),
                              expenditure = Some (case totalExpenditure payload of Some e \<Rightarrow> e | None \<Rightarrow> 0)\<rparr>],
                        s'))
              | _ \<Rightarrow> (Inr [], s')))"

definition getOtherRegulators_ccni :: "ccni_env \<Rightarrow> client \<Rightarrow> string \<Rightarrow> state \<Rightarrow> (thrown + OtherRegulatorInfo list) \<times> state" where
  "getOtherRegulators_ccni env this ident s = (Inr [], logNotImplemented this ''getOtherRegulators'' s)"

subsection \<open>CCEW\<close>

record CCEWTrusteesResponse =
  trustees :: "CCEWTrustee list option"

record CCEWFinancialHistoryResponse =
  financialHistory :: "CCEWFinancialYear list option"

record CCEWOtherRegulatorsResponse =
  otherRegulators :: "CCEWOtherRegulator list option"

record ccew_env =
  ccew_details_api :: "CCEWCharityDetails upstream"
  ccew_search_api :: "CCEWSearchResponse upstream"
  ccew_trustees_api :: "CCEWTrusteesResponse upstream"
  ccew_financial_api :: "CCEWFinancialHistoryResponse upstream"
  ccew_regulators_api :: "CCEWOtherRegulatorsResponse upstream"
  ccew_newDate :: "string \<Rightarrow> jsdate"

text \<open>\<open>id.replace(/\D/g, '')\<close>.\<close>

definition strip_non_digits :: "string \<Rightarrow> string" where
  "strip_non_digits ident = filter is_digit ident"

definition search_ccew :: "ccew_env \<Rightarrow> client \<Rightarrow> SearchQuery \<Rightarrow> state \<Rightarrow> (thrown + search_result) \<times> state" where
  "search_ccew env this query s =
     (let keyword = (case query_text query of Some t \<Rightarrow> t | None \<Rightarrow> []);
          pageNumber = (case query_page query of Some p \<Rightarrow> p | None \<Rightarrow> 1);
          size = (case query_pageSize query of Some p \<Rightarrow> p | None \<Rightarrow> 20);
          queryString = buildQueryString
            [(''keyword'', PStr keyword), (''pageNumber'', PNum pageNumber), (''pageSize'', PNum size)];
          (r, s') = get (ccew_search_api env) this
                      (''/allcharitydetails/GetCharitiesByKeyword'' @ queryString) s
      in case r of
           Inl e \<Rightarrow> (Inl (ApiFailure e), s')
         | Inr response \<Rightarrow>
             (case data response of
                Parsed (Json payload) \<Rightarrow> (Inr (transformSearchResponse_ccew (ccew_newDate env) payload), s')
              | _ \<Rightarrow> (Inl (TypeError ''Cannot read properties of undefined (reading 'map')''), s')))"

definition searchByName_ccew ::
  "ccew_env \<Rightarrow> client \<Rightarrow> string \<Rightarrow> int option \<Rightarrow> int option \<Rightarrow> state \<Rightarrow> (thrown + search_result) \<times> state" where
  "searchByName_ccew env this nm pageArg sizeArg s =
     (let queryString = buildQueryString
            [(''charityName'', PStr nm),
             (''pageNumber'', PNum (case pageArg of Some p \<Rightarrow> p | None \<Rightarrow> 1)),
             (''pageSize'', PNum (case sizeArg of Some p \<Rightarrow> p | None \<Rightarrow> 20))];
          (r, s') = get (ccew_search_api env) this
                      (''/allcharitydetails/GetCharitiesByName'' @ queryString) s
      in case r of
           Inl e \<Rightarrow> (Inl (ApiFailure e), s')
         | Inr response \<Rightarrow>
             (case data response of
                Parsed (Json payload) \<Rightarrow> (Inr (transformSearchResponse_ccew (ccew_newDate env) payload), s')
              | _ \<Rightarrow> (Inl (TypeError ''Cannot read properties of undefined (reading 'map')''), s')))"

text \<open>
  \<open>getCharity\<close> of the CCEW client. The handler of the \<open>try\<close> block returns \<open>null\<close>
  for \<open>CharityNotFoundError\<close>, throws \<open>AuthenticationError\<close> again, and for every other
  error stores \<open>null\<close> in the cache and returns it.
\<close>

definition getCharity_ccew :: "ccew_env \<Rightarrow> client \<Rightarrow> string \<Rightarrow> state \<Rightarrow> (thrown + charity option) \<times> state" where
  "getCharity_ccew env this ident s =
     (let regNumber = strip_non_digits ident;
          cacheKey = getCacheKey this ''getCharity'' regNumber;
          (cached, s1) = getCached cacheKey s
      in case cached of
           Some v \<Rightarrow> (Inr v, s1)
         | None \<Rightarrow>
             (let queryString = buildQueryString [(''registeredCharityNumber'', PStr regNumber)];
                  (r, s2) = get (ccew_details_api env) this
                              (''/allcharitydetails/GetAllCharityDetailsV2'' @ queryString) s1
              in case r of
                   Inl e \<Rightarrow>
                     if e = CharityNotFoundError then (Inr None, setCache cacheKey None s2)
                     else (case e of
                             AuthenticationError st \<Rightarrow> (Inl (ApiFailure e), s2)
                           | _ \<Rightarrow> (Inr None, setCache cacheKey None s2))
                 | Inr response \<Rightarrow>
                     (case data response of
                        Parsed (Json payload) \<Rightarrow>
                          if registeredCharityNumber payload = 0
                          then (Inr None, setCache cacheKey None s2)
                          else (let result = transformDetails_ccew (ccew_newDate env) payload
                                in (Inr (Some result), setCache cacheKey (Some result) s2))
                      | _ \<Rightarrow> (Inr None, setCache cacheKey None s2))))"

definition getCharityWithLinked ::
  "ccew_env \<Rightarrow> client \<Rightarrow> string \<Rightarrow> param \<Rightarrow> state \<Rightarrow> (thrown + charity option) \<times> state" where
  "getCharityWithLinked env this regNumber linkedNumber s =
     (let cleanRegNumber = strip_non_digits regNumber;
          queryString = buildQueryString
            [(''registeredCharityNumber'', PStr cleanRegNumber), (''linkedCharityNumber'', linkedNumber)];
          (r, s') = get (ccew_details_api env) this
                      (''/allcharitydetails/GetAllCharityDetailsV2'' @ queryString) s
      in case r of
           Inl e \<Rightarrow> if e = CharityNotFoundError then (Inr None, s') else (Inl (ApiFailure e), s')
         | Inr response \<Rightarrow>
             (case data response of
                Parsed (Json payload) \<Rightarrow>
                  if registeredCharityNumber payload = 0 then (Inr None, s')
                  else (Inr (Some (transformDetails_ccew (ccew_newDate env) payload)), s')
              | _ \<Rightarrow> (Inr None, s')))"

text \<open>The three list methods catch every error and return the empty list.\<close>

definition getTrustees_ccew :: "ccew_env \<Rightarrow> client \<Rightarrow> string \<Rightarrow> state \<Rightarrow> (thrown + Trustee list) \<times> state" where
  "getTrustees_ccew env this ident s =
     (let regNumber = strip_non_digits ident;
          queryString = buildQueryString [(''registeredCharityNumber'', PStr regNumber)];
          (r, s') = get (ccew_trustees_api env) this
                      (''/allcharitydetails/GetCharityTrusteeInformationV2'' @ queryString) s
      in case r of
           Inl e \<Rightarrow> (Inr [], s')
         | Inr response \<Rightarrow>
             (case data response of
                Parsed (Json payload) \<Rightarrow> (Inr (transformTrustees_ccew (or_empty (trustees payload))), s')
              | _ \<Rightarrow> (Inr [], s')))"

definition getFinancialHistory_ccew :: "ccew_env \<Rightarrow> client \<Rightarrow> string \<Rightarrow> state \<Rightarrow> (thrown + FinancialYear list) \<times> state" where
  "getFinancialHistory_ccew env this ident s =
     (let regNumber = strip_non_digits ident;
          queryString = buildQueryString [(''registeredCharityNumber'', PStr regNumber)];
          (r, s') = get (ccew_financial_api env) this
                      (''/allcharitydetails/GetCharityFinancialHistory'' @ queryString) s
      in case r of
           Inl e \<Rightarrow> (Inr [], s')
         | Inr response \<Rightarrow>
             (case data response of
                Parsed (Json payload) \<Rightarrow>
                  (Inr (transformFinancialHistory (ccew_newDate env) (or_empty (financialHistory payload))), s')
              | _ \<Rightarrow> (Inr [], s')))"

definition mapRegulatorName :: "string \<Rightarrow> regulator" where
  "mapRegulatorName nm =
     (let normalized = toLowerCase nm
      in if includes_str normalized ''scotland'' \<or> includes_str normalized ''oscr'' then OSCR
         else if includes_str normalized ''northern ireland'' \<or> includes_str normalized ''ccni'' then CCNI
         else CCEW)"

definition getOtherRegulators_ccew :: "ccew_env \<Rightarrow> client \<Rightarrow> string \<Rightarrow> state \<Rightarrow> (thrown + OtherRegulatorInfo list) \<times> state" where
  "getOtherRegulators_ccew env this ident s =
     (let regNumber = strip_non_digits ident;
          queryString = buildQueryString [(''registeredCharityNumber'', PStr regNumber)];
          (r, s') = get (ccew_regulators_api env) this
                      (''/allcharitydetails/GetCharityOtherRegulators'' @ queryString) s
      in case r of
           Inl e \<Rightarrow> (Inr [], s')
         | Inr response \<Rightarrow>
             (case data response of
                Parsed (Json payload) \<Rightarrow>
                  (Inr (map (\<lambda>reg. \<lparr>other_regulator = mapRegulatorName (regulatorName reg),
                                     other_registrationNumber = ccew_registrationNumber reg\<rparr>)
                          (or_empty (otherRegulators payload))), s')
              | _ \<Rightarrow> (Inr [], s')))"

subsection \<open>OSCR\<close>

record oscr_env =
  oscr_charities_api :: "OSCRAllCharitiesResponse upstream"
  oscr_returns_api :: "OSCRAnnualReturn list upstream"
  oscr_newDate :: "string \<Rightarrow> jsdate"

definition search_oscr :: "oscr_env \<Rightarrow> client \<Rightarrow> SearchQuery \<Rightarrow> state \<Rightarrow> (thrown + search_result) \<times> state" where
  "search_oscr env this query s =
     (let pageNumber = (case query_page query of Some p \<Rightarrow> p | None \<Rightarrow> 1);
          queryString = buildQueryString [(''page'', PNum pageNumber)];
          (r, s') = get (oscr_charities_api env) this (''/all_charities'' @ queryString) s
      in case r of
           Inl e \<Rightarrow> (Inl (ApiFailure e), s')
         | Inr response \<Rightarrow>
             (case data response of
                Parsed (Json payload) \<Rightarrow> (transformAllCharitiesResponse (oscr_newDate env) payload, s')
              | _ \<Rightarrow> (Inl (TypeError ''Cannot read properties of undefined (reading 'length')''), s')))"

text \<open>
  \<open>getCharity\<close> of the OSCR client. It uses no cache. The handler of the \<open>try\<close> block
  throws \<open>AuthenticationError\<close> again and returns \<open>null\<close> for every other error.
\<close>

definition SC_number :: "string \<Rightarrow> string" where
  "SC_number ident =
     (if startsWith (toUpperCase ident) ''SC'' then toUpperCase ident else ''SC'' @ ident)"

definition getCharity_oscr :: "oscr_env \<Rightarrow> client \<Rightarrow> string \<Rightarrow> state \<Rightarrow> (thrown + charity option) \<times> state" where
  "getCharity_oscr env this ident s =
     (let charityNo = SC_number ident;
          queryString = buildQueryString [(''charitynumber'', PStr charityNo)];
          (r, s') = get (oscr_charities_api env) this (''/all_charities'' @ queryString) s
      in case r of
           Inl e \<Rightarrow>
             (case e of
                AuthenticationError st \<Rightarrow> (Inl (ApiFailure e), s')
              | _ \<Rightarrow> (Inr None, s'))
         | Inr response \<Rightarrow>
             (case data response of
                Parsed (Json payload) \<Rightarrow>
                  (case oscr_data payload of
                     Some (firstCharity # rest) \<Rightarrow> (Inr (Some (transformCharity (oscr_newDate env) firstCharity)), s')
                   | _ \<Rightarrow> (Inr None, s'))
              | _ \<Rightarrow> (Inr None, s')))"

text \<open>
  \<open>(charity._raw as OSCRCharity).id\<close>: the raw records of the other regulators have no
  field \<open>id\<close>.
\<close>

definition raw_id :: "raw_payload \<Rightarrow> param" where
  "raw_id payload = (case payload of RawOSCRCharity c \<Rightarrow> PStr (oscr_id c) | _ \<Rightarrow> PUndefined)"

text \<open>
  \<open>getAnnualReturnsById\<close> returns \<open>response.data ?? []\<close>, whatever its shape, and the
  empty array when the request throws.
\<close>

definition getAnnualReturnsById ::
  "oscr_env \<Rightarrow> client \<Rightarrow> param \<Rightarrow> state \<Rightarrow> OSCRAnnualReturn list body_data \<times> state" where
  "getAnnualReturnsById env this charityId s =
     (let queryString = buildQueryString [(''charityid'', charityId)];
          (r, s') = get (oscr_returns_api env) this (''/annualreturns'' @ queryString) s
      in case r of
           Inl e \<Rightarrow> (Parsed (Json []), s')
         | Inr response \<Rightarrow> (data response, s'))"

definition getAnnualReturns :: "oscr_env \<Rightarrow> client \<Rightarrow> string \<Rightarrow> state \<Rightarrow> (thrown + FinancialYear list) \<times> state" where
  "getAnnualReturns env this ident s =
     (let (r, s1) = getCharity_oscr env this ident s
      in case r of
           Inl e \<Rightarrow> (Inl e, s1)
         | Inr None \<Rightarrow> (Inr [], s1)
         | Inr (Some c) \<Rightarrow>
             (let (response, s2) = getAnnualReturnsById env this (raw_id (charity_raw c)) s1
              in case response of
                   Parsed (Json rs) \<Rightarrow> (Inr (transformAnnualReturns (oscr_newDate env) rs), s2)
                 | _ \<Rightarrow> (Inl (TypeError ''raw.map is not a function''), s2)))"

text \<open>
  The comparison function of the sort: the difference of the time values, which is
  \<open>NaN\<close> when a date is invalid and then counts as zero. The sort is stable.
\<close>

definition getTime :: "jsdate \<Rightarrow> jsnum" where
  "getTime d = (case d of Date t \<Rightarrow> Fin t | InvalidDate \<Rightarrow> NaN)"

definition later_first :: "(string \<Rightarrow> jsdate) \<Rightarrow> OSCRAnnualReturn \<Rightarrow> OSCRAnnualReturn \<Rightarrow> int" where
  "later_first newDate a b =
     (case (getTime (newDate (AccountingReferenceDate b)), getTime (newDate (AccountingReferenceDate a))) of
        (Fin tb, Fin ta) \<Rightarrow> tb - ta
      | _ \<Rightarrow> 0)"

fun insert_by :: "('a \<Rightarrow> 'a \<Rightarrow> int) \<Rightarrow> 'a \<Rightarrow> 'a list \<Rightarrow> 'a list" where
  "insert_by cmp x [] = [x]"
| "insert_by cmp x (y # ys) = (if cmp x y > 0 then y # insert_by cmp x ys else x # y # ys)"

definition sort_by :: "('a \<Rightarrow> 'a \<Rightarrow> int) \<Rightarrow> 'a list \<Rightarrow> 'a list" where
  "sort_by cmp xs = foldr (insert_by cmp) xs []"

definition getLatestAnnualReturnRaw ::
  "oscr_env \<Rightarrow> client \<Rightarrow> param \<Rightarrow> state \<Rightarrow> (thrown + OSCRAnnualReturn option) \<times> state" where
  "getLatestAnnualReturnRaw env this charityId s =
     (let (returns, s') = getAnnualReturnsById env this charityId s
      in case returns of
           Parsed (Json rs) \<Rightarrow>
             if length rs = 0 then (Inr None, s')
             else (case sort_by (later_first (oscr_newDate env)) rs of
                     first # rest \<Rightarrow> (Inr (Some first), s')
                   | [] \<Rightarrow> (Inr None, s'))
         | Text str \<Rightarrow>
             if length str = 0 then (Inr None, s')
             else (Inl (TypeError ''returns.sort is not a function''), s')
         | Parsed EmptyObject \<Rightarrow> (Inl (TypeError ''returns.sort is not a function''), s'))"

definition getCharityWithFinancials ::
  "oscr_env \<Rightarrow> client \<Rightarrow> string \<Rightarrow> state \<Rightarrow> (thrown + charity option) \<times> state" where
  "getCharityWithFinancials env this ident s =
     (let (r, s1) = getCharity_oscr env this ident s
      in case r of
           Inl e \<Rightarrow> (Inl e, s1)
         | Inr None \<Rightarrow> (Inr None, s1)
         | Inr (Some c) \<Rightarrow>
             (let (annualReturns, s2) = getAnnualReturns env this ident s1
              in case annualReturns of
                   Inl e \<Rightarrow> (Inl e, s2)
                 | Inr years \<Rightarrow>
                     if length years > 0
                     then (let (latestReturn, s3) =
                                 getLatestAnnualReturnRaw env this (raw_id (charity_raw c)) s2
                           in case latestReturn of
                                Inl e \<Rightarrow> (Inl e, s3)
                              | Inr (Some lr) \<Rightarrow>
                                  (Inr (Some (enrichCharityWithAnnualReturn (oscr_newDate env) c lr)), s3)
                              | Inr None \<Rightarrow> (Inr (Some c), s3))
                     else (Inr (Some c), s2)))"

text \<open>
  The operations of the common interface, and the ones each client class defines.
  The class of the OSCR client defines \<open>search\<close> and \<open>getCharity\<close> (besides
  \<open>getCharityWithFinancials\<close> and \<open>getAnnualReturns\<close>); the classes of the CCEW and of
  the CCNI client define the six operations.
\<close>

datatype operation =
  Search | GetCharity | SearchByName | GetTrustees | GetFinancialHistory | GetOtherRegulators

fun defines_method :: "regulator \<Rightarrow> operation \<Rightarrow> bool" where
  "defines_method OSCR Search = True"
| "defines_method OSCR GetCharity = True"
| "defines_method OSCR SearchByName = False"
| "defines_method OSCR GetTrustees = False"
| "defines_method OSCR GetFinancialHistory = False"
| "defines_method OSCR GetOtherRegulators = False"
| "defines_method CCEW opn = True"
| "defines_method CCNI opn = True"

text \<open>The calls of \<open>fetch\<close> that \<open>getCharity\<close> makes in the CCNI and the CCEW client.\<close>

definition details_call_ccni :: "client \<Rightarrow> string \<Rightarrow> fetch_call" where
  "details_call_ccni this ident =
     get_call this (''/getCharityDetails''
       @ buildQueryString [(''regId'', PStr (strip_NIC ident)), (''subId'', PNum 0)])"

definition details_call_ccew :: "client \<Rightarrow> string \<Rightarrow> fetch_call" where
  "details_call_ccew this ident =
     get_call this (''/allcharitydetails/GetAllCharityDetailsV2''
       @ buildQueryString [(''registeredCharityNumber'', PStr (strip_non_digits ident))])"

definition details_call_oscr :: "client \<Rightarrow> string \<Rightarrow> fetch_call" where
  "details_call_oscr this ident =
     get_call this (''/all_charities'' @ buildQueryString [(''charitynumber'', PStr (SC_number ident))])"

text \<open>The calls of \<open>fetch\<close> that the search operations make.\<close>

definition search_call_ccni :: "client \<Rightarrow> SearchQuery \<Rightarrow> fetch_call" where
  "search_call_ccni this query =
     get_call this (''/getSearchResults'' @ buildQueryString
       (foldl (\<lambda>ps k. add_filter (case query_filters query of Some f \<Rightarrow> f | None \<Rightarrow> []) k ps)
          [(''searchText'', PStr (case query_text query of Some t \<Rightarrow> t | None \<Rightarrow> [])),
           (''pageNumber'', PNum (case query_page query of Some p \<Rightarrow> p | None \<Rightarrow> 1)),
           (''contextId'', PNum CCNI_CONTEXT_ID)]
          [''onlyShow'', ''income'', ''classification1'', ''classification2'',
           ''classification3'', ''aooa'', ''aood'']))"

definition search_call_ccew :: "client \<Rightarrow> SearchQuery \<Rightarrow> fetch_call" where
  "search_call_ccew this query =
     get_call this (''/allcharitydetails/GetCharitiesByKeyword'' @ buildQueryString
       [(''keyword'', PStr (case query_text query of Some t \<Rightarrow> t | None \<Rightarrow> [])),
        (''pageNumber'', PNum (case query_page query of Some p \<Rightarrow> p | None \<Rightarrow> 1)),
        (''pageSize'', PNum (case query_pageSize query of Some p \<Rightarrow> p | None \<Rightarrow> 20))])"

definition searchByName_call_ccew :: "client \<Rightarrow> string \<Rightarrow> int option \<Rightarrow> int option \<Rightarrow> fetch_call" where
  "searchByName_call_ccew this nm pageArg sizeArg =
     get_call this (''/allcharitydetails/GetCharitiesByName'' @ buildQueryString
       [(''charityName'', PStr nm),
        (''pageNumber'', PNum (case pageArg of Some p \<Rightarrow> p | None \<Rightarrow> 1)),
        (''pageSize'', PNum (case sizeArg of Some p \<Rightarrow> p | None \<Rightarrow> 20))])"

definition search_call_oscr :: "client \<Rightarrow> SearchQuery \<Rightarrow> fetch_call" where
  "search_call_oscr this query =
     get_call this (''/all_charities''
       @ buildQueryString [(''page'', PNum (case query_page query of Some p \<Rightarrow> p | None \<Rightarrow> 1))])"

section \<open>Example upstreams and clients\<close>

text \<open>Concrete upstreams, clients and states on which the theorems below are instantiated.\<close>

definition oscr_example_charity :: OSCRCharity where
  "oscr_example_charity =
     \<lparr>oscr_id = ''uuid-1'', oscr_charityName = ''Stoneyburn Community Education Centre'',
      charityNumber = ''SC000001'', oscr_registeredDate = None, knownAs = None,
      oscr_website = None, charityStatus = ''Active'', currentConstitutionalForm = None,
      oscr_notes = None, geographicalSpread = None, mainOperatingLocation = None,
      oscr_purposes = None, oscr_beneficiaries = None, typesOfActivities = None,
      objectives = None, principalOfficeOrTrusteeAddress = None, principalContactAddress = None,
      mostRecentYearIncome = None, mostRecentYearExpenditure = None, oscr_yearEnd = None\<rparr>"

definition json_response :: "'d \<Rightarrow> 'd wire_response" where
  "json_response d =
     \<lparr>w_status = 200, w_statusText = ''OK'', w_headers = [(''content-type'', ''application/json'')],
      w_text = [], w_json = Some (Json d)\<rparr>"

definition oscr_example_env :: oscr_env where
  "oscr_example_env =
     \<lparr>oscr_charities_api = (\<lambda>k c. Responds (json_response
         \<lparr>currentPage = 1, oscr_totalPages = 1, oscr_data = Some [oscr_example_charity]\<rparr>)),
      oscr_returns_api = (\<lambda>k c. Responds (json_response [])),
      oscr_newDate = (\<lambda>str. InvalidDate)\<rparr>"

definition default_config :: client_config where
  "default_config = \<lparr>cfg_apiKey = Some ''key'', cfg_baseUrl = None, cfg_timeout = None,
       cfg_retryAttempts = None, cfg_retryDelay = None, cfg_cache = None\<rparr>"

definition example_client :: "regulator \<Rightarrow> client" where
  "example_client reg = new_BaseClient reg default_config"

definition initial_state :: "charity option lru option \<Rightarrow> state" where
  "initial_state c = \<lparr>fetched = [], clock = 0, cache = c, warnings = []\<rparr>"

definition failing_upstream :: "'d upstream" where
  "failing_upstream = (\<lambda>k c. Responds
     \<lparr>w_status = 400, w_statusText = ''Bad Request'', w_headers = [], w_text = [], w_json = None\<rparr>)"

definition ccni_example_env :: ccni_env where
  "ccni_example_env =
     \<lparr>ccni_details_api = failing_upstream,
      ccni_search_api = (\<lambda>k c. Responds (json_response
         \<lparr>ccni_pageNumber = 1, ccni_pageSize = 10, ccni_totalPages = 0, totalItems = 0,
          pageItems = [], aggregationGroups = [], onlyShow = None\<rparr>)),
      ccni_newDate = (\<lambda>str. InvalidDate)\<rparr>"

definition ccew_failing_env :: ccew_env where
  "ccew_failing_env =
     \<lparr>ccew_details_api = failing_upstream, ccew_search_api = failing_upstream,
      ccew_trustees_api = failing_upstream, ccew_financial_api = failing_upstream,
      ccew_regulators_api = failing_upstream, ccew_newDate = (\<lambda>str. InvalidDate)\<rparr>"

definition oscr_failing_env :: oscr_env where
  "oscr_failing_env =
     \<lparr>oscr_charities_api = failing_upstream, oscr_returns_api = failing_upstream,
      oscr_newDate = (\<lambda>str. InvalidDate)\<rparr>"

definition absent_upstream :: "'d upstream" where
  "absent_upstream = (\<lambda>k c. Responds
     \<lparr>w_status = 200, w_statusText = ''OK'', w_headers = [(''content-type'', ''application/json'')],
      w_text = ''{}'', w_json = Some EmptyObject\<rparr>)"

definition ccni_absent_env :: ccni_env where
  "ccni_absent_env =
     \<lparr>ccni_details_api = absent_upstream, ccni_search_api = absent_upstream,
      ccni_newDate = (\<lambda>str. InvalidDate)\<rparr>"

definition ccew_absent_env :: ccew_env where
  "ccew_absent_env =
     \<lparr>ccew_details_api = absent_upstream, ccew_search_api = absent_upstream,
      ccew_trustees_api = absent_upstream, ccew_financial_api = absent_upstream,
      ccew_regulators_api = absent_upstream, ccew_newDate = (\<lambda>str. InvalidDate)\<rparr>"




definition ccni_example_details :: CCNICharityDetails where
  "ccni_example_details =
     \<lparr>regCharityNumber = 100002, subCharityNumber = ''0'', ccni_companyNumber = None,
      ccni_charityName = ''Example Charity'', ccni_otherNames = None, ccni_status = ''Up-to-date'',
      dateRegistered = None, dateRemoved = None, contactWebsite = None, contactEmail = None,
      contactTel = None, csvContactAddress = None, contactAddress = None, ccni_income = None,
      totalExpenditure = None, dateFinancialYearEnd = None, numberEmployees = None,
      numberVolunteers = None, peopleTrustees = None, classWhat = None, classWho = None,
      classHow = None, ccni_areasOfOperation = None, ccni_organisationType = None,
      ccni_governingDocument = None, ccni_charitableObjects = None, publicBenefits = None,
      ccni_activities = None, trusteesList = None\<rparr>"

definition ccni_details_env :: ccni_env where
  "ccni_details_env =
     \<lparr>ccni_details_api = (\<lambda>k c. Responds (json_response ccni_example_details)),
      ccni_search_api = absent_upstream, ccni_newDate = (\<lambda>str. InvalidDate)\<rparr>"

definition ccew_example_details :: CCEWCharityDetails where
  "ccew_example_details =
     \<lparr>registeredCharityNumber = 1234567, linkedCharityNumber = 0, ccew_charityName = ''Example Charity'',
      charityRegistrationStatus = ''Registered'', ccew_dateOfRegistration = None,
      ccew_dateOfRemoval = None, charityContactWeb = None, charityContactEmail = None,
      charityContactPhone = None, charityContactAddress1 = None, charityContactAddress2 = None,
      charityContactAddress3 = None, charityContactAddress4 = None, charityContactAddress5 = None,
      charityContactPostcode = None, ccew_organisationType = None,
      charityCompanyRegistrationNumber = None, ccew_latestIncome = None,
      ccew_latestExpenditure = None, latestFinancialYearEnd = None, numberOfEmployees = None,
      numberOfVolunteers = None, numberOfTrustees = None, charityWhoWhat = None,
      charityAreasOfOperation = None, ccew_otherNames = None, ccew_charitableObjects = None,
      governingDocument = None\<rparr>"

definition ccew_details_env :: ccew_env where
  "ccew_details_env =
     \<lparr>ccew_details_api = (\<lambda>k c. Responds (json_response ccew_example_details)),
      ccew_search_api = absent_upstream, ccew_trustees_api = absent_upstream,
      ccew_financial_api = absent_upstream, ccew_regulators_api = absent_upstream,
      ccew_newDate = (\<lambda>str. InvalidDate)\<rparr>"

section \<open>Properties of the query string and of the rate-limit error\<close>

lemma object_entries_no_index:
  assumes "list_all (\<lambda>(k, v). \<not> is_array_index k) ps"
  shows "object_entries ps = ps"
proof -
  from assms have a: "\<forall>x\<in>set ps. \<not> (case x of (k, v) \<Rightarrow> is_array_index k)"
    by (auto simp: list_all_iff)
  then have "filter (\<lambda>(k, v). is_array_index k) ps = []"
    by (simp add: filter_empty_conv)
  moreover from a have "filter (\<lambda>(k, v). \<not> is_array_index k) ps = ps"
    by (simp add: filter_id_conv case_prod_unfold)
  ultimately show ?thesis
    by (simp add: object_entries_def)
qed

lemma join_Cons_nonempty: "x \<noteq> [] \<Longrightarrow> join sep (x # xs) \<noteq> []"
  by (cases xs) simp_all

lemma searchParams_toString_empty_iff: "searchParams_toString ps = [] \<longleftrightarrow> ps = []"
proof (cases ps)
  case Nil
  then show ?thesis by (simp add: searchParams_toString_def)
next
  case (Cons p qs)
  obtain k v where p: "p = (k, v)" by (cases p)
  have "join ''&'' ((form_encode k @ ''='' @ form_encode v) # map (\<lambda>(k, v). form_encode k @ ''='' @ form_encode v) qs) \<noteq> []"
    by (rule join_Cons_nonempty) simp
  with Cons p show ?thesis by (simp add: searchParams_toString_def)
qed

lemma count_list_insort_key:
  "count_list (insort_key f x xs) e = count_list (x # xs) e"
  by (induction xs) auto

lemma count_list_sort_key:
  "count_list (sort_key f xs) e = count_list xs e"
  by (induction xs) (simp_all add: count_list_insort_key)

lemma object_entries_order:
  "\<exists>ixs. object_entries ps = ixs @ filter (\<lambda>(k, v). \<not> is_array_index k) ps
        \<and> (\<forall>e. count_list ixs e = count_list (filter (\<lambda>(k, v). is_array_index k) ps) e)
        \<and> sorted (map (\<lambda>(k, v). int_of_digits k) ixs)"
  by (intro exI [of _ "sort_key (\<lambda>(k, v). int_of_digits k) (filter (\<lambda>(k, v). is_array_index k) ps)"])
     (simp add: object_entries_def count_list_sort_key)

lemma buildQueryString_entries:
  "buildQueryString params =
     (let kept = filter (\<lambda>(k, v). v \<noteq> PUndefined \<and> v \<noteq> PNull \<and> v \<noteq> PStr []) (object_entries params)
      in if kept = [] then []
         else ''?'' @ join ''&'' (map (\<lambda>(k, v). form_encode k @ ''='' @ form_encode (String_of v)) kept))"
proof -
  define kept where "kept = filter (\<lambda>(k, v). v \<noteq> PUndefined \<and> v \<noteq> PNull \<and> v \<noteq> PStr []) (object_entries params)"
  have ap: "appended (object_entries params) = map (\<lambda>(k, v). (k, String_of v)) kept"
    by (simp add: appended_def kept_def param_kept_def)
  have ser: "searchParams_toString (map (\<lambda>(k, v). (k, String_of v)) kept)
      = join ''&'' (map (\<lambda>(k, v). form_encode k @ ''='' @ form_encode (String_of v)) kept)"
    by (simp add: searchParams_toString_def case_prod_unfold comp_def)
  have "buildQueryString params =
      (if kept = [] then [] else ''?'' @ join ''&'' (map (\<lambda>(k, v). form_encode k @ ''='' @ form_encode (String_of v)) kept))"
    using searchParams_toString_empty_iff [of "map (\<lambda>(k, v). (k, String_of v)) kept"]
    by (simp add: buildQueryString_def ap ser Let_def)
  then show ?thesis by (simp add: kept_def Let_def)
qed

text \<open>
  Claim C9, as amended. \<open>buildQueryString\<close> goes through the parameters in the order
  of \<open>Object.entries\<close>: first the names that are array indices, in ascending numeric
  order, then the other names in insertion order; without an index name this is the
  insertion order. It drops the parameters whose value is \<open>undefined\<close>, \<open>null\<close> or the
  empty string and serialises every other one, also \<open>0\<close> and \<open>false\<close>, as
  \<open>name=String(value)\<close> in form encoding. For
  \<open>{page: 1, search: undefined, note: '', flag: false}\<close> the result is
  \<open>?page=1&flag=false\<close>.
\<close>

theorem buildQueryString_kept_in_order:
  "buildQueryString params =
     (let kept = filter (\<lambda>(k, v). v \<noteq> PUndefined \<and> v \<noteq> PNull \<and> v \<noteq> PStr []) (object_entries params)
      in if kept = [] then []
         else ''?'' @ join ''&'' (map (\<lambda>(k, v). form_encode k @ ''='' @ form_encode (String_of v)) kept))
   \<and> (\<exists>ixs. object_entries params = ixs @ filter (\<lambda>(k, v). \<not> is_array_index k) params
        \<and> (\<forall>e. count_list ixs e = count_list (filter (\<lambda>(k, v). is_array_index k) params) e)
        \<and> sorted (map (\<lambda>(k, v). int_of_digits k) ixs))
   \<and> (list_all (\<lambda>(k, v). \<not> is_array_index k) params \<longrightarrow> object_entries params = params)
   \<and> buildQueryString [(''page'', PNum 1), (''search'', PUndefined), (''note'', PStr ''''), (''flag'', PBool False)]
       = ''?page=1&flag=false''
   \<and> buildQueryString [(''b'', PNum 0), (''10'', PBool False), (''x'', PNull), (''2'', PStr ''a b''), (''1'', PStr '''')]
       = ''?2=a+b&10=false&b=0''"
proof (intro conjI impI)
  show "buildQueryString params =
     (let kept = filter (\<lambda>(k, v). v \<noteq> PUndefined \<and> v \<noteq> PNull \<and> v \<noteq> PStr []) (object_entries params)
      in if kept = [] then []
         else ''?'' @ join ''&'' (map (\<lambda>(k, v). form_encode k @ ''='' @ form_encode (String_of v)) kept))"
    by (rule buildQueryString_entries)
  show "\<exists>ixs. object_entries params = ixs @ filter (\<lambda>(k, v). \<not> is_array_index k) params
        \<and> (\<forall>e. count_list ixs e = count_list (filter (\<lambda>(k, v). is_array_index k) params) e)
        \<and> sorted (map (\<lambda>(k, v). int_of_digits k) ixs)"
    by (rule object_entries_order)
  show "object_entries params = params" if "list_all (\<lambda>(k, v). \<not> is_array_index k) params"
    using that by (rule object_entries_no_index)
  show "buildQueryString [(''page'', PNum 1), (''search'', PUndefined), (''note'', PStr ''''), (''flag'', PBool False)]
       = ''?page=1&flag=false''"
    by code_simp
  show "buildQueryString [(''b'', PNum 0), (''10'', PBool False), (''x'', PNull), (''2'', PStr ''a b''), (''1'', PStr '''')]
       = ''?2=a+b&10=false&b=0''"
    by code_simp
qed

theorem buildQueryString_kept_in_order_witness:
  "list_all (\<lambda>(k, v). \<not> is_array_index k) [(''a b'', PNum 0), (''x'', PNull), (''f'', PBool False)]
   \<and> object_entries [(''a b'', PNum 0), (''x'', PNull), (''f'', PBool False)]
       = [(''a b'', PNum 0), (''x'', PNull), (''f'', PBool False)]
   \<and> buildQueryString [(''a b'', PNum 0), (''x'', PNull), (''f'', PBool False)] = ''?a+b=0&f=false''"
proof -
  have h: "list_all (\<lambda>(k, v). \<not> is_array_index k) [(''a b'', PNum 0), (''x'', PNull), (''f'', PBool False)]"
    by code_simp
  from buildQueryString_kept_in_order [of "[(''a b'', PNum 0), (''x'', PNull), (''f'', PBool False)]"] h
  have o: "object_entries [(''a b'', PNum 0), (''x'', PNull), (''f'', PBool False)]
       = [(''a b'', PNum 0), (''x'', PNull), (''f'', PBool False)]"
    and b: "buildQueryString [(''a b'', PNum 0), (''x'', PNull), (''f'', PBool False)] =
     (let kept = filter (\<lambda>(k, v). v \<noteq> PUndefined \<and> v \<noteq> PNull \<and> v \<noteq> PStr [])
                   (object_entries [(''a b'', PNum 0), (''x'', PNull), (''f'', PBool False)])
      in if kept = [] then []
         else ''?'' @ join ''&'' (map (\<lambda>(k, v). form_encode k @ ''='' @ form_encode (String_of v)) kept))"
    by blast+
  have e: "(let kept = filter (\<lambda>(k, v). v \<noteq> PUndefined \<and> v \<noteq> PNull \<and> v \<noteq> PStr [])
                   [(''a b'', PNum 0), (''x'', PNull), (''f'', PBool False)]
      in if kept = [] then []
         else ''?'' @ join ''&'' (map (\<lambda>(k, v). form_encode k @ ''='' @ form_encode (String_of v)) kept))
      = ''?a+b=0&f=false''"
    by code_simp
  from h o b e show ?thesis by simp
qed

text \<open>
  Claim C9 as stated fails for a parameter name that is an array index:
  \<open>Object.entries\<close> enumerates it before the names inserted earlier.
\<close>

theorem buildQueryString_index_key_counterexample:
  "buildQueryString [(''b'', PNum 1), (''0'', PNum 2)] = ''?0=2&b=1''
   \<and> buildQueryString [(''b'', PNum 1), (''0'', PNum 2)] \<noteq> ''?b=1&0=2''"
  by code_simp

text \<open>
  The \<open>retryAfter\<close> of a \<open>RateLimitError\<close>: unset without the header or with an empty
  one, the number for a header of decimal digits, and \<open>NaN\<close> whenever \<open>parseInt\<close>
  gives \<open>NaN\<close>.
\<close>

lemma parseInt_digits:
  assumes "ds \<noteq> []" and "list_all is_digit ds"
  shows "parseInt ds = Fin (int_of_digits ds)"
proof -
  obtain c cs where ds: "ds = c # cs" using assms(1) by (cases ds) auto
  with assms(2) have c: "is_digit c" by simp
  then have "\<not> is_space c" "c \<noteq> CHR ''-''" "c \<noteq> CHR ''+''"
    by (auto simp: is_digit_def is_space_def)
  moreover have "takeWhile is_digit ds = ds"
    using assms(2) by (simp add: list_all_iff takeWhile_eq_all_conv)
  ultimately show ?thesis using ds by (simp add: parseInt_def Let_def)
qed

lemma retryAfter_cases:
  "headers_get hs ''Retry-After'' = None \<Longrightarrow> new_RateLimitError (Some hs) = None"
  "headers_get hs ''Retry-After'' = Some [] \<Longrightarrow> new_RateLimitError (Some hs) = None"
  "headers_get hs ''Retry-After'' = Some ds \<Longrightarrow> ds \<noteq> [] \<Longrightarrow> list_all is_digit ds
     \<Longrightarrow> new_RateLimitError (Some hs) = Some (Fin (int_of_digits ds))"
  "headers_get hs ''Retry-After'' = Some h \<Longrightarrow> h \<noteq> [] \<Longrightarrow> parseInt h = NaN
     \<Longrightarrow> new_RateLimitError (Some hs) = Some NaN"
  by (simp_all add: new_RateLimitError_def Let_def parseInt_digits isNaN_def)

text \<open>
  Claim C3 says that a 429 response whose \<open>Retry-After\<close> header is not numeric leaves
  \<open>retryAfter\<close> unset. The constructor leaves it \<open>NaN\<close>: the reset is guarded by
  the truthiness of the field, and \<open>NaN\<close> is falsy.
\<close>

theorem retryAfter_invalid_header_is_NaN:
  "new_RateLimitError (Some [(''Retry-After'', ''invalid'')]) = Some NaN"
  by code_simp

section \<open>Properties of the transport and of the error classification\<close>

lemma parse_response_sel [simp]:
  "ok (parse_response w) = response_ok w"
  "status (parse_response w) = w_status w"
  "statusText (parse_response w) = w_statusText w"
  "headers (parse_response w) = w_headers w"
  "raw (parse_response w) = w_text w"
  by (simp_all add: parse_response_def Let_def)

lemma fetched_sleep [simp]: "fetched (sleep ms s) = fetched s"
  by (simp add: sleep_def)

lemma loop_final_response:
  assumes "up (length (fetched s)) c = Responds r"
    and "attempt \<le> maxRetries cfg"
    and "response_ok r \<or> \<not> isRetryable (w_status r) \<or> attempt = maxRetries cfg"
  shows "httpRequest_loop up c cfg attempt le s = (Inr (parse_response r), s\<lparr>fetched := fetched s @ [c]\<rparr>)"
  using assms by (subst httpRequest_loop.simps) auto


lemma maxRetries_of_request [simp]:
  "maxRetries (DEFAULT_RETRY_CONFIG\<lparr>maxRetries := n, delayMs := d\<rparr>) = n"
  by simp

lemma get_unfold:
  "get up this endpoint s =
     (case httpRequest_loop up (get_call this endpoint)
             (DEFAULT_RETRY_CONFIG\<lparr>maxRetries := retryAttempts this, delayMs := retryDelay this\<rparr>) 0 None s of
        (Inl e, s') \<Rightarrow> (Inl e, s')
      | (Inr response, s') \<Rightarrow>
          if \<not> ok response
          then (Inl (handleErrorResponse (status response) (statusText response)
                       (headers response) (raw response)), s')
          else (Inr response, s'))"
  by (simp add: get_def request_def httpRequest_def no_options_def get_call_def Let_def
      split: prod.splits sum.splits)





lemma get_is_request:
  "get up this endpoint s = request up this endpoint (no_options\<lparr>opt_method := Some ''GET''\<rparr>) s"
  by (simp add: get_def)

lemma get_call_is_request_call:
  "get_call this endpoint = request_call this endpoint (no_options\<lparr>opt_method := Some ''GET''\<rparr>)"
  by (simp add: get_call_def request_call_def no_options_def)





section \<open>Properties of the normalisation\<close>

lemma Math_ceil_div_ceiling:
  "b \<noteq> 0 \<Longrightarrow> Math_ceil_div a b = Fin \<lceil>real_of_int a / real_of_int b\<rceil>"
  by (simp add: Math_ceil_div_def ceiling_divide_eq_div)

text \<open>
  Claim C10. \<open>enrichCharityWithAnnualReturn\<close> returns a record that agrees with the
  given charity on every field other than \<open>employeeCount\<close>, \<open>trusteeCount\<close>,
  \<open>latestIncome\<close>, \<open>latestExpenditure\<close> and \<open>financialYearEnd\<close>; the result is the
  given record with these five fields replaced. The function builds a new value: the
  record it is given is an immutable value of the model.
\<close>

theorem enrich_frame:
  fixes c :: "'raw Charity"
  shows "let c' = enrichCharityWithAnnualReturn newDate c annualReturn in
    charity_id c' = charity_id c \<and> charity_regulator c' = charity_regulator c
    \<and> registrationNumber c' = registrationNumber c \<and> subsidiaryNumber c' = subsidiaryNumber c
    \<and> companyNumber c' = companyNumber c \<and> name c' = name c \<and> otherNames c' = otherNames c
    \<and> charity_status c' = charity_status c \<and> registeredDate c' = registeredDate c
    \<and> removedDate c' = removedDate c \<and> website c' = website c \<and> email c' = email c
    \<and> phone c' = phone c \<and> address c' = address c \<and> volunteerCount c' = volunteerCount c
    \<and> purposes c' = purposes c \<and> beneficiaries c' = beneficiaries c
    \<and> activities c' = activities c \<and> areasOfOperation c' = areasOfOperation c
    \<and> organisationType c' = organisationType c
    \<and> governingDocumentType c' = governingDocumentType c
    \<and> charitableObjects c' = charitableObjects c \<and> publicBenefit c' = publicBenefit c
    \<and> activityDescription c' = activityDescription c \<and> charity_raw c' = charity_raw c
    \<and> c' = c\<lparr>employeeCount := employeeCount c', trusteeCount := trusteeCount c',
              latestIncome := latestIncome c', latestExpenditure := latestExpenditure c',
              financialYearEnd := financialYearEnd c'\<rparr>"
  by (simp add: enrichCharityWithAnnualReturn_def Let_def)

text \<open>
  Claim C7, as amended. The CCEW search result has \<open>totalPages\<close> equal to the
  ceiling of \<open>total / pageSize\<close> whenever the page size is not zero. The OSCR result
  takes as page size the length of the page, or 100 for an empty page, reports
  \<open>totalPages\<close> times that page size as total, and so satisfies the same equation.
  The CCNI result carries the total, the page size and the number of pages of the
  upstream response unchanged.
\<close>

theorem search_totals:
  "(ccew_pageSize ew \<noteq> 0 \<longrightarrow>
      totalPages (transformSearchResponse_ccew newDate ew)
        = Fin \<lceil>real_of_int (total (transformSearchResponse_ccew newDate ew))
               / real_of_int (pageSize (transformSearchResponse_ccew newDate ew))\<rceil>)
   \<and> (transformAllCharitiesResponse newDate sc = Inr res \<longrightarrow>
        (\<exists>ds. oscr_data sc = Some ds \<and> pageSize res = (if ds = [] then 100 else int (length ds)))
        \<and> total res = oscr_totalPages sc * pageSize res
        \<and> totalPages res = Fin (oscr_totalPages sc)
        \<and> totalPages res = Fin \<lceil>real_of_int (total res) / real_of_int (pageSize res)\<rceil>)
   \<and> total (transformSearchResponse_ccni ni) = totalItems ni
   \<and> pageSize (transformSearchResponse_ccni ni) = ccni_pageSize ni
   \<and> totalPages (transformSearchResponse_ccni ni) = Fin (ccni_totalPages ni)"
proof (intro conjI impI)
  assume "ccew_pageSize ew \<noteq> 0"
  then show "totalPages (transformSearchResponse_ccew newDate ew)
        = Fin \<lceil>real_of_int (total (transformSearchResponse_ccew newDate ew))
               / real_of_int (pageSize (transformSearchResponse_ccew newDate ew))\<rceil>"
    by (simp add: transformSearchResponse_ccew_def Math_ceil_div_ceiling)
next
  assume a: "transformAllCharitiesResponse newDate sc = Inr res"
  then obtain ds where ds: "oscr_data sc = Some ds"
    by (cases "oscr_data sc") (simp_all add: transformAllCharitiesResponse_def)
  define ps where "ps = (if ds = [] then 100 else int (length ds))"
  have ps: "ps \<noteq> 0" by (simp add: ps_def)
  from a ds have res: "res = \<lparr>items = map (transformCharity newDate) ds, total = oscr_totalPages sc * ps,
       page = currentPage sc, pageSize = ps, totalPages = Fin (oscr_totalPages sc), aggregations = None\<rparr>"
    by (auto simp: transformAllCharitiesResponse_def Let_def ps_def)
  show "\<exists>ds. oscr_data sc = Some ds \<and> pageSize res = (if ds = [] then 100 else int (length ds))"
    using ds res by (simp add: ps_def)
  show "total res = oscr_totalPages sc * pageSize res" using res by simp
  show "totalPages res = Fin (oscr_totalPages sc)" using res by simp
  show "totalPages res = Fin \<lceil>real_of_int (total res) / real_of_int (pageSize res)\<rceil>"
    using res ps by simp
qed (simp_all add: transformSearchResponse_ccni_def Let_def)

theorem search_totals_witness:
  "ccew_pageSize \<lparr>charities = [], totalResults = 45, ccew_pageNumber = 1, ccew_pageSize = 20\<rparr> \<noteq> 0
   \<and> totalPages (transformSearchResponse_ccew (\<lambda>str. InvalidDate)
        \<lparr>charities = [], totalResults = 45, ccew_pageNumber = 1, ccew_pageSize = 20\<rparr>) = Fin 3
   \<and> transformAllCharitiesResponse (\<lambda>str. InvalidDate)
        \<lparr>currentPage = 1, oscr_totalPages = 3, oscr_data = Some []\<rparr>
       = Inr \<lparr>items = [], total = 300, page = 1, pageSize = 100, totalPages = Fin 3, aggregations = None\<rparr>
   \<and> Fin 3 = Fin \<lceil>real_of_int 300 / real_of_int 100\<rceil>"
proof -
  let ?ew = "\<lparr>charities = [], totalResults = 45, ccew_pageNumber = 1, ccew_pageSize = 20\<rparr>"
  let ?sc = "\<lparr>currentPage = 1, oscr_totalPages = 3, oscr_data = Some []\<rparr>"
  let ?res = "\<lparr>items = [], total = 300, page = 1, pageSize = 100, totalPages = Fin 3,
               aggregations = None\<rparr> :: search_result"
  let ?ni = "\<lparr>ccni_pageNumber = 1, ccni_pageSize = 10, ccni_totalPages = 5, totalItems = 50,
       pageItems = [], aggregationGroups = [], onlyShow = None\<rparr>"
  have e: "transformAllCharitiesResponse (\<lambda>str. InvalidDate) ?sc = Inr ?res"
    by (simp add: transformAllCharitiesResponse_def)
  have t: "total (transformSearchResponse_ccew (\<lambda>str. InvalidDate) ?ew) = 45"
     "pageSize (transformSearchResponse_ccew (\<lambda>str. InvalidDate) ?ew) = 20"
    by (simp_all add: transformSearchResponse_ccew_def)
  from search_totals [of ?ew "\<lambda>str. InvalidDate" ?sc ?res ?ni] e t
  show ?thesis by simp
qed

text \<open>
  Claim C7 as stated fails for CCNI: the number of pages is the one of the upstream
  response, whatever its total and page size.
\<close>

theorem ccni_totalPages_counterexample:
  "totalPages (transformSearchResponse_ccni
      \<lparr>ccni_pageNumber = 1, ccni_pageSize = 10, ccni_totalPages = 7, totalItems = 50,
       pageItems = [], aggregationGroups = [], onlyShow = None\<rparr>) = Fin 7
   \<and> Fin 7 \<noteq> Fin \<lceil>real_of_int (total (transformSearchResponse_ccni
      \<lparr>ccni_pageNumber = 1, ccni_pageSize = 10, ccni_totalPages = 7, totalItems = 50,
       pageItems = [], aggregationGroups = [], onlyShow = None\<rparr>))
     / real_of_int (pageSize (transformSearchResponse_ccni
      \<lparr>ccni_pageNumber = 1, ccni_pageSize = 10, ccni_totalPages = 7, totalItems = 50,
       pageItems = [], aggregationGroups = [], onlyShow = None\<rparr>))\<rceil>"
  by (simp add: transformSearchResponse_ccni_def Let_def)

section \<open>Effects of a request on the state\<close>

lemma loop_attempts:
  "\<exists>k t. snd (httpRequest_loop up c cfg attempt le s)
            = s\<lparr>fetched := fetched s @ replicate k c, clock := clock s + t\<rparr>
         \<and> (attempt \<le> maxRetries cfg \<longrightarrow> 1 \<le> k) \<and> k \<le> Suc (maxRetries cfg) - attempt"
proof (induction up c cfg attempt le s rule: httpRequest_loop.induct)
  case (1 up c cfg attempt le s)
  show ?case
  proof (cases "attempt \<le> maxRetries cfg")
    case False
    then have "snd (httpRequest_loop up c cfg attempt le s) = s"
      by (subst httpRequest_loop.simps) simp
    then have "snd (httpRequest_loop up c cfg attempt le s)
       = s\<lparr>fetched := fetched s @ replicate 0 c, clock := clock s + 0\<rparr>" by simp
    with False show ?thesis by (intro exI [of _ 0]) simp
  next
    case True
    let ?s1 = "s\<lparr>fetched := fetched s @ [c]\<rparr>"
    let ?s2 = "sleep (calculateDelay attempt cfg) ?s1"
    have one: "?s1 = s\<lparr>fetched := fetched s @ replicate 1 c, clock := clock s + 0\<rparr>" by simp
    show ?thesis
    proof (cases "up (length (fetched s)) c")
      case (Responds w)
      show ?thesis
      proof (cases "\<not> response_ok w \<and> isRetryable (w_status w) \<and> attempt < maxRetries cfg")
        case retry: True
        from "1.IH"(1) [OF True Responds retry]
        obtain k t where kt: "snd (httpRequest_loop up c cfg (attempt + 1) le ?s2)
            = ?s2\<lparr>fetched := fetched ?s2 @ replicate k c, clock := clock ?s2 + t\<rparr>"
          and kb: "k \<le> Suc (maxRetries cfg) - (attempt + 1)"
          by blast
        have "httpRequest_loop up c cfg attempt le s = httpRequest_loop up c cfg (attempt + 1) le ?s2"
          using True Responds retry by (subst httpRequest_loop.simps) simp
        with kt have "snd (httpRequest_loop up c cfg attempt le s)
           = s\<lparr>fetched := fetched s @ replicate (Suc k) c,
               clock := clock s + (calculateDelay attempt cfg + t)\<rparr>"
          by (simp add: sleep_def replicate_append_same)
        moreover from kb retry have "Suc k \<le> Suc (maxRetries cfg) - attempt" by arith
        ultimately show ?thesis
          by (intro exI [of _ "Suc k"] exI [of _ "calculateDelay attempt cfg + t"]) simp
      next
        case False
        have "httpRequest_loop up c cfg attempt le s = (Inr (parse_response w), ?s1)"
          using True Responds False by (subst httpRequest_loop.simps) auto
        with one True show ?thesis by (intro exI [of _ 1] exI [of _ 0]) simp
      qed
    next
      case (Throws nm msg)
      show ?thesis
      proof (cases "(nm = ''AbortError'' \<or> nm = ''TypeError'' \<or> includes_str msg ''fetch'') \<and> attempt < maxRetries cfg")
        case retry: True
        from "1.IH"(2) [OF True Throws retry]
        obtain k t where kt: "snd (httpRequest_loop up c cfg (attempt + 1) (Some (nm, msg)) ?s2)
            = ?s2\<lparr>fetched := fetched ?s2 @ replicate k c, clock := clock ?s2 + t\<rparr>"
          and kb: "k \<le> Suc (maxRetries cfg) - (attempt + 1)"
          by blast
        have "httpRequest_loop up c cfg attempt le s = httpRequest_loop up c cfg (attempt + 1) (Some (nm, msg)) ?s2"
          using True Throws retry by (subst httpRequest_loop.simps) simp
        with kt have "snd (httpRequest_loop up c cfg attempt le s)
           = s\<lparr>fetched := fetched s @ replicate (Suc k) c,
               clock := clock s + (calculateDelay attempt cfg + t)\<rparr>"
          by (simp add: sleep_def replicate_append_same)
        moreover from kb retry have "Suc k \<le> Suc (maxRetries cfg) - attempt" by arith
        ultimately show ?thesis
          by (intro exI [of _ "Suc k"] exI [of _ "calculateDelay attempt cfg + t"]) simp
      next
        case False
        have "httpRequest_loop up c cfg attempt le s = (Inl (NetworkError nm msg), ?s1)"
          using True Throws False by (subst httpRequest_loop.simps) auto
        with one True show ?thesis by (intro exI [of _ 1] exI [of _ 0]) simp
      qed
    qed
  qed
qed

lemma loop_state:
  "\<exists>k t. snd (httpRequest_loop up c cfg attempt le s)
            = s\<lparr>fetched := fetched s @ replicate k c, clock := clock s + t\<rparr>
         \<and> (attempt \<le> maxRetries cfg \<longrightarrow> 1 \<le> k)"
  using loop_attempts [of up c cfg attempt le s] by blast

lemma snd_get:
  "snd (get up this endpoint s) =
     snd (httpRequest_loop up (get_call this endpoint)
            (DEFAULT_RETRY_CONFIG\<lparr>maxRetries := retryAttempts this, delayMs := retryDelay this\<rparr>) 0 None s)"
  by (simp add: get_unfold split: prod.splits sum.splits)

lemma get_attempts:
  "\<exists>k t. k \<le> retryAttempts this
       \<and> snd (get up this endpoint s)
            = s\<lparr>fetched := fetched s @ replicate (Suc k) (get_call this endpoint), clock := clock s + t\<rparr>"
proof -
  let ?cfg = "DEFAULT_RETRY_CONFIG\<lparr>maxRetries := retryAttempts this, delayMs := retryDelay this\<rparr>"
  from loop_attempts [of up "get_call this endpoint" ?cfg 0 None s]
  obtain k t where kt: "snd (httpRequest_loop up (get_call this endpoint) ?cfg 0 None s)
      = s\<lparr>fetched := fetched s @ replicate k (get_call this endpoint), clock := clock s + t\<rparr>"
    "1 \<le> k" "k \<le> Suc (retryAttempts this)" by auto
  then obtain k' where "k = Suc k'" by (cases k) auto
  with kt show ?thesis unfolding snd_get by (intro exI [of _ k'] exI [of _ t]) simp
qed

lemma get_state:
  "\<exists>k t. snd (get up this endpoint s)
            = s\<lparr>fetched := fetched s @ replicate (Suc k) (get_call this endpoint), clock := clock s + t\<rparr>"
  using get_attempts [of this up endpoint s] by blast

section \<open>Properties of the clients\<close>

lemma get_final:
  assumes "up (length (fetched s)) (get_call this endpoint) = Responds w"
    and "response_ok w \<or> \<not> isRetryable (w_status w)"
  shows "get up this endpoint s =
     (if response_ok w then Inr (parse_response w)
      else Inl (handleErrorResponse (w_status w) (w_statusText w) (w_headers w) (w_text w)),
      s\<lparr>fetched := fetched s @ [get_call this endpoint]\<rparr>)"
proof -
  have "httpRequest_loop up (get_call this endpoint)
          (DEFAULT_RETRY_CONFIG\<lparr>maxRetries := retryAttempts this, delayMs := retryDelay this\<rparr>) 0 None s
        = (Inr (parse_response w), s\<lparr>fetched := fetched s @ [get_call this endpoint]\<rparr>)"
    using assms by (intro loop_final_response) auto
  then show ?thesis by (simp add: get_unfold)
qed

lemma data_json_response [simp]: "data (parse_response (json_response d)) = Parsed (Json d)"
proof -
  have "headers_get [(''content-type'', ''application/json'')] ''content-type'' = Some ''application/json''"
    by code_simp
  moreover have "includes_str ''application/json'' ''application/json''"
    by code_simp
  ultimately show ?thesis
    by (simp add: parse_response_def json_response_def)
qed

lemma json_response_ok [simp]: "response_ok (json_response d)"
  by (simp add: response_ok_def json_response_def)

lemma get_failing_upstream:
  "get failing_upstream this endpoint s =
     (Inl (ApiError 400 ''Bad Request'' []), s\<lparr>fetched := fetched s @ [get_call this endpoint]\<rparr>)"
  using get_final [of failing_upstream s this endpoint
      "\<lparr>w_status = 400, w_statusText = ''Bad Request'', w_headers = [], w_text = [], w_json = None\<rparr>"]
  by (simp add: failing_upstream_def isRetryable_def response_ok_def handleErrorResponse_def)

lemma getCached_miss [simp]:
  "getCached k (initial_state None) = (None, initial_state None)"
  "getCached k (initial_state (new_cache default_config)) = (None, initial_state (new_cache default_config))"
  by (simp_all add: getCached_def initial_state_def new_cache_def default_config_def lru_get_def)

text \<open>
  Claim C8. When \<open>getCharity\<close> of the OSCR client resolves to a record and the
  following \<open>getAnnualReturns\<close> resolves to the empty list, \<open>getCharityWithFinancials\<close>
  resolves to that record, unchanged: neither \<open>null\<close> nor an error.
\<close>

theorem enrichment_keeps_primary_record:
  "getCharity_oscr env this ident s = (Inr (Some c), s1)
     \<and> getAnnualReturns env this ident s1 = (Inr [], s2)
   \<longrightarrow> getCharityWithFinancials env this ident s = (Inr (Some c), s2)"
  by (simp add: getCharityWithFinancials_def)

theorem enrichment_keeps_primary_record_witness:
  "getCharity_oscr oscr_example_env (example_client OSCR) ''SC000001'' (initial_state None)
     = (Inr (Some (transformCharity (\<lambda>str. InvalidDate) oscr_example_charity)),
        (initial_state None)\<lparr>fetched := [get_call (example_client OSCR)
           (''/all_charities'' @ buildQueryString [(''charitynumber'', PStr (SC_number ''SC000001''))])]\<rparr>)
   \<and> fst (getAnnualReturns oscr_example_env (example_client OSCR) ''SC000001''
        ((initial_state None)\<lparr>fetched := [get_call (example_client OSCR)
           (''/all_charities'' @ buildQueryString [(''charitynumber'', PStr (SC_number ''SC000001''))])]\<rparr>))
     = Inr []
   \<and> fst (getCharityWithFinancials oscr_example_env (example_client OSCR) ''SC000001'' (initial_state None))
     = Inr (Some (transformCharity (\<lambda>str. InvalidDate) oscr_example_charity))"
proof -
  let ?s1 = "(initial_state None)\<lparr>fetched := [get_call (example_client OSCR)
           (''/all_charities'' @ buildQueryString [(''charitynumber'', PStr (SC_number ''SC000001''))])]\<rparr>"
  let ?c = "transformCharity (\<lambda>str. InvalidDate) oscr_example_charity"
  have h1: "getCharity_oscr oscr_example_env (example_client OSCR) ''SC000001'' (initial_state None)
     = (Inr (Some ?c), ?s1)"
    by (simp add: getCharity_oscr_def oscr_example_env_def get_final initial_state_def)
  obtain s2 where h2: "getAnnualReturns oscr_example_env (example_client OSCR) ''SC000001'' ?s1 = (Inr [], s2)"
    by (simp add: getAnnualReturns_def getCharity_oscr_def oscr_example_env_def get_final
        getAnnualReturnsById_def transformAnnualReturns_def)
  from enrichment_keeps_primary_record
         [of oscr_example_env "example_client OSCR" "''SC000001''" "initial_state None" ?c ?s1 s2] h1 h2
  show ?thesis by simp
qed

text \<open>
  Claim C2 says that every client implements the six operations and answers an
  unsupported one with an empty result and one notice. \<open>getOtherRegulators\<close> of the
  CCNI client does so. The class of the OSCR client defines none of \<open>searchByName\<close>,
  \<open>getTrustees\<close>, \<open>getFinancialHistory\<close> and \<open>getOtherRegulators\<close>.
\<close>

theorem unsupported_operations:
  "\<not> defines_method OSCR SearchByName \<and> \<not> defines_method OSCR GetTrustees
   \<and> \<not> defines_method OSCR GetFinancialHistory \<and> \<not> defines_method OSCR GetOtherRegulators
   \<and> getOtherRegulators_ccni env (this\<lparr>regulator := CCNI\<rparr>) ident s
      = (Inr [], s\<lparr>warnings := warnings s
           @ [''[CCNI] getOtherRegulators is not supported by this regulator's API'']\<rparr>)"
  by (simp add: getOtherRegulators_ccni_def logNotImplemented_def)

text \<open>
  Claim C1 says that \<open>getCharity\<close> returns \<open>null\<close> only for a true not-found and
  lets every other error through. For an upstream that answers 400, \<open>getCharity\<close> of
  the CCEW client and of the OSCR client resolve to \<open>null\<close>; the one of the CCNI client
  throws the \<open>ApiError\<close>.
\<close>

theorem getCharity_swallows_api_failure:
  "fst (getCharity_ccew ccew_failing_env (example_client CCEW) ''1234567''
          (initial_state (new_cache default_config))) = Inr None
   \<and> fst (getCharity_oscr oscr_failing_env (example_client OSCR) ''SC000001''
          (initial_state None)) = Inr None
   \<and> fst (getCharity_ccni ccni_example_env (example_client CCNI) ''100002''
          (initial_state (new_cache default_config)))
       = Inl (ApiFailure (ApiError 400 ''Bad Request'' []))"
proof (intro conjI)
  show "fst (getCharity_ccew ccew_failing_env (example_client CCEW) ''1234567''
          (initial_state (new_cache default_config))) = Inr None"
    by (simp add: getCharity_ccew_def ccew_failing_env_def get_failing_upstream Let_def)
  show "fst (getCharity_oscr oscr_failing_env (example_client OSCR) ''SC000001''
          (initial_state None)) = Inr None"
    by (simp add: getCharity_oscr_def oscr_failing_env_def get_failing_upstream Let_def)
  have "ccni_details_api ccni_example_env = failing_upstream"
    by (simp add: ccni_example_env_def)
  then show "fst (getCharity_ccni ccni_example_env (example_client CCNI) ''100002''
          (initial_state (new_cache default_config)))
       = Inl (ApiFailure (ApiError 400 ''Bad Request'' []))"
    by (simp add: getCharity_ccni_def get_failing_upstream Let_def)
qed

text \<open>
  Claim C5 as stated fails for \<open>search\<close>: no client caches a search, so two successive
  identical searches with caching enabled call \<open>fetch\<close> twice.
\<close>

theorem search_not_cached_counterexample:
  "length (fetched (snd (search_ccni ccni_example_env (example_client CCNI)
       \<lparr>query_text = Some ''cancer'', query_page = None, query_pageSize = None, query_filters = None\<rparr>
       (snd (search_ccni ccni_example_env (example_client CCNI)
          \<lparr>query_text = Some ''cancer'', query_page = None, query_pageSize = None, query_filters = None\<rparr>
          (initial_state (new_cache default_config))))))) = 2"
  by (simp add: search_ccni_def ccni_example_env_def get_final initial_state_def Let_def)

section \<open>The cache of \<open>getCharity\<close>\<close>

lemma get_state_client:
  fixes s :: "'v client_state"
  shows "\<exists>k t. k \<le> retryAttempts this
       \<and> snd (get up this endpoint s)
            = s\<lparr>fetched := fetched s @ replicate (Suc k) (get_call this endpoint), clock := clock s + t\<rparr>"
  by (rule get_attempts)

lemma getCached_disabled: "cache s = None \<Longrightarrow> getCached k s = (None, s)"
  by (simp add: getCached_def)

lemma getCached_no_entry:
  "cache s = Some c \<Longrightarrow> find (\<lambda>e. fst e = k) (lru_entries c) = None \<Longrightarrow> getCached k s = (None, s)"
  by (simp add: getCached_def lru_get_def)

lemma getCached_cleared: "getCached k (clearCache s) = (None, clearCache s)"
  by (cases "cache s") (simp_all add: getCached_def clearCache_def lru_get_def lru_clear_def)

lemma fetched_setCache [simp]: "fetched (setCache k v s) = fetched s"
  by (cases "cache s") (simp_all add: setCache_def)

lemma fetched_clearCache [simp]: "fetched (clearCache s) = fetched s"
  by (cases "cache s") (simp_all add: clearCache_def)

lemma cache_setCache_None [simp]: "cache s = None \<Longrightarrow> cache (setCache k v s) = None"
  by (simp add: setCache_def)

text \<open>A value stored with \<open>setCache\<close> is found again until its time-to-live has passed.\<close>

lemma getCached_after_setCache:
  assumes "cache s2 = Some c" and "1 \<le> lru_max c" and "d \<le> lru_ttl c"
  shows "\<exists>s'. getCached k ((setCache k v s2)\<lparr>clock := clock s2 + d\<rparr>) = (Some v, s')
           \<and> fetched s' = fetched s2"
proof -
  from assms(2) obtain m where m: "lru_max c = Suc m" by (cases "lru_max c") auto
  show ?thesis
    using assms(1,3) m
    by (simp add: getCached_def setCache_def lru_set_def lru_get_def split_beta)
qed

text \<open>The shape of \<open>getCharity\<close> of the CCNI and the CCEW client on a cache hit and on a miss.\<close>

lemma getCharity_ccni_hit:
  "getCached (getCacheKey this ''getCharity'' (strip_NIC ident)) s = (Some v, s')
   \<Longrightarrow> getCharity_ccni env this ident s = (Inr v, s')"
  by (simp add: getCharity_ccni_def Let_def)

lemma getCharity_ccew_hit:
  "getCached (getCacheKey this ''getCharity'' (strip_non_digits ident)) s = (Some v, s')
   \<Longrightarrow> getCharity_ccew env this ident s = (Inr v, s')"
  by (simp add: getCharity_ccew_def Let_def)

lemma clock_setCache [simp]: "clock (setCache k v s) = clock s"
  by (cases "cache s") (simp_all add: setCache_def)

lemma cache_upd_net [simp]:
  "cache (s\<lparr>fetched := f, clock := t\<rparr>) = cache s"
  by simp

lemma getCharity_ccni_miss:
  assumes miss: "getCached (getCacheKey this ''getCharity'' (strip_NIC ident)) s = (None, s)"
  shows "\<exists>k t. k \<le> retryAttempts this
           \<and> (let s2 = s\<lparr>fetched := fetched s @ replicate (Suc k) (details_call_ccni this ident),
                            clock := clock s + t\<rparr>
           in (\<exists>e. getCharity_ccni env this ident s = (Inl e, s2))
              \<or> (\<exists>r. getCharity_ccni env this ident s
                       = (Inr r, setCache (getCacheKey this ''getCharity'' (strip_NIC ident)) r s2)))"
proof -
  let ?ep = "''/getCharityDetails'' @ buildQueryString [(''regId'', PStr (strip_NIC ident)), (''subId'', PNum 0)]"
  obtain r s2 where g: "get (ccni_details_api env) this ?ep s = (r, s2)"
    by (cases "get (ccni_details_api env) this ?ep s")
  from get_state_client [where this = this and up = "ccni_details_api env" and endpoint = ?ep and s = s] g
  obtain k t where kb: "k \<le> retryAttempts this"
    and s2: "s2 = s\<lparr>fetched := fetched s @ replicate (Suc k) (details_call_ccni this ident),
                            clock := clock s + t\<rparr>"
    by (auto simp: details_call_ccni_def)
  have "(\<exists>e. getCharity_ccni env this ident s = (Inl e, s2))
      \<or> (\<exists>r. getCharity_ccni env this ident s
               = (Inr r, setCache (getCacheKey this ''getCharity'' (strip_NIC ident)) r s2))"
    using miss g
    by (auto simp: getCharity_ccni_def Let_def split: sum.splits body_data.splits json.splits)
  with s2 kb show ?thesis by (intro exI [of _ k] exI [of _ t]) (simp add: Let_def)
qed

lemma getCharity_ccni_miss_final:
  assumes miss: "getCached (getCacheKey this ''getCharity'' (strip_NIC ident)) s = (None, s)"
    and w: "ccni_details_api env (length (fetched s)) (details_call_ccni this ident) = Responds w"
    and final: "response_ok w \<or> \<not> isRetryable (w_status w)"
  shows "fetched (snd (getCharity_ccni env this ident s)) = fetched s @ [details_call_ccni this ident]"
proof -
  let ?ep = "''/getCharityDetails'' @ buildQueryString [(''regId'', PStr (strip_NIC ident)), (''subId'', PNum 0)]"
  have c: "details_call_ccni this ident = get_call this ?ep" by (simp add: details_call_ccni_def)
  from w have "ccni_details_api env (length (fetched s)) (get_call this ?ep) = Responds w"
    by (simp add: c)
  from get_final [where up = "ccni_details_api env" and s = s and this = this and endpoint = ?ep and w = w, OF this final]
  have "snd (get (ccni_details_api env) this ?ep s) = s\<lparr>fetched := fetched s @ [get_call this ?ep]\<rparr>"
    by simp
  then show ?thesis
    using miss
    by (auto simp: getCharity_ccni_def Let_def c
             split: prod.splits sum.splits body_data.splits json.splits api_error.splits)
qed

lemma getCharity_ccew_miss:
  assumes miss: "getCached (getCacheKey this ''getCharity'' (strip_non_digits ident)) s = (None, s)"
  shows "\<exists>k t. k \<le> retryAttempts this
           \<and> (let s2 = s\<lparr>fetched := fetched s @ replicate (Suc k) (details_call_ccew this ident),
                            clock := clock s + t\<rparr>
           in (\<exists>e. getCharity_ccew env this ident s = (Inl e, s2))
              \<or> (\<exists>r. getCharity_ccew env this ident s
                       = (Inr r, setCache (getCacheKey this ''getCharity'' (strip_non_digits ident)) r s2)))"
proof -
  let ?ep = "''/allcharitydetails/GetAllCharityDetailsV2''
       @ buildQueryString [(''registeredCharityNumber'', PStr (strip_non_digits ident))]"
  obtain r s2 where g: "get (ccew_details_api env) this ?ep s = (r, s2)"
    by (cases "get (ccew_details_api env) this ?ep s")
  from get_state_client [where this = this and up = "ccew_details_api env" and endpoint = ?ep and s = s] g
  obtain k t where kb: "k \<le> retryAttempts this"
    and s2: "s2 = s\<lparr>fetched := fetched s @ replicate (Suc k) (details_call_ccew this ident),
                            clock := clock s + t\<rparr>"
    by (auto simp: details_call_ccew_def)
  have "(\<exists>e. getCharity_ccew env this ident s = (Inl e, s2))
      \<or> (\<exists>r. getCharity_ccew env this ident s
               = (Inr r, setCache (getCacheKey this ''getCharity'' (strip_non_digits ident)) r s2))"
    using miss g
    by (auto simp: getCharity_ccew_def Let_def split: sum.splits body_data.splits json.splits api_error.splits)
  with s2 kb show ?thesis by (intro exI [of _ k] exI [of _ t]) (simp add: Let_def)
qed

lemma getCharity_ccew_miss_final:
  assumes miss: "getCached (getCacheKey this ''getCharity'' (strip_non_digits ident)) s = (None, s)"
    and w: "ccew_details_api env (length (fetched s)) (details_call_ccew this ident) = Responds w"
    and final: "response_ok w \<or> \<not> isRetryable (w_status w)"
  shows "fetched (snd (getCharity_ccew env this ident s)) = fetched s @ [details_call_ccew this ident]"
proof -
  let ?ep = "''/allcharitydetails/GetAllCharityDetailsV2''
       @ buildQueryString [(''registeredCharityNumber'', PStr (strip_non_digits ident))]"
  have c: "details_call_ccew this ident = get_call this ?ep" by (simp add: details_call_ccew_def)
  from w have "ccew_details_api env (length (fetched s)) (get_call this ?ep) = Responds w"
    by (simp add: c)
  from get_final [where up = "ccew_details_api env" and s = s and this = this and endpoint = ?ep and w = w, OF this final]
  have "snd (get (ccew_details_api env) this ?ep s) = s\<lparr>fetched := fetched s @ [get_call this ?ep]\<rparr>"
    by simp
  then show ?thesis
    using miss
    by (auto simp: getCharity_ccew_def Let_def c
             split: prod.splits sum.splits body_data.splits json.splits api_error.splits)
qed

lemma getCharity_ccni_miss_fetched:
  assumes "getCached (getCacheKey this ''getCharity'' (strip_NIC ident)) s = (None, s)"
  shows "\<exists>k\<le>retryAttempts this. fetched (snd (getCharity_ccni env this ident s))
              = fetched s @ replicate (Suc k) (details_call_ccni this ident)"
    and "cache s = None \<Longrightarrow> cache (snd (getCharity_ccni env this ident s)) = None"
  using getCharity_ccni_miss [OF assms, of env] by (auto simp: Let_def)

lemma getCharity_ccew_miss_fetched:
  assumes "getCached (getCacheKey this ''getCharity'' (strip_non_digits ident)) s = (None, s)"
  shows "\<exists>k\<le>retryAttempts this. fetched (snd (getCharity_ccew env this ident s))
              = fetched s @ replicate (Suc k) (details_call_ccew this ident)"
    and "cache s = None \<Longrightarrow> cache (snd (getCharity_ccew env this ident s)) = None"
  using getCharity_ccew_miss [OF assms, of env] by (auto simp: Let_def)

lemma getCharity_ccni_repeat:
  assumes c: "cache s = Some c" and m: "1 \<le> lru_max c"
    and fresh: "find (\<lambda>e. fst e = getCacheKey this ''getCharity'' (strip_NIC ident)) (lru_entries c) = None"
    and first: "getCharity_ccni env this ident s = (Inr r, s1)"
    and d: "d \<le> lru_ttl c"
  shows "(\<exists>k\<le>retryAttempts this. fetched s1 = fetched s @ replicate (Suc k) (details_call_ccni this ident))
       \<and> fst (getCharity_ccni env this ident (s1\<lparr>clock := clock s1 + d\<rparr>)) = Inr r
       \<and> fetched (snd (getCharity_ccni env this ident (s1\<lparr>clock := clock s1 + d\<rparr>))) = fetched s1
       \<and> (\<exists>k\<le>retryAttempts this. fetched (snd (getCharity_ccni env this ident (clearCache s1)))
                = fetched s1 @ replicate (Suc k) (details_call_ccni this ident))"
proof -
  let ?key = "getCacheKey this ''getCharity'' (strip_NIC ident)"
  have miss: "getCached ?key s = (None, s)" using c fresh by (rule getCached_no_entry)
  from getCharity_ccni_miss [OF miss, of env] first
  obtain k t where kb: "k \<le> retryAttempts this"
    and s1: "s1 = setCache ?key r (s\<lparr>fetched := fetched s @ replicate (Suc k) (details_call_ccni this ident),
                            clock := clock s + t\<rparr>)"
    by (auto simp: Let_def)
  let ?s2 = "s\<lparr>fetched := fetched s @ replicate (Suc k) (details_call_ccni this ident), clock := clock s + t\<rparr>"
  have f1: "fetched s1 = fetched s @ replicate (Suc k) (details_call_ccni this ident)"
    using s1 by simp
  have c2: "cache ?s2 = Some c" using c by simp
  have "s1\<lparr>clock := clock s1 + d\<rparr> = (setCache ?key r ?s2)\<lparr>clock := clock ?s2 + d\<rparr>"
    using s1 by simp
  with getCached_after_setCache [OF c2 m d, of ?key r]
  obtain s' where hit: "getCached ?key (s1\<lparr>clock := clock s1 + d\<rparr>) = (Some r, s')"
    and fs': "fetched s' = fetched ?s2" by auto
  from getCharity_ccni_hit [OF hit, of env]
  have second: "getCharity_ccni env this ident (s1\<lparr>clock := clock s1 + d\<rparr>) = (Inr r, s')" .
  have "getCached ?key (clearCache s1) = (None, clearCache s1)" by (rule getCached_cleared)
  from getCharity_ccni_miss_fetched(1) [OF this, of env]
  have third: "\<exists>k\<le>retryAttempts this. fetched (snd (getCharity_ccni env this ident (clearCache s1)))
                = fetched s1 @ replicate (Suc k) (details_call_ccni this ident)"
    by simp
  from f1 kb have "\<exists>k\<le>retryAttempts this. fetched s1 = fetched s @ replicate (Suc k) (details_call_ccni this ident)"
    by blast
  with second fs' third f1 show ?thesis by simp
qed

lemma getCharity_ccew_repeat:
  assumes c: "cache s = Some c" and m: "1 \<le> lru_max c"
    and fresh: "find (\<lambda>e. fst e = getCacheKey this ''getCharity'' (strip_non_digits ident)) (lru_entries c) = None"
    and first: "getCharity_ccew env this ident s = (Inr r, s1)"
    and d: "d \<le> lru_ttl c"
  shows "(\<exists>k\<le>retryAttempts this. fetched s1 = fetched s @ replicate (Suc k) (details_call_ccew this ident))
       \<and> fst (getCharity_ccew env this ident (s1\<lparr>clock := clock s1 + d\<rparr>)) = Inr r
       \<and> fetched (snd (getCharity_ccew env this ident (s1\<lparr>clock := clock s1 + d\<rparr>))) = fetched s1
       \<and> (\<exists>k\<le>retryAttempts this. fetched (snd (getCharity_ccew env this ident (clearCache s1)))
                = fetched s1 @ replicate (Suc k) (details_call_ccew this ident))"
proof -
  let ?key = "getCacheKey this ''getCharity'' (strip_non_digits ident)"
  have miss: "getCached ?key s = (None, s)" using c fresh by (rule getCached_no_entry)
  from getCharity_ccew_miss [OF miss, of env] first
  obtain k t where kb: "k \<le> retryAttempts this"
    and s1: "s1 = setCache ?key r (s\<lparr>fetched := fetched s @ replicate (Suc k) (details_call_ccew this ident),
                            clock := clock s + t\<rparr>)"
    by (auto simp: Let_def)
  let ?s2 = "s\<lparr>fetched := fetched s @ replicate (Suc k) (details_call_ccew this ident), clock := clock s + t\<rparr>"
  have f1: "fetched s1 = fetched s @ replicate (Suc k) (details_call_ccew this ident)"
    using s1 by simp
  have c2: "cache ?s2 = Some c" using c by simp
  have "s1\<lparr>clock := clock s1 + d\<rparr> = (setCache ?key r ?s2)\<lparr>clock := clock ?s2 + d\<rparr>"
    using s1 by simp
  with getCached_after_setCache [OF c2 m d, of ?key r]
  obtain s' where hit: "getCached ?key (s1\<lparr>clock := clock s1 + d\<rparr>) = (Some r, s')"
    and fs': "fetched s' = fetched ?s2" by auto
  from getCharity_ccew_hit [OF hit, of env]
  have second: "getCharity_ccew env this ident (s1\<lparr>clock := clock s1 + d\<rparr>) = (Inr r, s')" .
  have "getCached ?key (clearCache s1) = (None, clearCache s1)" by (rule getCached_cleared)
  from getCharity_ccew_miss_fetched(1) [OF this, of env]
  have third: "\<exists>k\<le>retryAttempts this. fetched (snd (getCharity_ccew env this ident (clearCache s1)))
                = fetched s1 @ replicate (Suc k) (details_call_ccew this ident)"
    by simp
  from f1 kb have "\<exists>k\<le>retryAttempts this. fetched s1 = fetched s @ replicate (Suc k) (details_call_ccew this ident)"
    by blast
  with second fs' third f1 show ?thesis by simp
qed

lemma getCharity_ccni_uncached:
  assumes "cache s = None"
  shows "\<exists>k\<le>retryAttempts this. \<exists>j\<le>retryAttempts this.
            fetched (snd (getCharity_ccni env this ident s))
              = fetched s @ replicate (Suc k) (details_call_ccni this ident)
          \<and> fetched (snd (getCharity_ccni env this ident (snd (getCharity_ccni env this ident s))))
              = fetched s @ replicate (Suc k) (details_call_ccni this ident)
                  @ replicate (Suc j) (details_call_ccni this ident)"
proof -
  let ?key = "getCacheKey this ''getCharity'' (strip_NIC ident)"
  let ?s1 = "snd (getCharity_ccni env this ident s)"
  have miss: "getCached ?key s = (None, s)" using assms by (rule getCached_disabled)
  from getCharity_ccni_miss_fetched [OF miss, of env] assms
  obtain k where kb: "k \<le> retryAttempts this"
    and k: "fetched ?s1 = fetched s @ replicate (Suc k) (details_call_ccni this ident)"
    and c1: "cache ?s1 = None" by auto
  have miss1: "getCached ?key ?s1 = (None, ?s1)" using c1 by (rule getCached_disabled)
  from getCharity_ccni_miss_fetched(1) [OF miss1, of env]
  obtain j where jb: "j \<le> retryAttempts this"
    and "fetched (snd (getCharity_ccni env this ident ?s1))
      = fetched ?s1 @ replicate (Suc j) (details_call_ccni this ident)" by auto
  with k kb show ?thesis by (intro exI [of _ k] exI [of _ j]) simp
qed

lemma getCharity_ccew_uncached:
  assumes "cache s = None"
  shows "\<exists>k\<le>retryAttempts this. \<exists>j\<le>retryAttempts this.
            fetched (snd (getCharity_ccew env this ident s))
              = fetched s @ replicate (Suc k) (details_call_ccew this ident)
          \<and> fetched (snd (getCharity_ccew env this ident (snd (getCharity_ccew env this ident s))))
              = fetched s @ replicate (Suc k) (details_call_ccew this ident)
                  @ replicate (Suc j) (details_call_ccew this ident)"
proof -
  let ?key = "getCacheKey this ''getCharity'' (strip_non_digits ident)"
  let ?s1 = "snd (getCharity_ccew env this ident s)"
  have miss: "getCached ?key s = (None, s)" using assms by (rule getCached_disabled)
  from getCharity_ccew_miss_fetched [OF miss, of env] assms
  obtain k where kb: "k \<le> retryAttempts this"
    and k: "fetched ?s1 = fetched s @ replicate (Suc k) (details_call_ccew this ident)"
    and c1: "cache ?s1 = None" by auto
  have miss1: "getCached ?key ?s1 = (None, ?s1)" using c1 by (rule getCached_disabled)
  from getCharity_ccew_miss_fetched(1) [OF miss1, of env]
  obtain j where jb: "j \<le> retryAttempts this"
    and "fetched (snd (getCharity_ccew env this ident ?s1))
      = fetched ?s1 @ replicate (Suc j) (details_call_ccew this ident)" by auto
  with k kb show ?thesis by (intro exI [of _ k] exI [of _ j]) simp
qed

lemma two_requests:
  fixes f :: "state \<Rightarrow> 'r \<times> state"
  assumes "\<And>s. \<exists>k t. k \<le> n \<and> snd (f s) = s\<lparr>fetched := fetched s @ replicate (Suc k) c, clock := clock s + t\<rparr>"
  shows "\<exists>k\<le>n. \<exists>j\<le>n. fetched (snd (f s)) = fetched s @ replicate (Suc k) c
           \<and> fetched (snd (f (snd (f s)))) = fetched s @ replicate (Suc k) c @ replicate (Suc j) c"
proof -
  from assms [of s] obtain k t where k: "k \<le> n"
    and s1: "snd (f s) = s\<lparr>fetched := fetched s @ replicate (Suc k) c, clock := clock s + t\<rparr>" by blast
  from assms [of "snd (f s)"] obtain j u where j: "j \<le> n"
    and s2: "snd (f (snd (f s))) = (snd (f s))\<lparr>fetched := fetched (snd (f s)) @ replicate (Suc j) c,
                clock := clock (snd (f s)) + u\<rparr>" by blast
  from s1 have f1: "fetched (snd (f s)) = fetched s @ replicate (Suc k) c" by simp
  from s2 f1 have "fetched (snd (f (snd (f s)))) = fetched s @ replicate (Suc k) c @ replicate (Suc j) c"
    by simp
  with f1 k j show ?thesis by blast
qed

lemma search_ccni_state:
  "\<exists>k t. k \<le> retryAttempts this
       \<and> snd (search_ccni env this q s)
            = s\<lparr>fetched := fetched s @ replicate (Suc k) (search_call_ccni this q), clock := clock s + t\<rparr>"
proof -
  let ?ep = "''/getSearchResults'' @ buildQueryString
       (foldl (\<lambda>ps k. add_filter (case query_filters q of Some f \<Rightarrow> f | None \<Rightarrow> []) k ps)
          [(''searchText'', PStr (case query_text q of Some t \<Rightarrow> t | None \<Rightarrow> [])),
           (''pageNumber'', PNum (case query_page q of Some p \<Rightarrow> p | None \<Rightarrow> 1)),
           (''contextId'', PNum CCNI_CONTEXT_ID)]
          [''onlyShow'', ''income'', ''classification1'', ''classification2'',
           ''classification3'', ''aooa'', ''aood''])"
  obtain r s2 where g: "get (ccni_search_api env) this ?ep s = (r, s2)"
    by (cases "get (ccni_search_api env) this ?ep s")
  from get_state_client [where this = this and up = "ccni_search_api env" and endpoint = ?ep and s = s] g
  obtain k t where kb: "k \<le> retryAttempts this"
    and s2: "s2 = s\<lparr>fetched := fetched s @ replicate (Suc k) (get_call this ?ep), clock := clock s + t\<rparr>"
    by auto
  have "snd (search_ccni env this q s) = s2"
    using g by (simp add: search_ccni_def Let_def split: sum.splits body_data.splits json.splits)
  with s2 kb show ?thesis by (intro exI [of _ k] exI [of _ t]) (simp add: search_call_ccni_def)
qed

lemma search_ccew_state:
  "\<exists>k t. k \<le> retryAttempts this
       \<and> snd (search_ccew env this q s)
            = s\<lparr>fetched := fetched s @ replicate (Suc k) (search_call_ccew this q), clock := clock s + t\<rparr>"
proof -
  let ?ep = "''/allcharitydetails/GetCharitiesByKeyword'' @ buildQueryString
       [(''keyword'', PStr (case query_text q of Some t \<Rightarrow> t | None \<Rightarrow> [])),
        (''pageNumber'', PNum (case query_page q of Some p \<Rightarrow> p | None \<Rightarrow> 1)),
        (''pageSize'', PNum (case query_pageSize q of Some p \<Rightarrow> p | None \<Rightarrow> 20))]"
  obtain r s2 where g: "get (ccew_search_api env) this ?ep s = (r, s2)"
    by (cases "get (ccew_search_api env) this ?ep s")
  from get_state_client [where this = this and up = "ccew_search_api env" and endpoint = ?ep and s = s] g
  obtain k t where kb: "k \<le> retryAttempts this"
    and s2: "s2 = s\<lparr>fetched := fetched s @ replicate (Suc k) (get_call this ?ep), clock := clock s + t\<rparr>"
    by auto
  have "snd (search_ccew env this q s) = s2"
    using g by (simp add: search_ccew_def Let_def split: sum.splits body_data.splits json.splits)
  with s2 kb show ?thesis by (intro exI [of _ k] exI [of _ t]) (simp add: search_call_ccew_def)
qed

lemma searchByName_ccew_state:
  "\<exists>k t. k \<le> retryAttempts this
       \<and> snd (searchByName_ccew env this nm pageArg sizeArg s)
            = s\<lparr>fetched := fetched s @ replicate (Suc k) (searchByName_call_ccew this nm pageArg sizeArg), clock := clock s + t\<rparr>"
proof -
  let ?ep = "''/allcharitydetails/GetCharitiesByName'' @ buildQueryString
       [(''charityName'', PStr nm),
        (''pageNumber'', PNum (case pageArg of Some p \<Rightarrow> p | None \<Rightarrow> 1)),
        (''pageSize'', PNum (case sizeArg of Some p \<Rightarrow> p | None \<Rightarrow> 20))]"
  obtain r s2 where g: "get (ccew_search_api env) this ?ep s = (r, s2)"
    by (cases "get (ccew_search_api env) this ?ep s")
  from get_state_client [where this = this and up = "ccew_search_api env" and endpoint = ?ep and s = s] g
  obtain k t where kb: "k \<le> retryAttempts this"
    and s2: "s2 = s\<lparr>fetched := fetched s @ replicate (Suc k) (get_call this ?ep), clock := clock s + t\<rparr>"
    by auto
  have "snd (searchByName_ccew env this nm pageArg sizeArg s) = s2"
    using g by (simp add: searchByName_ccew_def Let_def split: sum.splits body_data.splits json.splits)
  with s2 kb show ?thesis by (intro exI [of _ k] exI [of _ t]) (simp add: searchByName_call_ccew_def)
qed

lemma search_oscr_state:
  "\<exists>k t. k \<le> retryAttempts this
       \<and> snd (search_oscr env this q s)
            = s\<lparr>fetched := fetched s @ replicate (Suc k) (search_call_oscr this q), clock := clock s + t\<rparr>"
proof -
  let ?ep = "''/all_charities''
       @ buildQueryString [(''page'', PNum (case query_page q of Some p \<Rightarrow> p | None \<Rightarrow> 1))]"
  obtain r s2 where g: "get (oscr_charities_api env) this ?ep s = (r, s2)"
    by (cases "get (oscr_charities_api env) this ?ep s")
  from get_state_client [where this = this and up = "oscr_charities_api env" and endpoint = ?ep and s = s] g
  obtain k t where kb: "k \<le> retryAttempts this"
    and s2: "s2 = s\<lparr>fetched := fetched s @ replicate (Suc k) (get_call this ?ep), clock := clock s + t\<rparr>"
    by auto
  have "snd (search_oscr env this q s) = s2"
    using g by (simp add: search_oscr_def Let_def split: sum.splits body_data.splits json.splits)
  with s2 kb show ?thesis by (intro exI [of _ k] exI [of _ t]) (simp add: search_call_oscr_def)
qed

lemma getCharity_oscr_state:
  "\<exists>k t. k \<le> retryAttempts this
       \<and> snd (getCharity_oscr env this ident s)
            = s\<lparr>fetched := fetched s @ replicate (Suc k) (details_call_oscr this ident), clock := clock s + t\<rparr>"
proof -
  let ?ep = "''/all_charities'' @ buildQueryString [(''charitynumber'', PStr (SC_number ident))]"
  obtain r s2 where g: "get (oscr_charities_api env) this ?ep s = (r, s2)"
    by (cases "get (oscr_charities_api env) this ?ep s")
  from get_state_client [where this = this and up = "oscr_charities_api env" and endpoint = ?ep and s = s] g
  obtain k t where kb: "k \<le> retryAttempts this"
    and s2: "s2 = s\<lparr>fetched := fetched s @ replicate (Suc k) (get_call this ?ep), clock := clock s + t\<rparr>"
    by auto
  have "snd (getCharity_oscr env this ident s) = s2"
    using g by (simp add: getCharity_oscr_def Let_def split: sum.splits body_data.splits json.splits api_error.splits option.splits list.splits)
  with s2 kb show ?thesis by (intro exI [of _ k] exI [of _ t]) (simp add: details_call_oscr_def)
qed

text \<open>
  \<open>getCharity\<close> of the OSCR client has no cache: from every state, with caching enabled
  or not, each call makes a request, so two successive calls for the same identifier
  call \<open>fetch\<close> at least twice; on the example upstream they call it exactly twice.
\<close>

lemma getCharity_oscr_not_cached:
  "\<exists>k\<le>retryAttempts this. \<exists>j\<le>retryAttempts this.
      fetched (snd (getCharity_oscr env this ident s))
        = fetched s @ replicate (Suc k) (details_call_oscr this ident)
    \<and> fetched (snd (getCharity_oscr env this ident (snd (getCharity_oscr env this ident s))))
        = fetched s @ replicate (Suc k) (details_call_oscr this ident)
            @ replicate (Suc j) (details_call_oscr this ident)"
  by (rule two_requests) (rule getCharity_oscr_state)

lemma getCharity_oscr_not_cached_example:
  "fst (getCharity_oscr oscr_example_env (example_client OSCR) ''SC000001''
          (initial_state (new_cache default_config)))
     = Inr (Some (transformCharity (\<lambda>str. InvalidDate) oscr_example_charity))
   \<and> length (fetched (snd (getCharity_oscr oscr_example_env (example_client OSCR) ''SC000001''
       (snd (getCharity_oscr oscr_example_env (example_client OSCR) ''SC000001''
          (initial_state (new_cache default_config))))))) = 2"
  by (simp add: getCharity_oscr_def oscr_example_env_def get_final initial_state_def Let_def)

text \<open>
  Claim C5, as amended. Take the CCNI or the CCEW client with caching enabled, a
  capacity of at least one, and no entry for the identifier in the cache. When a call
  of \<open>getCharity\<close> resolves to a record or to \<open>null\<close>, it has made one request: between
  1 and \<open>1 + retryAttempts\<close> calls of \<open>fetch\<close>, all of them the same call, and exactly
  one when the first answer is a response that is not retried. A second call for the
  same identifier within the time-to-live resolves to the same value without any call
  of \<open>fetch\<close>; after \<open>clearCache\<close> the repeated call makes a request again. With caching
  disabled each of two successive calls makes a request. No search is cached: from
  every state, each of two successive identical calls of \<open>search\<close> of any of the three
  clients, or of \<open>searchByName\<close> of the CCNI or the CCEW client, makes a request.
\<close>

theorem getCharity_cache_behaviour:
  "(cache s = Some c \<and> 1 \<le> lru_max c
      \<and> find (\<lambda>e. fst e = getCacheKey this ''getCharity'' (strip_NIC ident)) (lru_entries c) = None
      \<and> getCharity_ccni ni this ident s = (Inr r, s1) \<and> d \<le> lru_ttl c
    \<longrightarrow> (\<exists>k\<le>retryAttempts this. fetched s1 = fetched s @ replicate (Suc k) (details_call_ccni this ident))
       \<and> (ccni_details_api ni (length (fetched s)) (details_call_ccni this ident) = Responds w
            \<and> (response_ok w \<or> \<not> isRetryable (w_status w))
          \<longrightarrow> fetched s1 = fetched s @ [details_call_ccni this ident])
       \<and> fst (getCharity_ccni ni this ident (s1\<lparr>clock := clock s1 + d\<rparr>)) = Inr r
       \<and> fetched (snd (getCharity_ccni ni this ident (s1\<lparr>clock := clock s1 + d\<rparr>))) = fetched s1
       \<and> (\<exists>k\<le>retryAttempts this. fetched (snd (getCharity_ccni ni this ident (clearCache s1)))
                = fetched s1 @ replicate (Suc k) (details_call_ccni this ident)))
   \<and> (cache s = Some c \<and> 1 \<le> lru_max c
      \<and> find (\<lambda>e. fst e = getCacheKey this ''getCharity'' (strip_non_digits ident)) (lru_entries c) = None
      \<and> getCharity_ccew ew this ident s = (Inr r', s1') \<and> d \<le> lru_ttl c
    \<longrightarrow> (\<exists>k\<le>retryAttempts this. fetched s1' = fetched s @ replicate (Suc k) (details_call_ccew this ident))
       \<and> (ccew_details_api ew (length (fetched s)) (details_call_ccew this ident) = Responds w'
            \<and> (response_ok w' \<or> \<not> isRetryable (w_status w'))
          \<longrightarrow> fetched s1' = fetched s @ [details_call_ccew this ident])
       \<and> fst (getCharity_ccew ew this ident (s1'\<lparr>clock := clock s1' + d\<rparr>)) = Inr r'
       \<and> fetched (snd (getCharity_ccew ew this ident (s1'\<lparr>clock := clock s1' + d\<rparr>))) = fetched s1'
       \<and> (\<exists>k\<le>retryAttempts this. fetched (snd (getCharity_ccew ew this ident (clearCache s1')))
                = fetched s1' @ replicate (Suc k) (details_call_ccew this ident)))
   \<and> (cache u = None
    \<longrightarrow> (\<exists>k\<le>retryAttempts this. \<exists>j\<le>retryAttempts this.
            fetched (snd (getCharity_ccni ni this ident u))
              = fetched u @ replicate (Suc k) (details_call_ccni this ident)
          \<and> fetched (snd (getCharity_ccni ni this ident (snd (getCharity_ccni ni this ident u))))
              = fetched u @ replicate (Suc k) (details_call_ccni this ident)
                  @ replicate (Suc j) (details_call_ccni this ident))
       \<and> (\<exists>k\<le>retryAttempts this. \<exists>j\<le>retryAttempts this.
            fetched (snd (getCharity_ccew ew this ident u))
              = fetched u @ replicate (Suc k) (details_call_ccew this ident)
          \<and> fetched (snd (getCharity_ccew ew this ident (snd (getCharity_ccew ew this ident u))))
              = fetched u @ replicate (Suc k) (details_call_ccew this ident)
                  @ replicate (Suc j) (details_call_ccew this ident)))
   \<and> (\<exists>k\<le>retryAttempts this. \<exists>j\<le>retryAttempts this.
         fetched (snd (search_ccni ni this q v)) = fetched v @ replicate (Suc k) (search_call_ccni this q)
       \<and> fetched (snd (search_ccni ni this q (snd (search_ccni ni this q v))))
           = fetched v @ replicate (Suc k) (search_call_ccni this q) @ replicate (Suc j) (search_call_ccni this q))
   \<and> (\<exists>k\<le>retryAttempts this. \<exists>j\<le>retryAttempts this.
         fetched (snd (searchByName_ccni ni this nm pageArg v)) = fetched v @ replicate (Suc k) (search_call_ccni this
             \<lparr>query_text = Some nm, query_page = Some (case pageArg of Some p \<Rightarrow> p | None \<Rightarrow> 1),
              query_pageSize = None, query_filters = None\<rparr>)
       \<and> fetched (snd (searchByName_ccni ni this nm pageArg (snd (searchByName_ccni ni this nm pageArg v))))
           = fetched v @ replicate (Suc k) (search_call_ccni this
             \<lparr>query_text = Some nm, query_page = Some (case pageArg of Some p \<Rightarrow> p | None \<Rightarrow> 1),
              query_pageSize = None, query_filters = None\<rparr>) @ replicate (Suc j) (search_call_ccni this
             \<lparr>query_text = Some nm, query_page = Some (case pageArg of Some p \<Rightarrow> p | None \<Rightarrow> 1),
              query_pageSize = None, query_filters = None\<rparr>))
   \<and> (\<exists>k\<le>retryAttempts this. \<exists>j\<le>retryAttempts this.
         fetched (snd (search_ccew ew this q v)) = fetched v @ replicate (Suc k) (search_call_ccew this q)
       \<and> fetched (snd (search_ccew ew this q (snd (search_ccew ew this q v))))
           = fetched v @ replicate (Suc k) (search_call_ccew this q) @ replicate (Suc j) (search_call_ccew this q))
   \<and> (\<exists>k\<le>retryAttempts this. \<exists>j\<le>retryAttempts this.
         fetched (snd (searchByName_ccew ew this nm pageArg sizeArg v)) = fetched v @ replicate (Suc k) (searchByName_call_ccew this nm pageArg sizeArg)
       \<and> fetched (snd (searchByName_ccew ew this nm pageArg sizeArg (snd (searchByName_ccew ew this nm pageArg sizeArg v))))
           = fetched v @ replicate (Suc k) (searchByName_call_ccew this nm pageArg sizeArg) @ replicate (Suc j) (searchByName_call_ccew this nm pageArg sizeArg))
   \<and> (\<exists>k\<le>retryAttempts this. \<exists>j\<le>retryAttempts this.
         fetched (snd (search_oscr sc this q v)) = fetched v @ replicate (Suc k) (search_call_oscr this q)
       \<and> fetched (snd (search_oscr sc this q (snd (search_oscr sc this q v))))
           = fetched v @ replicate (Suc k) (search_call_oscr this q) @ replicate (Suc j) (search_call_oscr this q))"
proof -
  have A: "(cache s = Some c \<and> 1 \<le> lru_max c
      \<and> find (\<lambda>e. fst e = getCacheKey this ''getCharity'' (strip_NIC ident)) (lru_entries c) = None
      \<and> getCharity_ccni ni this ident s = (Inr r, s1) \<and> d \<le> lru_ttl c
    \<longrightarrow> (\<exists>k\<le>retryAttempts this. fetched s1 = fetched s @ replicate (Suc k) (details_call_ccni this ident))
       \<and> (ccni_details_api ni (length (fetched s)) (details_call_ccni this ident) = Responds w
            \<and> (response_ok w \<or> \<not> isRetryable (w_status w))
          \<longrightarrow> fetched s1 = fetched s @ [details_call_ccni this ident])
       \<and> fst (getCharity_ccni ni this ident (s1\<lparr>clock := clock s1 + d\<rparr>)) = Inr r
       \<and> fetched (snd (getCharity_ccni ni this ident (s1\<lparr>clock := clock s1 + d\<rparr>))) = fetched s1
       \<and> (\<exists>k\<le>retryAttempts this. fetched (snd (getCharity_ccni ni this ident (clearCache s1)))
                = fetched s1 @ replicate (Suc k) (details_call_ccni this ident)))"
  proof (intro impI)
    assume h: "cache s = Some c \<and> 1 \<le> lru_max c
      \<and> find (\<lambda>e. fst e = getCacheKey this ''getCharity'' (strip_NIC ident)) (lru_entries c) = None
      \<and> getCharity_ccni ni this ident s = (Inr r, s1) \<and> d \<le> lru_ttl c"
    then have rep: "(\<exists>k\<le>retryAttempts this. fetched s1 = fetched s @ replicate (Suc k) (details_call_ccni this ident))
       \<and> fst (getCharity_ccni ni this ident (s1\<lparr>clock := clock s1 + d\<rparr>)) = Inr r
       \<and> fetched (snd (getCharity_ccni ni this ident (s1\<lparr>clock := clock s1 + d\<rparr>))) = fetched s1
       \<and> (\<exists>k\<le>retryAttempts this. fetched (snd (getCharity_ccni ni this ident (clearCache s1)))
                = fetched s1 @ replicate (Suc k) (details_call_ccni this ident))"
      by (intro getCharity_ccni_repeat [of s c]) simp_all
    have one: "fetched s1 = fetched s @ [details_call_ccni this ident]"
      if "ccni_details_api ni (length (fetched s)) (details_call_ccni this ident) = Responds w
            \<and> (response_ok w \<or> \<not> isRetryable (w_status w))"
    proof -
      from h have "getCached (getCacheKey this ''getCharity'' (strip_NIC ident)) s = (None, s)"
        by (intro getCached_no_entry [of s c]) simp_all
      from getCharity_ccni_miss_final [OF this, of ni w] that h show ?thesis by simp
    qed
    from rep one show "(\<exists>k\<le>retryAttempts this. fetched s1 = fetched s @ replicate (Suc k) (details_call_ccni this ident))
       \<and> (ccni_details_api ni (length (fetched s)) (details_call_ccni this ident) = Responds w
            \<and> (response_ok w \<or> \<not> isRetryable (w_status w))
          \<longrightarrow> fetched s1 = fetched s @ [details_call_ccni this ident])
       \<and> fst (getCharity_ccni ni this ident (s1\<lparr>clock := clock s1 + d\<rparr>)) = Inr r
       \<and> fetched (snd (getCharity_ccni ni this ident (s1\<lparr>clock := clock s1 + d\<rparr>))) = fetched s1
       \<and> (\<exists>k\<le>retryAttempts this. fetched (snd (getCharity_ccni ni this ident (clearCache s1)))
                = fetched s1 @ replicate (Suc k) (details_call_ccni this ident))"
      by blast
  qed
  have B: "(cache s = Some c \<and> 1 \<le> lru_max c
      \<and> find (\<lambda>e. fst e = getCacheKey this ''getCharity'' (strip_non_digits ident)) (lru_entries c) = None
      \<and> getCharity_ccew ew this ident s = (Inr r', s1') \<and> d \<le> lru_ttl c
    \<longrightarrow> (\<exists>k\<le>retryAttempts this. fetched s1' = fetched s @ replicate (Suc k) (details_call_ccew this ident))
       \<and> (ccew_details_api ew (length (fetched s)) (details_call_ccew this ident) = Responds w'
            \<and> (response_ok w' \<or> \<not> isRetryable (w_status w'))
          \<longrightarrow> fetched s1' = fetched s @ [details_call_ccew this ident])
       \<and> fst (getCharity_ccew ew this ident (s1'\<lparr>clock := clock s1' + d\<rparr>)) = Inr r'
       \<and> fetched (snd (getCharity_ccew ew this ident (s1'\<lparr>clock := clock s1' + d\<rparr>))) = fetched s1'
       \<and> (\<exists>k\<le>retryAttempts this. fetched (snd (getCharity_ccew ew this ident (clearCache s1')))
                = fetched s1' @ replicate (Suc k) (details_call_ccew this ident)))"
  proof (intro impI)
    assume h: "cache s = Some c \<and> 1 \<le> lru_max c
      \<and> find (\<lambda>e. fst e = getCacheKey this ''getCharity'' (strip_non_digits ident)) (lru_entries c) = None
      \<and> getCharity_ccew ew this ident s = (Inr r', s1') \<and> d \<le> lru_ttl c"
    then have rep: "(\<exists>k\<le>retryAttempts this. fetched s1' = fetched s @ replicate (Suc k) (details_call_ccew this ident))
       \<and> fst (getCharity_ccew ew this ident (s1'\<lparr>clock := clock s1' + d\<rparr>)) = Inr r'
       \<and> fetched (snd (getCharity_ccew ew this ident (s1'\<lparr>clock := clock s1' + d\<rparr>))) = fetched s1'
       \<and> (\<exists>k\<le>retryAttempts this. fetched (snd (getCharity_ccew ew this ident (clearCache s1')))
                = fetched s1' @ replicate (Suc k) (details_call_ccew this ident))"
      by (intro getCharity_ccew_repeat [of s c]) simp_all
    have one: "fetched s1' = fetched s @ [details_call_ccew this ident]"
      if "ccew_details_api ew (length (fetched s)) (details_call_ccew this ident) = Responds w'
            \<and> (response_ok w' \<or> \<not> isRetryable (w_status w'))"
    proof -
      from h have "getCached (getCacheKey this ''getCharity'' (strip_non_digits ident)) s = (None, s)"
        by (intro getCached_no_entry [of s c]) simp_all
      from getCharity_ccew_miss_final [OF this, of ew w'] that h show ?thesis by simp
    qed
    from rep one show "(\<exists>k\<le>retryAttempts this. fetched s1' = fetched s @ replicate (Suc k) (details_call_ccew this ident))
       \<and> (ccew_details_api ew (length (fetched s)) (details_call_ccew this ident) = Responds w'
            \<and> (response_ok w' \<or> \<not> isRetryable (w_status w'))
          \<longrightarrow> fetched s1' = fetched s @ [details_call_ccew this ident])
       \<and> fst (getCharity_ccew ew this ident (s1'\<lparr>clock := clock s1' + d\<rparr>)) = Inr r'
       \<and> fetched (snd (getCharity_ccew ew this ident (s1'\<lparr>clock := clock s1' + d\<rparr>))) = fetched s1'
       \<and> (\<exists>k\<le>retryAttempts this. fetched (snd (getCharity_ccew ew this ident (clearCache s1')))
                = fetched s1' @ replicate (Suc k) (details_call_ccew this ident))"
      by blast
  qed
  have C: "(cache u = None
    \<longrightarrow> (\<exists>k\<le>retryAttempts this. \<exists>j\<le>retryAttempts this.
            fetched (snd (getCharity_ccni ni this ident u))
              = fetched u @ replicate (Suc k) (details_call_ccni this ident)
          \<and> fetched (snd (getCharity_ccni ni this ident (snd (getCharity_ccni ni this ident u))))
              = fetched u @ replicate (Suc k) (details_call_ccni this ident)
                  @ replicate (Suc j) (details_call_ccni this ident))
       \<and> (\<exists>k\<le>retryAttempts this. \<exists>j\<le>retryAttempts this.
            fetched (snd (getCharity_ccew ew this ident u))
              = fetched u @ replicate (Suc k) (details_call_ccew this ident)
          \<and> fetched (snd (getCharity_ccew ew this ident (snd (getCharity_ccew ew this ident u))))
              = fetched u @ replicate (Suc k) (details_call_ccew this ident)
                  @ replicate (Suc j) (details_call_ccew this ident)))"
    using getCharity_ccni_uncached [of u this ni ident] getCharity_ccew_uncached [of u this ew ident]
    by blast
  have S0: "(\<exists>k\<le>retryAttempts this. \<exists>j\<le>retryAttempts this.
         fetched (snd (search_ccni ni this q v)) = fetched v @ replicate (Suc k) (search_call_ccni this q)
       \<and> fetched (snd (search_ccni ni this q (snd (search_ccni ni this q v))))
           = fetched v @ replicate (Suc k) (search_call_ccni this q) @ replicate (Suc j) (search_call_ccni this q))"
    by (rule two_requests) (rule search_ccni_state)
  have S1: "(\<exists>k\<le>retryAttempts this. \<exists>j\<le>retryAttempts this.
         fetched (snd (searchByName_ccni ni this nm pageArg v)) = fetched v @ replicate (Suc k) (search_call_ccni this
             \<lparr>query_text = Some nm, query_page = Some (case pageArg of Some p \<Rightarrow> p | None \<Rightarrow> 1),
              query_pageSize = None, query_filters = None\<rparr>)
       \<and> fetched (snd (searchByName_ccni ni this nm pageArg (snd (searchByName_ccni ni this nm pageArg v))))
           = fetched v @ replicate (Suc k) (search_call_ccni this
             \<lparr>query_text = Some nm, query_page = Some (case pageArg of Some p \<Rightarrow> p | None \<Rightarrow> 1),
              query_pageSize = None, query_filters = None\<rparr>) @ replicate (Suc j) (search_call_ccni this
             \<lparr>query_text = Some nm, query_page = Some (case pageArg of Some p \<Rightarrow> p | None \<Rightarrow> 1),
              query_pageSize = None, query_filters = None\<rparr>))"
    by (rule two_requests) (simp only: searchByName_ccni_def, rule search_ccni_state)
  have S2: "(\<exists>k\<le>retryAttempts this. \<exists>j\<le>retryAttempts this.
         fetched (snd (search_ccew ew this q v)) = fetched v @ replicate (Suc k) (search_call_ccew this q)
       \<and> fetched (snd (search_ccew ew this q (snd (search_ccew ew this q v))))
           = fetched v @ replicate (Suc k) (search_call_ccew this q) @ replicate (Suc j) (search_call_ccew this q))"
    by (rule two_requests) (rule search_ccew_state)
  have S3: "(\<exists>k\<le>retryAttempts this. \<exists>j\<le>retryAttempts this.
         fetched (snd (searchByName_ccew ew this nm pageArg sizeArg v)) = fetched v @ replicate (Suc k) (searchByName_call_ccew this nm pageArg sizeArg)
       \<and> fetched (snd (searchByName_ccew ew this nm pageArg sizeArg (snd (searchByName_ccew ew this nm pageArg sizeArg v))))
           = fetched v @ replicate (Suc k) (searchByName_call_ccew this nm pageArg sizeArg) @ replicate (Suc j) (searchByName_call_ccew this nm pageArg sizeArg))"
    by (rule two_requests) (rule searchByName_ccew_state)
  have S4: "(\<exists>k\<le>retryAttempts this. \<exists>j\<le>retryAttempts this.
         fetched (snd (search_oscr sc this q v)) = fetched v @ replicate (Suc k) (search_call_oscr this q)
       \<and> fetched (snd (search_oscr sc this q (snd (search_oscr sc this q v))))
           = fetched v @ replicate (Suc k) (search_call_oscr this q) @ replicate (Suc j) (search_call_oscr this q))"
    by (rule two_requests) (rule search_oscr_state)
  from A B C S0 S1 S2 S3 S4 show ?thesis by (intro conjI)
qed

lemma get_absent_upstream:
  "get absent_upstream this endpoint s =
     (Inr (parse_response \<lparr>w_status = 200, w_statusText = ''OK'',
             w_headers = [(''content-type'', ''application/json'')],
             w_text = ''{}'', w_json = Some EmptyObject\<rparr>),
      s\<lparr>fetched := fetched s @ [get_call this endpoint]\<rparr>)"
  using get_final [of absent_upstream s this endpoint
      "\<lparr>w_status = 200, w_statusText = ''OK'', w_headers = [(''content-type'', ''application/json'')],
        w_text = ''{}'', w_json = Some EmptyObject\<rparr>"]
  by (simp add: absent_upstream_def response_ok_def)

lemma data_absent [simp]:
  "data (parse_response \<lparr>w_status = 200, w_statusText = ''OK'',
             w_headers = [(''content-type'', ''application/json'')],
             w_text = ''{}'', w_json = Some EmptyObject\<rparr>) = Parsed EmptyObject"
proof -
  have "headers_get [(''content-type'', ''application/json'')] ''content-type'' = Some ''application/json''"
    by code_simp
  moreover have "includes_str ''application/json'' ''application/json''"
    by code_simp
  ultimately show ?thesis
    by (simp add: parse_response_def)
qed

lemma absent_first_ccni:
  "getCharity_ccni ccni_absent_env (example_client CCNI) ''NIC999999'' (initial_state (new_cache default_config))
   = (Inr None, setCache (getCacheKey (example_client CCNI) ''getCharity'' (strip_NIC ''NIC999999'')) None
        ((initial_state (new_cache default_config))\<lparr>fetched := [details_call_ccni (example_client CCNI) ''NIC999999'']\<rparr>))"
  by (simp add: getCharity_ccni_def ccni_absent_env_def get_absent_upstream Let_def details_call_ccni_def)
    (simp add: initial_state_def)

lemma absent_first_ccew:
  "getCharity_ccew ccew_absent_env (example_client CCEW) ''9999999'' (initial_state (new_cache default_config))
   = (Inr None, setCache (getCacheKey (example_client CCEW) ''getCharity'' (strip_non_digits ''9999999'')) None
        ((initial_state (new_cache default_config))\<lparr>fetched := [details_call_ccew (example_client CCEW) ''9999999'']\<rparr>))"
  by (simp add: getCharity_ccew_def ccew_absent_env_def get_absent_upstream Let_def details_call_ccew_def)
    (simp add: initial_state_def)


lemma initial_cache:
  "cache (initial_state (new_cache default_config))
     = Some \<lparr>lru_max = 100, lru_ttl = 300000, lru_entries = []\<rparr>"
  by (simp add: initial_state_def new_cache_def default_config_def)

theorem getCharity_cache_behaviour_witness:
  "fst (getCharity_ccni ccni_absent_env (example_client CCNI) ''NIC999999''
          (initial_state (new_cache default_config))) = Inr None
   \<and> fst (getCharity_ccni ccni_absent_env (example_client CCNI) ''NIC999999''
          ((snd (getCharity_ccni ccni_absent_env (example_client CCNI) ''NIC999999''
                  (initial_state (new_cache default_config))))
           \<lparr>clock := clock (snd (getCharity_ccni ccni_absent_env (example_client CCNI) ''NIC999999''
                  (initial_state (new_cache default_config)))) + 1000\<rparr>)) = Inr None
   \<and> length (fetched (snd (getCharity_ccni ccni_absent_env (example_client CCNI) ''NIC999999''
          ((snd (getCharity_ccni ccni_absent_env (example_client CCNI) ''NIC999999''
                  (initial_state (new_cache default_config))))
           \<lparr>clock := clock (snd (getCharity_ccni ccni_absent_env (example_client CCNI) ''NIC999999''
                  (initial_state (new_cache default_config)))) + 1000\<rparr>)))) = 1
   \<and> fst (getCharity_ccew ccew_absent_env (example_client CCEW) ''9999999''
          ((snd (getCharity_ccew ccew_absent_env (example_client CCEW) ''9999999''
                  (initial_state (new_cache default_config))))
           \<lparr>clock := clock (snd (getCharity_ccew ccew_absent_env (example_client CCEW) ''9999999''
                  (initial_state (new_cache default_config)))) + 1000\<rparr>)) = Inr None
   \<and> length (fetched (snd (getCharity_ccew ccew_absent_env (example_client CCEW) ''9999999''
          ((snd (getCharity_ccew ccew_absent_env (example_client CCEW) ''9999999''
                  (initial_state (new_cache default_config))))
           \<lparr>clock := clock (snd (getCharity_ccew ccew_absent_env (example_client CCEW) ''9999999''
                  (initial_state (new_cache default_config)))) + 1000\<rparr>)))) = 1
   \<and> 2 \<le> length (fetched (snd (getCharity_ccni ccni_absent_env (example_client CCNI) ''NIC999999''
          (snd (getCharity_ccni ccni_absent_env (example_client CCNI) ''NIC999999'' (initial_state None))))))
   \<and> 2 \<le> length (fetched (snd (getCharity_ccew ccew_absent_env (example_client CCEW) ''9999999''
          (snd (getCharity_ccew ccew_absent_env (example_client CCEW) ''9999999'' (initial_state None))))))
   \<and> 2 \<le> length (fetched (snd (search_oscr oscr_example_env (example_client OSCR)
          \<lparr>query_text = None, query_page = Some 2, query_pageSize = None, query_filters = None\<rparr>
          (snd (search_oscr oscr_example_env (example_client OSCR)
             \<lparr>query_text = None, query_page = Some 2, query_pageSize = None, query_filters = None\<rparr>
             (initial_state (new_cache default_config)))))))"
proof -
  let ?s0 = "initial_state (new_cache default_config)"
  let ?c0 = "\<lparr>lru_max = 100, lru_ttl = 300000, lru_entries = []\<rparr> :: charity option lru"
  let ?w = "\<lparr>w_status = 200, w_statusText = ''OK'', w_headers = [(''content-type'', ''application/json'')],
      w_text = ''{}'', w_json = Some EmptyObject\<rparr>"
  let ?ni = "setCache (getCacheKey (example_client CCNI) ''getCharity'' (strip_NIC ''NIC999999'')) None
        (?s0\<lparr>fetched := [details_call_ccni (example_client CCNI) ''NIC999999'']\<rparr>)"
  let ?ew = "setCache (getCacheKey (example_client CCEW) ''getCharity'' (strip_non_digits ''9999999'')) None
        (?s0\<lparr>fetched := [details_call_ccew (example_client CCEW) ''9999999'']\<rparr>)"
  let ?q = "\<lparr>query_text = None, query_page = Some 2, query_pageSize = None, query_filters = None\<rparr>"
  have u: "cache (initial_state None) = None" by (simp add: initial_state_def)
  have f0: "fetched (initial_state None) = []" by (simp add: initial_state_def)
  have f1: "fetched ?s0 = []" by (simp add: initial_state_def)
  note ni = getCharity_cache_behaviour
         [where s = ?s0 and c = ?c0 and this = "example_client CCNI" and ident = "''NIC999999''"
            and ni = ccni_absent_env and r = None and ?s1.0 = ?ni and d = 1000
            and ew = ccew_absent_env and u = "initial_state None" and w = ?w]
  note ew = getCharity_cache_behaviour
         [where s = ?s0 and c = ?c0 and this = "example_client CCEW" and ident = "''9999999''"
            and ew = ccew_absent_env and r' = None and s1' = ?ew and d = 1000
            and ni = ccni_absent_env and u = "initial_state None" and w' = ?w]
  note sc = getCharity_cache_behaviour
         [where this = "example_client OSCR" and sc = oscr_example_env and q = ?q and v = ?s0]
  from ni [THEN conjunct1] initial_cache absent_first_ccni
  have a: "fst (getCharity_ccni ccni_absent_env (example_client CCNI) ''NIC999999''
              (?ni\<lparr>clock := clock ?ni + 1000\<rparr>)) = Inr None"
    and b: "fetched (snd (getCharity_ccni ccni_absent_env (example_client CCNI) ''NIC999999''
              (?ni\<lparr>clock := clock ?ni + 1000\<rparr>))) = fetched ?ni"
    by simp_all
  from ni [THEN conjunct2, THEN conjunct2, THEN conjunct1] u f0
  have c: "2 \<le> length (fetched (snd (getCharity_ccni ccni_absent_env (example_client CCNI) ''NIC999999''
          (snd (getCharity_ccni ccni_absent_env (example_client CCNI) ''NIC999999'' (initial_state None))))))"
    by auto
  from ew [THEN conjunct2, THEN conjunct1] initial_cache absent_first_ccew
  have a': "fst (getCharity_ccew ccew_absent_env (example_client CCEW) ''9999999''
              (?ew\<lparr>clock := clock ?ew + 1000\<rparr>)) = Inr None"
    and b': "fetched (snd (getCharity_ccew ccew_absent_env (example_client CCEW) ''9999999''
              (?ew\<lparr>clock := clock ?ew + 1000\<rparr>))) = fetched ?ew"
    by simp_all
  from ew [THEN conjunct2, THEN conjunct2, THEN conjunct1] u f0
  have c': "2 \<le> length (fetched (snd (getCharity_ccew ccew_absent_env (example_client CCEW) ''9999999''
          (snd (getCharity_ccew ccew_absent_env (example_client CCEW) ''9999999'' (initial_state None))))))"
    by auto
  from sc [THEN conjunct2, THEN conjunct2, THEN conjunct2, THEN conjunct2, THEN conjunct2,
           THEN conjunct2, THEN conjunct2] f1
  have e: "2 \<le> length (fetched (snd (search_oscr oscr_example_env (example_client OSCR) ?q
          (snd (search_oscr oscr_example_env (example_client OSCR) ?q ?s0)))))"
    by auto
  from a b c a' b' c' e show ?thesis
    by (simp add: absent_first_ccni absent_first_ccew)
qed

section \<open>Identifier forms\<close>

lemma loop_response_from_upstream:
  assumes "httpRequest_loop up c cfg attempt le s = (Inr resp, s')"
  shows "\<exists>n w. length (fetched s) \<le> n \<and> up n c = Responds w \<and> resp = parse_response w"
  using assms
proof (induction up c cfg attempt le s rule: httpRequest_loop.induct)
  case (1 up c cfg attempt le s)
  show ?case
  proof (cases "attempt \<le> maxRetries cfg")
    case False
    with "1.prems" show ?thesis by (subst (asm) httpRequest_loop.simps) simp
  next
    case True
    let ?s2 = "sleep (calculateDelay attempt cfg) (s\<lparr>fetched := fetched s @ [c]\<rparr>)"
    show ?thesis
    proof (cases "up (length (fetched s)) c")
      case (Responds w)
      show ?thesis
      proof (cases "\<not> response_ok w \<and> isRetryable (w_status w) \<and> attempt < maxRetries cfg")
        case retry: True
        have "httpRequest_loop up c cfg attempt le s = httpRequest_loop up c cfg (attempt + 1) le ?s2"
          using True Responds retry by (subst httpRequest_loop.simps) simp
        with "1.prems" have "httpRequest_loop up c cfg (attempt + 1) le ?s2 = (Inr resp, s')" by simp
        from "1.IH"(1) [OF True Responds retry this]
        obtain n w' where "length (fetched ?s2) \<le> n" "up n c = Responds w'" "resp = parse_response w'"
          by blast
        then show ?thesis by (intro exI [of _ n] exI [of _ w']) simp
      next
        case False
        have "httpRequest_loop up c cfg attempt le s
                = (Inr (parse_response w), s\<lparr>fetched := fetched s @ [c]\<rparr>)"
          using True Responds False by (subst httpRequest_loop.simps) auto
        with "1.prems" have "resp = parse_response w" by simp
        with Responds show ?thesis by (intro exI [of _ "length (fetched s)"] exI [of _ w]) simp
      qed
    next
      case (Throws nm msg)
      show ?thesis
      proof (cases "(nm = ''AbortError'' \<or> nm = ''TypeError'' \<or> includes_str msg ''fetch'') \<and> attempt < maxRetries cfg")
        case retry: True
        have "httpRequest_loop up c cfg attempt le s
                = httpRequest_loop up c cfg (attempt + 1) (Some (nm, msg)) ?s2"
          using True Throws retry by (subst httpRequest_loop.simps) simp
        with "1.prems" have "httpRequest_loop up c cfg (attempt + 1) (Some (nm, msg)) ?s2 = (Inr resp, s')"
          by simp
        from "1.IH"(2) [OF True Throws retry this]
        obtain n w' where "length (fetched ?s2) \<le> n" "up n c = Responds w'" "resp = parse_response w'"
          by blast
        then show ?thesis by (intro exI [of _ n] exI [of _ w']) simp
      next
        case False
        have "httpRequest_loop up c cfg attempt le s
                = (Inl (NetworkError nm msg), s\<lparr>fetched := fetched s @ [c]\<rparr>)"
          using True Throws False by (subst httpRequest_loop.simps) auto
        with "1.prems" show ?thesis by simp
      qed
    qed
  qed
qed

text \<open>A response that \<open>get\<close> returns is an ok response that the upstream gave to this call.\<close>

lemma get_response_from_upstream:
  assumes "get up this endpoint s = (Inr resp, s')"
  shows "\<exists>n w. length (fetched s) \<le> n \<and> up n (get_call this endpoint) = Responds w
           \<and> response_ok w \<and> resp = parse_response w"
proof -
  let ?cfg = "DEFAULT_RETRY_CONFIG\<lparr>maxRetries := retryAttempts this, delayMs := retryDelay this\<rparr>"
  obtain r s2 where l: "httpRequest_loop up (get_call this endpoint) ?cfg 0 None s = (r, s2)"
    by (cases "httpRequest_loop up (get_call this endpoint) ?cfg 0 None s")
  from assms l have r: "r = Inr resp" and ok: "ok resp"
    by (auto simp: get_unfold split: sum.splits if_splits)
  from loop_response_from_upstream [OF l [unfolded r]]
  obtain n w where "length (fetched s) \<le> n" "up n (get_call this endpoint) = Responds w"
    "resp = parse_response w" by blast
  with ok show ?thesis by (intro exI [of _ n] exI [of _ w]) simp
qed

text \<open>\<open>String(n)\<close> of a number that is not negative is its decimal form.\<close>

lemma int_of_digits_snoc: "int_of_digits (ds @ [c]) = 10 * int_of_digits ds + digit_val c"
  by (simp add: int_of_digits_def)

lemma digit_char:
  assumes "0 \<le> d" and "d < 10"
  shows "is_digit (char_of (48 + d :: int))" and "digit_val (char_of (48 + d :: int)) = d"
proof -
  have all: "list_all (\<lambda>d. is_digit (char_of (48 + d :: int)) \<and> digit_val (char_of (48 + d :: int)) = d)
               [0, 1, 2, 3, 4, 5, 6, 7, 8, 9]"
    by code_simp
  from assms have "d = 0 \<or> d = 1 \<or> d = 2 \<or> d = 3 \<or> d = 4 \<or> d = 5 \<or> d = 6 \<or> d = 7 \<or> d = 8 \<or> d = 9"
    by arith
  then have "d \<in> set [0, 1, 2, 3, 4, 5, 6, 7, 8, 9]" by simp
  with all have "is_digit (char_of (48 + d :: int)) \<and> digit_val (char_of (48 + d :: int)) = d"
    unfolding list_all_iff by blast
  then show "is_digit (char_of (48 + d :: int))" and "digit_val (char_of (48 + d :: int)) = d"
    by simp_all
qed

lemma string_of_pos_decimal:
  "0 \<le> n \<Longrightarrow> list_all is_digit (string_of_pos n) \<and> int_of_digits (string_of_pos n) = n"
proof (induction n rule: string_of_pos.induct)
  case (1 n)
  show ?case
  proof (cases "n < 10")
    case True
    with "1.prems" digit_char [of n] show ?thesis
      by (subst (1 2) string_of_pos.simps) (simp add: int_of_digits_def)
  next
    case False
    with "1.prems" have "0 \<le> n div 10" by simp
    from "1.IH" [OF False this]
    have ih: "list_all is_digit (string_of_pos (n div 10))" "int_of_digits (string_of_pos (n div 10)) = n div 10"
      by simp_all
    have "0 \<le> n mod 10" "n mod 10 < 10" by simp_all
    from digit_char [OF this] ih False show ?thesis
      by (subst (1 2) string_of_pos.simps) (simp add: int_of_digits_snoc)
  qed
qed

lemma string_of_int_decimal:
  "0 \<le> n \<Longrightarrow> list_all is_digit (string_of_int n) \<and> int_of_digits (string_of_int n) = n"
  using string_of_pos_decimal [of n] by (simp add: string_of_int_def)

lemma length_toUpperCase [simp]: "length (toUpperCase p) = length p"
  by (simp add: toUpperCase_def)

lemma toUpperCase_append: "toUpperCase (p @ b) = toUpperCase p @ toUpperCase b"
  by (simp add: toUpperCase_def)

lemma strip_NIC_prefixed:
  assumes "toUpperCase p = ''NIC''"
  shows "strip_NIC (p @ b) = b"
proof -
  from assms have "length p = 3" using length_toUpperCase [of p] by simp
  then have "take 3 (p @ b) = p" "drop 3 (p @ b) = b" by simp_all
  with assms show ?thesis by (simp add: strip_NIC_def)
qed

lemma strip_NIC_bare: "toUpperCase (take 3 b) \<noteq> ''NIC'' \<Longrightarrow> strip_NIC b = b"
  by (simp add: strip_NIC_def)

lemma SC_number_prefixed:
  assumes "toUpperCase q = ''SC''" and "toUpperCase b = b"
  shows "SC_number (q @ b) = ''SC'' @ b"
  using assms by (simp add: SC_number_def toUpperCase_append startsWith_def)

lemma SC_number_bare:
  assumes "toUpperCase b = b" and "\<not> startsWith b ''SC''"
  shows "SC_number b = ''SC'' @ b"
  using assms by (simp add: SC_number_def)

lemma strip_non_digits_decorated:
  assumes "\<not> list_ex is_digit x"
  shows "strip_non_digits (x @ b) = strip_non_digits b"
proof -
  from assms have "filter is_digit x = []" by (auto simp: list_ex_iff filter_empty_conv)
  then show ?thesis by (simp add: strip_non_digits_def)
qed

text \<open>
  A record that \<open>getCharity\<close> returns after a request is the transform of a record
  that the upstream gave in an ok response to the call made.
\<close>

lemma getCharity_ccni_record:
  assumes miss: "getCached (getCacheKey this ''getCharity'' (strip_NIC ident)) s = (None, s)"
    and res: "fst (getCharity_ccni env this ident s) = Inr (Some c)"
  shows "\<exists>n w payload. length (fetched s) \<le> n
           \<and> ccni_details_api env n (details_call_ccni this ident) = Responds w \<and> response_ok w
           \<and> data (parse_response w) = Parsed (Json payload) \<and> regCharityNumber payload \<noteq> 0
           \<and> c = transformDetails_ccni (ccni_newDate env) payload"
proof -
  let ?ep = "''/getCharityDetails'' @ buildQueryString [(''regId'', PStr (strip_NIC ident)), (''subId'', PNum 0)]"
  obtain r s2 where g: "get (ccni_details_api env) this ?ep s = (r, s2)"
    by (cases "get (ccni_details_api env) this ?ep s")
  from miss g res obtain resp payload where r: "r = Inr resp"
    and d: "data resp = Parsed (Json payload)" and nz: "regCharityNumber payload \<noteq> 0"
    and c: "c = transformDetails_ccni (ccni_newDate env) payload"
    by (auto simp: getCharity_ccni_def Let_def
             split: sum.splits body_data.splits json.splits if_splits)
  from get_response_from_upstream [OF g [unfolded r]]
  obtain n w where "length (fetched s) \<le> n" "ccni_details_api env n (get_call this ?ep) = Responds w"
    "response_ok w" "resp = parse_response w" by blast
  with d nz c show ?thesis
    by (intro exI [of _ n] exI [of _ w] exI [of _ payload]) (simp add: details_call_ccni_def)
qed

lemma getCharity_ccew_record:
  assumes miss: "getCached (getCacheKey this ''getCharity'' (strip_non_digits ident)) s = (None, s)"
    and res: "fst (getCharity_ccew env this ident s) = Inr (Some c)"
  shows "\<exists>n w payload. length (fetched s) \<le> n
           \<and> ccew_details_api env n (details_call_ccew this ident) = Responds w \<and> response_ok w
           \<and> data (parse_response w) = Parsed (Json payload) \<and> registeredCharityNumber payload \<noteq> 0
           \<and> c = transformDetails_ccew (ccew_newDate env) payload"
proof -
  let ?ep = "''/allcharitydetails/GetAllCharityDetailsV2''
       @ buildQueryString [(''registeredCharityNumber'', PStr (strip_non_digits ident))]"
  obtain r s2 where g: "get (ccew_details_api env) this ?ep s = (r, s2)"
    by (cases "get (ccew_details_api env) this ?ep s")
  from miss g res obtain resp payload where r: "r = Inr resp"
    and d: "data resp = Parsed (Json payload)" and nz: "registeredCharityNumber payload \<noteq> 0"
    and c: "c = transformDetails_ccew (ccew_newDate env) payload"
    by (auto simp: getCharity_ccew_def Let_def
             split: sum.splits body_data.splits json.splits if_splits api_error.splits)
  from get_response_from_upstream [OF g [unfolded r]]
  obtain n w where "length (fetched s) \<le> n" "ccew_details_api env n (get_call this ?ep) = Responds w"
    "response_ok w" "resp = parse_response w" by blast
  with d nz c show ?thesis
    by (intro exI [of _ n] exI [of _ w] exI [of _ payload]) (simp add: details_call_ccew_def)
qed

lemma getCharity_oscr_record:
  assumes res: "fst (getCharity_oscr env this ident s) = Inr (Some c)"
  shows "\<exists>n w payload firstCharity rest. length (fetched s) \<le> n
           \<and> oscr_charities_api env n (details_call_oscr this ident) = Responds w \<and> response_ok w
           \<and> data (parse_response w) = Parsed (Json payload)
           \<and> oscr_data payload = Some (firstCharity # rest)
           \<and> c = transformCharity (oscr_newDate env) firstCharity"
proof -
  let ?ep = "''/all_charities'' @ buildQueryString [(''charitynumber'', PStr (SC_number ident))]"
  obtain r s2 where g: "get (oscr_charities_api env) this ?ep s = (r, s2)"
    by (cases "get (oscr_charities_api env) this ?ep s")
  from g res obtain resp payload firstCharity rest where r: "r = Inr resp"
    and d: "data resp = Parsed (Json payload)" and l: "oscr_data payload = Some (firstCharity # rest)"
    and c: "c = transformCharity (oscr_newDate env) firstCharity"
    by (auto simp: getCharity_oscr_def Let_def
             split: sum.splits body_data.splits json.splits if_splits api_error.splits
                    option.splits list.splits)
  from get_response_from_upstream [OF g [unfolded r]]
  obtain n w where "length (fetched s) \<le> n" "oscr_charities_api env n (get_call this ?ep) = Responds w"
    "response_ok w" "resp = parse_response w" by blast
  with d l c show ?thesis
    by (intro exI [of _ n] exI [of _ w] exI [of _ payload] exI [of _ firstCharity] exI [of _ rest])
       (simp add: details_call_oscr_def)
qed

text \<open>
  Claim C6, as amended. \<open>getCharity\<close> of the CCNI client does the same with an
  identifier \<open>b\<close> that does not itself begin with \<open>NIC\<close> and with \<open>b\<close> prefixed by \<open>NIC\<close>
  in any letter case: the same call of \<open>fetch\<close>, with \<open>regId\<close> the bare \<open>b\<close>, the same
  result and the same final state. The same holds for the OSCR client and the prefix
  \<open>SC\<close> when \<open>b\<close> consists of ASCII characters without lower-case letters and does not
  itself begin with \<open>SC\<close>; the number looked up is \<open>SC\<close> followed by \<open>b\<close>. It holds for
  the CCEW client, every \<open>b\<close> and every decoration without digits; the number looked
  up is \<open>b\<close> without its characters that are not digits. The \<open>id\<close> of a returned record
  is taken from the record that the upstream gave in an ok response to that call: for
  CCNI it is \<open>NIC\<close> followed by \<open>String(regCharityNumber)\<close>, for CCEW it is
  \<open>String(registeredCharityNumber)\<close>, without a prefix, and for OSCR it is the
  \<open>charityNumber\<close> of the first record as the upstream gave it; \<open>String\<close> of a number
  that is not negative is its decimal form.
\<close>

theorem getCharity_identifier_forms:
  "(toUpperCase p = ''NIC'' \<and> toUpperCase (take 3 b) \<noteq> ''NIC''
      \<longrightarrow> getCharity_ccni ni this (p @ b) s = getCharity_ccni ni this b s
          \<and> details_call_ccni this (p @ b) = details_call_ccni this b
          \<and> details_call_ccni this b
              = get_call this (''/getCharityDetails''
                  @ buildQueryString [(''regId'', PStr b), (''subId'', PNum 0)]))
   \<and> (toUpperCase q = ''SC'' \<and> list_all (\<lambda>ch. (of_char ch :: nat) < 128) b
        \<and> toUpperCase b = b \<and> \<not> startsWith b ''SC''
      \<longrightarrow> getCharity_oscr sc this (q @ b) s = getCharity_oscr sc this b s
          \<and> details_call_oscr this (q @ b) = details_call_oscr this b
          \<and> details_call_oscr this b
              = get_call this (''/all_charities''
                  @ buildQueryString [(''charitynumber'', PStr (''SC'' @ b))]))
   \<and> (\<not> list_ex is_digit x
      \<longrightarrow> getCharity_ccew ew this (x @ b) s = getCharity_ccew ew this b s
          \<and> details_call_ccew this (x @ b) = details_call_ccew this b
          \<and> details_call_ccew this b
              = get_call this (''/allcharitydetails/GetAllCharityDetailsV2''
                  @ buildQueryString [(''registeredCharityNumber'', PStr (filter is_digit b))]))
   \<and> (getCached (getCacheKey this ''getCharity'' (strip_NIC ident)) s = (None, s)
        \<and> fst (getCharity_ccni ni this ident s) = Inr (Some c)
      \<longrightarrow> (\<exists>n w payload. length (fetched s) \<le> n
             \<and> ccni_details_api ni n (details_call_ccni this ident) = Responds w \<and> response_ok w
             \<and> data (parse_response w) = Parsed (Json payload) \<and> regCharityNumber payload \<noteq> 0
             \<and> c = transformDetails_ccni (ccni_newDate ni) payload
             \<and> charity_id c = ''NIC'' @ string_of_int (regCharityNumber payload)))
   \<and> (getCached (getCacheKey this ''getCharity'' (strip_non_digits ident)) s = (None, s)
        \<and> fst (getCharity_ccew ew this ident s) = Inr (Some c)
      \<longrightarrow> (\<exists>n w payload. length (fetched s) \<le> n
             \<and> ccew_details_api ew n (details_call_ccew this ident) = Responds w \<and> response_ok w
             \<and> data (parse_response w) = Parsed (Json payload) \<and> registeredCharityNumber payload \<noteq> 0
             \<and> c = transformDetails_ccew (ccew_newDate ew) payload
             \<and> charity_id c = string_of_int (registeredCharityNumber payload)))
   \<and> (fst (getCharity_oscr sc this ident s) = Inr (Some c)
      \<longrightarrow> (\<exists>n w payload firstCharity rest. length (fetched s) \<le> n
             \<and> oscr_charities_api sc n (details_call_oscr this ident) = Responds w \<and> response_ok w
             \<and> data (parse_response w) = Parsed (Json payload)
             \<and> oscr_data payload = Some (firstCharity # rest)
             \<and> c = transformCharity (oscr_newDate sc) firstCharity
             \<and> charity_id c = charityNumber firstCharity))
   \<and> charity_id (transformDetails_ccni newDate ni_raw) = ''NIC'' @ string_of_int (regCharityNumber ni_raw)
   \<and> registrationNumber (transformDetails_ccni newDate ni_raw) = string_of_int (regCharityNumber ni_raw)
   \<and> charity_id (transformDetails_ccew newDate ew_raw) = string_of_int (registeredCharityNumber ew_raw)
   \<and> charity_id (transformCharity newDate sc_raw) = charityNumber sc_raw
   \<and> (0 \<le> k \<longrightarrow> list_all is_digit (string_of_int k) \<and> int_of_digits (string_of_int k) = k)"
proof -
  have ids: "charity_id (transformDetails_ccni newDate ni_raw) = ''NIC'' @ string_of_int (regCharityNumber ni_raw)"
    "registrationNumber (transformDetails_ccni newDate ni_raw) = string_of_int (regCharityNumber ni_raw)"
    "charity_id (transformDetails_ccew newDate ew_raw) = string_of_int (registeredCharityNumber ew_raw)"
    "charity_id (transformCharity newDate sc_raw) = charityNumber sc_raw"
    by (simp_all add: transformDetails_ccni_def transformCharity_def transformDetails_ccew_def)
  have A: "toUpperCase p = ''NIC'' \<and> toUpperCase (take 3 b) \<noteq> ''NIC''
      \<longrightarrow> getCharity_ccni ni this (p @ b) s = getCharity_ccni ni this b s
          \<and> details_call_ccni this (p @ b) = details_call_ccni this b
          \<and> details_call_ccni this b
              = get_call this (''/getCharityDetails''
                  @ buildQueryString [(''regId'', PStr b), (''subId'', PNum 0)])"
  proof
    assume h: "toUpperCase p = ''NIC'' \<and> toUpperCase (take 3 b) \<noteq> ''NIC''"
    then have e: "strip_NIC (p @ b) = b" "strip_NIC b = b"
      by (simp_all add: strip_NIC_prefixed strip_NIC_bare)
    then show "getCharity_ccni ni this (p @ b) s = getCharity_ccni ni this b s
          \<and> details_call_ccni this (p @ b) = details_call_ccni this b
          \<and> details_call_ccni this b
              = get_call this (''/getCharityDetails''
                  @ buildQueryString [(''regId'', PStr b), (''subId'', PNum 0)])"
      by (simp add: getCharity_ccni_def details_call_ccni_def)
  qed
  have B: "toUpperCase q = ''SC'' \<and> list_all (\<lambda>ch. (of_char ch :: nat) < 128) b
        \<and> toUpperCase b = b \<and> \<not> startsWith b ''SC''
      \<longrightarrow> getCharity_oscr sc this (q @ b) s = getCharity_oscr sc this b s
          \<and> details_call_oscr this (q @ b) = details_call_oscr this b
          \<and> details_call_oscr this b
              = get_call this (''/all_charities''
                  @ buildQueryString [(''charitynumber'', PStr (''SC'' @ b))])"
  proof
    assume h: "toUpperCase q = ''SC'' \<and> list_all (\<lambda>ch. (of_char ch :: nat) < 128) b
        \<and> toUpperCase b = b \<and> \<not> startsWith b ''SC''"
    then have e: "SC_number (q @ b) = ''SC'' @ b" "SC_number b = ''SC'' @ b"
      by (simp_all add: SC_number_prefixed SC_number_bare)
    then show "getCharity_oscr sc this (q @ b) s = getCharity_oscr sc this b s
          \<and> details_call_oscr this (q @ b) = details_call_oscr this b
          \<and> details_call_oscr this b
              = get_call this (''/all_charities''
                  @ buildQueryString [(''charitynumber'', PStr (''SC'' @ b))])"
      by (simp add: getCharity_oscr_def details_call_oscr_def)
  qed
  have C: "\<not> list_ex is_digit x
      \<longrightarrow> getCharity_ccew ew this (x @ b) s = getCharity_ccew ew this b s
          \<and> details_call_ccew this (x @ b) = details_call_ccew this b
          \<and> details_call_ccew this b
              = get_call this (''/allcharitydetails/GetAllCharityDetailsV2''
                  @ buildQueryString [(''registeredCharityNumber'', PStr (filter is_digit b))])"
  proof
    assume "\<not> list_ex is_digit x"
    then have e: "strip_non_digits (x @ b) = strip_non_digits b"
      by (rule strip_non_digits_decorated)
    then show "getCharity_ccew ew this (x @ b) s = getCharity_ccew ew this b s
          \<and> details_call_ccew this (x @ b) = details_call_ccew this b
          \<and> details_call_ccew this b
              = get_call this (''/allcharitydetails/GetAllCharityDetailsV2''
                  @ buildQueryString [(''registeredCharityNumber'', PStr (filter is_digit b))])"
      by (simp add: getCharity_ccew_def details_call_ccew_def) (simp add: strip_non_digits_def)
  qed
  have D: "getCached (getCacheKey this ''getCharity'' (strip_NIC ident)) s = (None, s)
        \<and> fst (getCharity_ccni ni this ident s) = Inr (Some c)
      \<longrightarrow> (\<exists>n w payload. length (fetched s) \<le> n
             \<and> ccni_details_api ni n (details_call_ccni this ident) = Responds w \<and> response_ok w
             \<and> data (parse_response w) = Parsed (Json payload) \<and> regCharityNumber payload \<noteq> 0
             \<and> c = transformDetails_ccni (ccni_newDate ni) payload
             \<and> charity_id c = ''NIC'' @ string_of_int (regCharityNumber payload))"
  proof
    assume "getCached (getCacheKey this ''getCharity'' (strip_NIC ident)) s = (None, s)
        \<and> fst (getCharity_ccni ni this ident s) = Inr (Some c)"
    then obtain n w payload where "length (fetched s) \<le> n"
      "ccni_details_api ni n (details_call_ccni this ident) = Responds w" "response_ok w"
      "data (parse_response w) = Parsed (Json payload)" "regCharityNumber payload \<noteq> 0"
      "c = transformDetails_ccni (ccni_newDate ni) payload"
      using getCharity_ccni_record [of this ident s ni c] by blast
    then show "\<exists>n w payload. length (fetched s) \<le> n
             \<and> ccni_details_api ni n (details_call_ccni this ident) = Responds w \<and> response_ok w
             \<and> data (parse_response w) = Parsed (Json payload) \<and> regCharityNumber payload \<noteq> 0
             \<and> c = transformDetails_ccni (ccni_newDate ni) payload
             \<and> charity_id c = ''NIC'' @ string_of_int (regCharityNumber payload)"
      by (intro exI [of _ n] exI [of _ w] exI [of _ payload]) (simp add: transformDetails_ccni_def)
  qed
  have E: "getCached (getCacheKey this ''getCharity'' (strip_non_digits ident)) s = (None, s)
        \<and> fst (getCharity_ccew ew this ident s) = Inr (Some c)
      \<longrightarrow> (\<exists>n w payload. length (fetched s) \<le> n
             \<and> ccew_details_api ew n (details_call_ccew this ident) = Responds w \<and> response_ok w
             \<and> data (parse_response w) = Parsed (Json payload) \<and> registeredCharityNumber payload \<noteq> 0
             \<and> c = transformDetails_ccew (ccew_newDate ew) payload
             \<and> charity_id c = string_of_int (registeredCharityNumber payload))"
  proof
    assume "getCached (getCacheKey this ''getCharity'' (strip_non_digits ident)) s = (None, s)
        \<and> fst (getCharity_ccew ew this ident s) = Inr (Some c)"
    then obtain n w payload where "length (fetched s) \<le> n"
      "ccew_details_api ew n (details_call_ccew this ident) = Responds w" "response_ok w"
      "data (parse_response w) = Parsed (Json payload)" "registeredCharityNumber payload \<noteq> 0"
      "c = transformDetails_ccew (ccew_newDate ew) payload"
      using getCharity_ccew_record [of this ident s ew c] by blast
    then show "\<exists>n w payload. length (fetched s) \<le> n
             \<and> ccew_details_api ew n (details_call_ccew this ident) = Responds w \<and> response_ok w
             \<and> data (parse_response w) = Parsed (Json payload) \<and> registeredCharityNumber payload \<noteq> 0
             \<and> c = transformDetails_ccew (ccew_newDate ew) payload
             \<and> charity_id c = string_of_int (registeredCharityNumber payload)"
      by (intro exI [of _ n] exI [of _ w] exI [of _ payload]) (simp add: transformDetails_ccew_def)
  qed
  have F: "fst (getCharity_oscr sc this ident s) = Inr (Some c)
      \<longrightarrow> (\<exists>n w payload firstCharity rest. length (fetched s) \<le> n
             \<and> oscr_charities_api sc n (details_call_oscr this ident) = Responds w \<and> response_ok w
             \<and> data (parse_response w) = Parsed (Json payload)
             \<and> oscr_data payload = Some (firstCharity # rest)
             \<and> c = transformCharity (oscr_newDate sc) firstCharity
             \<and> charity_id c = charityNumber firstCharity)"
  proof
    assume "fst (getCharity_oscr sc this ident s) = Inr (Some c)"
    then obtain n w payload firstCharity rest where "length (fetched s) \<le> n"
      "oscr_charities_api sc n (details_call_oscr this ident) = Responds w" "response_ok w"
      "data (parse_response w) = Parsed (Json payload)" "oscr_data payload = Some (firstCharity # rest)"
      "c = transformCharity (oscr_newDate sc) firstCharity"
      using getCharity_oscr_record [of sc this ident s c] by blast
    then show "\<exists>n w payload firstCharity rest. length (fetched s) \<le> n
             \<and> oscr_charities_api sc n (details_call_oscr this ident) = Responds w \<and> response_ok w
             \<and> data (parse_response w) = Parsed (Json payload)
             \<and> oscr_data payload = Some (firstCharity # rest)
             \<and> c = transformCharity (oscr_newDate sc) firstCharity
             \<and> charity_id c = charityNumber firstCharity"
      by (intro exI [of _ n] exI [of _ w] exI [of _ payload] exI [of _ firstCharity] exI [of _ rest])
         (simp add: transformCharity_def)
  qed
  have G: "0 \<le> k \<longrightarrow> list_all is_digit (string_of_int k) \<and> int_of_digits (string_of_int k) = k"
    using string_of_int_decimal [of k] by blast
  from A B C D E F ids G show ?thesis by (intro conjI)
qed

lemma getCharity_ccni_example:
  "fst (getCharity_ccni ccni_details_env (example_client CCNI) ''nic100002'' (initial_state None))
     = Inr (Some (transformDetails_ccni (ccni_newDate ccni_details_env) ccni_example_details))"
proof -
  have "regCharityNumber ccni_example_details \<noteq> 0" by (simp add: ccni_example_details_def)
  then show ?thesis
    by (simp add: getCharity_ccni_def ccni_details_env_def get_final Let_def)
qed

lemma getCharity_ccew_example:
  "fst (getCharity_ccew ccew_details_env (example_client CCEW) ''CC-1234567'' (initial_state None))
     = Inr (Some (transformDetails_ccew (ccew_newDate ccew_details_env) ccew_example_details))"
proof -
  have "registeredCharityNumber ccew_example_details \<noteq> 0" by (simp add: ccew_example_details_def)
  then show ?thesis
    by (simp add: getCharity_ccew_def ccew_details_env_def get_final Let_def)
qed

lemma getCharity_oscr_example:
  "fst (getCharity_oscr oscr_example_env (example_client OSCR) ''sc000001'' (initial_state None))
     = Inr (Some (transformCharity (oscr_newDate oscr_example_env) oscr_example_charity))"
  by (simp add: getCharity_oscr_def oscr_example_env_def get_final Let_def)

theorem getCharity_identifier_forms_witness:
  "getCharity_ccni ccni_details_env (example_client CCNI) ''nic100002'' (initial_state None)
     = getCharity_ccni ccni_details_env (example_client CCNI) ''100002'' (initial_state None)
   \<and> details_call_ccni (example_client CCNI) ''nic100002'' = details_call_ccni (example_client CCNI) ''100002''
   \<and> getCharity_oscr oscr_example_env (example_client OSCR) ''sc000001'' (initial_state None)
     = getCharity_oscr oscr_example_env (example_client OSCR) ''000001'' (initial_state None)
   \<and> details_call_oscr (example_client OSCR) ''sc000001'' = details_call_oscr (example_client OSCR) ''000001''
   \<and> getCharity_ccew ccew_details_env (example_client CCEW) ''CC-1234567'' (initial_state None)
     = getCharity_ccew ccew_details_env (example_client CCEW) ''1234567'' (initial_state None)
   \<and> details_call_ccew (example_client CCEW) ''CC-1234567'' = details_call_ccew (example_client CCEW) ''1234567''
   \<and> fst (getCharity_ccni ccni_details_env (example_client CCNI) ''nic100002'' (initial_state None))
       = Inr (Some (transformDetails_ccni (ccni_newDate ccni_details_env) ccni_example_details))
   \<and> charity_id (transformDetails_ccni (ccni_newDate ccni_details_env) ccni_example_details) = ''NIC100002''
   \<and> fst (getCharity_ccew ccew_details_env (example_client CCEW) ''CC-1234567'' (initial_state None))
       = Inr (Some (transformDetails_ccew (ccew_newDate ccew_details_env) ccew_example_details))
   \<and> charity_id (transformDetails_ccew (ccew_newDate ccew_details_env) ccew_example_details) = ''1234567''
   \<and> fst (getCharity_oscr oscr_example_env (example_client OSCR) ''sc000001'' (initial_state None))
       = Inr (Some (transformCharity (oscr_newDate oscr_example_env) oscr_example_charity))
   \<and> charity_id (transformCharity (oscr_newDate oscr_example_env) oscr_example_charity) = ''SC000001''
   \<and> list_all is_digit (string_of_int 100002) \<and> int_of_digits (string_of_int 100002) = 100002"
proof -
  let ?s0 = "initial_state None"
  let ?cni = "transformDetails_ccni (ccni_newDate ccni_details_env) ccni_example_details"
  let ?cew = "transformDetails_ccew (ccew_newDate ccew_details_env) ccew_example_details"
  let ?csc = "transformCharity (oscr_newDate oscr_example_env) oscr_example_charity"
  note ni = getCharity_identifier_forms
    [where p = "''nic''" and b = "''100002''" and ni = ccni_details_env and this = "example_client CCNI"
       and s = ?s0 and ident = "''nic100002''" and c = ?cni and k = 100002]
  note ew = getCharity_identifier_forms
    [where x = "''CC-''" and b = "''1234567''" and ew = ccew_details_env and this = "example_client CCEW"
       and s = ?s0 and ident = "''CC-1234567''" and c = ?cew]
  note sc = getCharity_identifier_forms
    [where q = "''sc''" and b = "''000001''" and sc = oscr_example_env and this = "example_client OSCR"
       and s = ?s0 and ident = "''sc000001''" and c = ?csc]
  have h1: "toUpperCase ''nic'' = ''NIC'' \<and> toUpperCase (take 3 ''100002'') \<noteq> ''NIC''"
    by code_simp
  have h2: "toUpperCase ''sc'' = ''SC'' \<and> list_all (\<lambda>ch. (of_char ch :: nat) < 128) ''000001''
        \<and> toUpperCase ''000001'' = ''000001'' \<and> \<not> startsWith ''000001'' ''SC''"
    by code_simp
  have h3: "\<not> list_ex is_digit ''CC-''" by code_simp
  from ni [THEN conjunct1, THEN mp, OF h1]
  have a: "getCharity_ccni ccni_details_env (example_client CCNI) ''nic100002'' ?s0
             = getCharity_ccni ccni_details_env (example_client CCNI) ''100002'' ?s0"
    and a': "details_call_ccni (example_client CCNI) ''nic100002'' = details_call_ccni (example_client CCNI) ''100002''"
    by simp_all
  from sc [THEN conjunct2, THEN conjunct1, THEN mp, OF h2]
  have b: "getCharity_oscr oscr_example_env (example_client OSCR) ''sc000001'' ?s0
             = getCharity_oscr oscr_example_env (example_client OSCR) ''000001'' ?s0"
    and b': "details_call_oscr (example_client OSCR) ''sc000001'' = details_call_oscr (example_client OSCR) ''000001''"
    by simp_all
  from ew [THEN conjunct2, THEN conjunct2, THEN conjunct1, THEN mp, OF h3]
  have c: "getCharity_ccew ccew_details_env (example_client CCEW) ''CC-1234567'' ?s0
             = getCharity_ccew ccew_details_env (example_client CCEW) ''1234567'' ?s0"
    and c': "details_call_ccew (example_client CCEW) ''CC-1234567'' = details_call_ccew (example_client CCEW) ''1234567''"
    by simp_all
  have m1: "getCached (getCacheKey (example_client CCNI) ''getCharity'' (strip_NIC ''nic100002'')) ?s0 = (None, ?s0)"
    and m2: "getCached (getCacheKey (example_client CCEW) ''getCharity'' (strip_non_digits ''CC-1234567'')) ?s0
               = (None, ?s0)"
    by simp_all
  from ni [THEN conjunct2, THEN conjunct2, THEN conjunct2, THEN conjunct1, THEN mp,
           OF conjI [OF m1 getCharity_ccni_example]]
  obtain n w payload where "ccni_details_api ccni_details_env n (details_call_ccni (example_client CCNI) ''nic100002'')
        = Responds w" "data (parse_response w) = Parsed (Json payload)"
    "charity_id ?cni = ''NIC'' @ string_of_int (regCharityNumber payload)"
    by blast
  then have "payload = ccni_example_details" by (auto simp: ccni_details_env_def)
  with \<open>charity_id ?cni = ''NIC'' @ string_of_int (regCharityNumber payload)\<close>
  have "charity_id ?cni = ''NIC'' @ string_of_int 100002" by (simp add: ccni_example_details_def)
  moreover have "string_of_int 100002 = ''100002''" by code_simp
  ultimately have d: "charity_id ?cni = ''NIC100002''" by simp
  from ew [THEN conjunct2, THEN conjunct2, THEN conjunct2, THEN conjunct2, THEN conjunct1, THEN mp,
           OF conjI [OF m2 getCharity_ccew_example]]
  obtain n' w' payload' where "ccew_details_api ccew_details_env n' (details_call_ccew (example_client CCEW) ''CC-1234567'')
        = Responds w'" "data (parse_response w') = Parsed (Json payload')"
    "charity_id ?cew = string_of_int (registeredCharityNumber payload')"
    by blast
  then have "payload' = ccew_example_details" by (auto simp: ccew_details_env_def)
  with \<open>charity_id ?cew = string_of_int (registeredCharityNumber payload')\<close>
  have "charity_id ?cew = string_of_int 1234567" by (simp add: ccew_example_details_def)
  moreover have "string_of_int 1234567 = ''1234567''" by code_simp
  ultimately have e: "charity_id ?cew = ''1234567''" by simp
  from sc [THEN conjunct2, THEN conjunct2, THEN conjunct2, THEN conjunct2, THEN conjunct2, THEN conjunct1,
           THEN mp, OF getCharity_oscr_example]
  obtain n'' w'' payload'' firstCharity rest
    where "oscr_charities_api oscr_example_env n'' (details_call_oscr (example_client OSCR) ''sc000001'')
        = Responds w''" "data (parse_response w'') = Parsed (Json payload'')"
    "oscr_data payload'' = Some (firstCharity # rest)"
    "charity_id ?csc = charityNumber firstCharity"
    by blast
  then have "firstCharity = oscr_example_charity" by (auto simp: oscr_example_env_def)
  with \<open>charity_id ?csc = charityNumber firstCharity\<close>
  have f: "charity_id ?csc = ''SC000001''" by (simp add: oscr_example_charity_def)
  from ni [THEN conjunct2, THEN conjunct2, THEN conjunct2, THEN conjunct2, THEN conjunct2, THEN conjunct2,
           THEN conjunct2, THEN conjunct2, THEN conjunct2, THEN conjunct2]
  have g: "list_all is_digit (string_of_int 100002) \<and> int_of_digits (string_of_int 100002) = 100002"
    by simp
  from a a' b b' c c' d e f g getCharity_ccni_example getCharity_ccew_example getCharity_oscr_example
  show ?thesis by (intro conjI) simp_all
qed

text \<open>
  Claim C6 as stated fails for the OSCR client and an identifier with a lower-case
  letter: for \<open>a1\<close> the number looked up is \<open>SCa1\<close>, for the same identifier with the
  prefix in lower case, \<open>sca1\<close>, it is \<open>SCA1\<close>, so the two forms give different requests.
\<close>

theorem getCharity_oscr_letter_case_counterexample:
  "fetched (snd (getCharity_oscr oscr_example_env (example_client OSCR) ''a1'' (initial_state None)))
     = [get_call (example_client OSCR) ''/all_charities?charitynumber=SCa1'']
   \<and> fetched (snd (getCharity_oscr oscr_example_env (example_client OSCR) ''sca1'' (initial_state None)))
     = [get_call (example_client OSCR) ''/all_charities?charitynumber=SCA1'']
   \<and> fetched (snd (getCharity_oscr oscr_example_env (example_client OSCR) ''a1'' (initial_state None)))
     \<noteq> fetched (snd (getCharity_oscr oscr_example_env (example_client OSCR) ''sca1'' (initial_state None)))"
proof -
  have q1: "''/all_charities'' @ buildQueryString [(''charitynumber'', PStr (SC_number ''a1''))]
            = ''/all_charities?charitynumber=SCa1''"
    and q2: "''/all_charities'' @ buildQueryString [(''charitynumber'', PStr (SC_number ''sca1''))]
            = ''/all_charities?charitynumber=SCA1''"
    by code_simp+
  have f1: "fetched (snd (getCharity_oscr oscr_example_env (example_client OSCR) ''a1'' (initial_state None)))
     = [get_call (example_client OSCR) ''/all_charities?charitynumber=SCa1'']"
    by (simp add: getCharity_oscr_def oscr_example_env_def get_final Let_def q1 del: append.simps)
       (simp add: initial_state_def)
  have f2: "fetched (snd (getCharity_oscr oscr_example_env (example_client OSCR) ''sca1'' (initial_state None)))
     = [get_call (example_client OSCR) ''/all_charities?charitynumber=SCA1'']"
    by (simp add: getCharity_oscr_def oscr_example_env_def get_final Let_def q2 del: append.simps)
       (simp add: initial_state_def)
  have "call_url (get_call (example_client OSCR) ''/all_charities?charitynumber=SCa1'')
      \<noteq> call_url (get_call (example_client OSCR) ''/all_charities?charitynumber=SCA1'')"
    by (simp add: get_call_def)
  then have "get_call (example_client OSCR) ''/all_charities?charitynumber=SCa1''
      \<noteq> get_call (example_client OSCR) ''/all_charities?charitynumber=SCA1''" by auto
  with f1 f2 show ?thesis by simp
qed

end
